(* ===== verification/Prelude.thy ===== *)
theory Prelude
  imports Complex_Main "HOL-Library.AList"
begin

text \<open>
  Shared vocabulary of the development: Python exceptions as a datatype and
  fallible results as the sum type \<open>py_error + 'a\<close>, a bind on that sum
  (the sequential propagation of a raised exception), Python dicts as
  association lists kept in insertion order, and the named theorem
  collections the component theories add to.
\<close>

named_theorems result_simps "how the result bind and its lifting to lists compute"
named_theorems dict_simps "lookups in Python dicts modelled as association lists"

section \<open>Python exceptions and fallible results\<close>

text \<open>
  The exception classes the program raises or can receive. A
  \<open>StatisticsError\<close> is a subclass of \<open>ValueError\<close> in Python, which
  \<open>is_value_error\<close> records: a clause \<open>except ValueError\<close> catches both.
  \<open>IndexError\<close>, \<open>NameError\<close> and \<open>ZeroDivisionError\<close> are not caught by
  the command loop of the program and end the process.
\<close>

datatype py_error =
    ValueError string
  | StatisticsError string
  | TypeError string
  | NameError string
  | IndexError string
  | ZeroDivisionError string
  | KeyError string

fun is_value_error :: "py_error \<Rightarrow> bool" where
  "is_value_error (ValueError _) = True"
| "is_value_error (StatisticsError _) = True"
| "is_value_error _ = False"

text \<open>\<open>str(e)\<close> of an exception raised with a single message argument.\<close>

fun error_message :: "py_error \<Rightarrow> string" where
  "error_message (ValueError m) = m"
| "error_message (StatisticsError m) = m"
| "error_message (TypeError m) = m"
| "error_message (NameError m) = m"
| "error_message (IndexError m) = m"
| "error_message (ZeroDivisionError m) = m"
| "error_message (KeyError m) = m"

type_synonym 'a result = "py_error + 'a"

text \<open>Sequencing of two statements: an exception raised by the first skips the second.\<close>

fun rbind :: "'a result \<Rightarrow> ('a \<Rightarrow> 'b result) \<Rightarrow> 'b result" where
  "rbind (Inl e) f = Inl e"
| "rbind (Inr a) f = f a"

text \<open>Applying a fallible function to each element, left to right, stopping at the first exception.\<close>

fun map_result :: "('a \<Rightarrow> 'b result) \<Rightarrow> 'a list \<Rightarrow> 'b list result" where
  "map_result f [] = Inr []"
| "map_result f (x # xs) = rbind (f x) (\<lambda>y. rbind (map_result f xs) (\<lambda>ys. Inr (y # ys)))"

section \<open>Python dicts\<close>

text \<open>
  A dict with string keys is an association list without duplicate keys, in
  insertion order (the iteration order of Python 3.7 and later).
  \<open>d[k] = v\<close> keeps the position of an existing key and appends a new one,
  which is exactly \<^const>\<open>AList.update\<close>.
\<close>

type_synonym 'v dict = "(string \<times> 'v) list"

definition dict_set :: "string \<Rightarrow> 'v \<Rightarrow> 'v dict \<Rightarrow> 'v dict" where
  "dict_set k v d = AList.update k v d"

definition dict_contains :: "'v dict \<Rightarrow> string \<Rightarrow> bool" where
  "dict_contains d k \<longleftrightarrow> map_of d k \<noteq> None"

definition dict_keys :: "'v dict \<Rightarrow> string list" where
  "dict_keys d = map fst d"

text \<open>\<open>d[k]\<close>: a missing key raises \<open>KeyError\<close>; the program only subscripts after a membership test.\<close>

definition dict_get :: "'v dict \<Rightarrow> string \<Rightarrow> 'v option" where
  "dict_get d k = map_of d k"

definition dict_getitem :: "'v dict \<Rightarrow> string \<Rightarrow> 'v result" where
  "dict_getitem d k = (case dict_get d k of Some v \<Rightarrow> Inr v | None \<Rightarrow> Inl (KeyError k))"

section \<open>Lemmas\<close>

lemma rbind_eq_Inr [result_simps]:
  "rbind m f = Inr b \<longleftrightarrow> (\<exists>a. m = Inr a \<and> f a = Inr b)"
  by (cases m) auto

lemma rbind_eq_Inl [result_simps]:
  "rbind m f = Inl e \<longleftrightarrow> m = Inl e \<or> (\<exists>a. m = Inr a \<and> f a = Inl e)"
  by (cases m) auto

lemma map_result_Inr [result_simps]:
  "map_result f xs = Inr ys \<longleftrightarrow> list_all2 (\<lambda>x y. f x = Inr y) xs ys"
proof (induction xs arbitrary: ys)
  case Nil
  then show ?case by auto
next
  case (Cons x xs)
  then show ?case by (cases "f x"; cases ys) (auto simp: rbind_eq_Inr)
qed

lemma map_result_all_Inr [result_simps]:
  "(\<forall>x\<in>set xs. f x = Inr (g x)) \<Longrightarrow> map_result f xs = Inr (map g xs)"
  by (induction xs) auto

text \<open>A sum of positive terms over a non-empty list is positive (for \<open>int\<close> volumes and \<open>real\<close> prices).\<close>

lemma sum_list_pos:
  fixes f :: "'a \<Rightarrow> 'b::linordered_idom"
  shows "\<forall>x\<in>set xs. 0 < f x \<Longrightarrow> xs \<noteq> [] \<Longrightarrow> 0 < (\<Sum>x\<leftarrow>xs. f x)"
proof (induction xs)
  case Nil
  then show ?case by simp
next
  case (Cons x xs)
  then show ?case by (cases "xs = []") (auto intro: add_pos_pos)
qed

text \<open>Weighted sums, for averages: a bound on every value bounds the weighted sum.\<close>

lemma of_int_sum_list_map: "of_int (\<Sum>x\<leftarrow>xs. f x) = (\<Sum>x\<leftarrow>xs. (of_int (f x) :: real))"
  by (induction xs) auto

lemma weighted_sum_le:
  fixes P :: "'a \<Rightarrow> real"
  assumes "\<forall>x\<in>set xs. P x \<le> c" and "\<forall>x\<in>set xs. 0 \<le> w x"
  shows "(\<Sum>x\<leftarrow>xs. P x * w x) \<le> c * (\<Sum>x\<leftarrow>xs. w x)"
  using assms by (induction xs) (auto simp: distrib_left intro: add_mono mult_right_mono)

lemma weighted_sum_ge:
  fixes P :: "'a \<Rightarrow> real"
  assumes "\<forall>x\<in>set xs. c \<le> P x" and "\<forall>x\<in>set xs. 0 \<le> w x"
  shows "c * (\<Sum>x\<leftarrow>xs. w x) \<le> (\<Sum>x\<leftarrow>xs. P x * w x)"
  using assms by (induction xs) (auto simp: distrib_left intro: add_mono mult_right_mono)



lemma dict_contains_iff [dict_simps]: "dict_contains d k \<longleftrightarrow> k \<in> set (dict_keys d)"
  by (auto simp: dict_contains_def dict_keys_def map_of_eq_None_iff)

lemma dict_get_set [dict_simps]: "dict_get (dict_set k v d) k' = (if k' = k then Some v else dict_get d k')"
  by (simp add: dict_get_def dict_set_def update_conv')

lemma dict_keys_set_distinct [dict_simps]:
  "distinct (dict_keys d) \<Longrightarrow> distinct (dict_keys (dict_set k v d))"
  by (simp add: dict_keys_def dict_set_def distinct_update)

lemma dict_get_in_values [dict_simps]:
  "dict_get d k = Some v \<Longrightarrow> v \<in> snd ` set d"
  by (force simp: dict_get_def dest: map_of_SomeD)

end
