(* ===== verification/PyFloat.thy ===== *)
theory PyFloat
  imports Prelude
begin

text \<open>
  Python's \<open>float\<close> as the program uses it. A finite float is idealised as
  the exact real it denotes: rounding, overflow to infinity, underflow and
  the sign of zero are not modelled. The non-finite values are kept, since
  \<open>float('nan')\<close> and \<open>float('inf')\<close> reach the program from its input and
  pass its validation: the IEEE rules of \<open>+\<close>, \<open>*\<close>, \<open>/\<close> and \<open><=\<close> for
  them are written out, as are the rules of \<open>math.log\<close>, \<open>math.exp\<close> and
  \<open>math.fsum\<close> that \<open>statistics.geometric_mean\<close> uses.
\<close>

named_theorems pyfloat_simps "IEEE operations on the idealised Python floats"

datatype pyfloat = Fin real | PosInf | NegInf | NaN

text \<open>The sign of a non-NaN value, and the infinity of a given sign (NaN for sign 0: \<open>0 * inf\<close>).\<close>

fun pf_sgn :: "pyfloat \<Rightarrow> real" where
  "pf_sgn (Fin a) = sgn a"
| "pf_sgn PosInf = 1"
| "pf_sgn NegInf = -1"
| "pf_sgn NaN = 0"

definition inf_of_sign :: "real \<Rightarrow> pyfloat" where
  "inf_of_sign s = (if 0 < s then PosInf else if s < 0 then NegInf else NaN)"

fun pf_add :: "pyfloat \<Rightarrow> pyfloat \<Rightarrow> pyfloat" where
  "pf_add (Fin a) (Fin b) = Fin (a + b)"
| "pf_add NaN y = NaN"
| "pf_add x NaN = NaN"
| "pf_add PosInf NegInf = NaN"
| "pf_add NegInf PosInf = NaN"
| "pf_add PosInf y = PosInf"
| "pf_add x PosInf = PosInf"
| "pf_add NegInf y = NegInf"
| "pf_add x NegInf = NegInf"

fun pf_mul :: "pyfloat \<Rightarrow> pyfloat \<Rightarrow> pyfloat" where
  "pf_mul (Fin a) (Fin b) = Fin (a * b)"
| "pf_mul NaN y = NaN"
| "pf_mul x NaN = NaN"
| "pf_mul x y = inf_of_sign (pf_sgn x * pf_sgn y)"

text \<open>\<open>x / y\<close> for a non-zero divisor: finite over infinite is 0, infinite over finite keeps the sign.\<close>

fun pf_div :: "pyfloat \<Rightarrow> pyfloat \<Rightarrow> pyfloat" where
  "pf_div (Fin a) (Fin b) = Fin (a / b)"
| "pf_div NaN y = NaN"
| "pf_div x NaN = NaN"
| "pf_div (Fin a) y = Fin 0"
| "pf_div x (Fin b) = inf_of_sign (pf_sgn x * sgn b)"
| "pf_div x y = NaN"

text \<open>Python raises \<open>ZeroDivisionError\<close> for a float division by zero, whatever the dividend.\<close>

definition py_truediv :: "pyfloat \<Rightarrow> pyfloat \<Rightarrow> pyfloat result" where
  "py_truediv x y = (if y = Fin 0 then Inl (ZeroDivisionError ''float division by zero'') else Inr (pf_div x y))"

text \<open>\<open>x <= y\<close>: every comparison with NaN is false.\<close>

fun pf_le :: "pyfloat \<Rightarrow> pyfloat \<Rightarrow> bool" where
  "pf_le NaN y = False"
| "pf_le x NaN = False"
| "pf_le NegInf y = True"
| "pf_le x PosInf = True"
| "pf_le PosInf y = False"
| "pf_le x NegInf = False"
| "pf_le (Fin a) (Fin b) = (a \<le> b)"

text \<open>\<open>math.log\<close> (natural logarithm): a domain error for non-positive arguments.\<close>

fun py_log :: "pyfloat \<Rightarrow> pyfloat result" where
  "py_log (Fin a) = (if 0 < a then Inr (Fin (ln a)) else Inl (ValueError ''math domain error''))"
| "py_log PosInf = Inr PosInf"
| "py_log NegInf = Inl (ValueError ''math domain error'')"
| "py_log NaN = Inr NaN"

text \<open>\<open>math.exp\<close>; the \<open>OverflowError\<close> for huge finite arguments is part of the rounding that is not modelled.\<close>

fun py_exp :: "pyfloat \<Rightarrow> pyfloat" where
  "py_exp (Fin a) = Fin (exp a)"
| "py_exp PosInf = PosInf"
| "py_exp NegInf = Fin 0"
| "py_exp NaN = NaN"

text \<open>
  The real logarithm and exponential have no executable code; their two
  float versions are left out of evaluation by \<open>code_simp\<close>, and proofs
  that reach them unfold \<open>py_log.simps\<close> and \<open>py_exp.simps\<close> by name.
\<close>

declare py_log.simps [code del] py_exp.simps [code del]

text \<open>
  \<open>math.fsum\<close>: the exact sum of the finite summands; non-finite summands are
  accumulated apart, and both infinities together raise \<open>ValueError\<close>.
\<close>

definition py_fsum :: "pyfloat list \<Rightarrow> pyfloat result" where
  "py_fsum xs = (if PosInf \<in> set xs \<and> NegInf \<in> set xs then Inl (ValueError ''-inf + inf in fsum'')
                 else Inr (foldl pf_add (Fin 0) xs))"

section \<open>Facts about the finite and positive values\<close>

definition pf_pos :: "pyfloat \<Rightarrow> bool" where
  "pf_pos x \<longleftrightarrow> (\<exists>a. x = Fin a \<and> 0 < a)"

lemma pf_le_zero_iff [pyfloat_simps]:
  "pf_le x (Fin 0) \<longleftrightarrow> (\<exists>a. x = Fin a \<and> a \<le> 0) \<or> x = NegInf"
  by (cases x) auto

lemma not_pf_le_zero [pyfloat_simps]:
  "\<not> pf_le x (Fin 0) \<longleftrightarrow> pf_pos x \<or> x = PosInf \<or> x = NaN"
  by (cases x) (auto simp: pf_pos_def)

lemma pf_pos_Fin [simp, pyfloat_simps]: "pf_pos (Fin a) \<longleftrightarrow> 0 < a"
  by (simp add: pf_pos_def)

lemma foldl_pf_add_Fin [pyfloat_simps]:
  "foldl pf_add (Fin a) (map (\<lambda>x. Fin (f x)) xs) = Fin (a + (\<Sum>x\<leftarrow>xs. f x))"
  by (induction xs arbitrary: a) (simp_all add: algebra_simps)

lemma py_fsum_Fin [pyfloat_simps]: "py_fsum (map (\<lambda>x. Fin (f x)) xs) = Inr (Fin (\<Sum>x\<leftarrow>xs. f x))"
  by (auto simp: py_fsum_def foldl_pf_add_Fin)

lemma py_log_pos [pyfloat_simps]: "0 < a \<Longrightarrow> py_log (Fin a) = Inr (Fin (ln a))"
  by simp

lemma map_result_py_log_pos [pyfloat_simps]:
  "\<forall>a\<in>set xs. 0 < a \<Longrightarrow> map_result py_log (map Fin xs) = Inr (map (\<lambda>a. Fin (ln a)) xs)"
  using map_result_all_Inr [of "map Fin xs" py_log "\<lambda>x. case x of Fin a \<Rightarrow> Fin (ln a) | _ \<Rightarrow> NaN"]
  by (auto simp: comp_def)

lemma prod_list_pos_real:
  "\<forall>a\<in>set xs. (0::real) < a \<Longrightarrow> 0 < prod_list xs"
  by (induction xs) auto

lemma ln_prod_list_pos:
  "\<forall>a\<in>set xs. (0::real) < a \<Longrightarrow> ln (prod_list xs) = sum_list (map ln xs)"
proof (induction xs)
  case Nil
  then show ?case by simp
next
  case (Cons a xs)
  then have "0 < a" and "0 < prod_list xs" by (auto intro: prod_list_pos_real)
  with Cons show ?case by (simp add: ln_mult)
qed

end
