(* ===== verification/Binary64.thy ===== *)
theory Binary64
  imports PyFloat "HOL-Library.Log_Nat"
begin

text \<open>
  Python's \<open>float\<close> is IEEE 754 binary64: a 53-bit significand, the last
  place of a finite value at \<open>2 ^ q\<close> with \<open>-1074 <= q <= 971\<close> (the
  subnormals sharing \<open>q = -1074\<close>), rounding to nearest with ties to even,
  and overflow to infinity from the threshold \<open>(2 - 2 ^ -53) * 2 ^ 1023\<close>.
  This theory gives that rounding for a non-negative fraction \<open>a / b\<close> of
  integers, the only values the program rounds: \<open>float()\<close> of a decimal
  text converts its exact value with one rounding. The rounding is computed
  with integer and rational arithmetic only (\<open>bitlen\<close> gives the binary
  exponent), so it evaluates.
\<close>

text \<open>\<open>2 ^ e\<close> for an integer exponent.\<close>

definition pow2 :: "int \<Rightarrow> real" where
  "pow2 e = (if 0 \<le> e then 2 ^ nat e else 1 / 2 ^ nat (- e))"

text \<open>Rounding to the nearest integer, ties to the even one.\<close>

definition round_even :: "real \<Rightarrow> int" where
  "round_even x =
     (let f = \<lfloor>x\<rfloor>; d = x - of_int f in
      if d < 1 / 2 then f else if 1 / 2 < d then f + 1 else if even f then f else f + 1)"

text \<open>The overflow threshold and the largest finite value.\<close>

definition b64_threshold_int :: int where
  "b64_threshold_int = 2 ^ 1024 - 2 ^ 970"

definition b64_threshold :: real where
  "b64_threshold = of_int b64_threshold_int"

definition b64_largest :: real where
  "b64_largest = 2 ^ 1024 - 2 ^ 971"

text \<open>\<open>2 ^ e <= a / b\<close> for \<open>b > 0\<close>, decided on integers.\<close>

definition pow2_le_frac :: "int \<Rightarrow> int \<Rightarrow> int \<Rightarrow> bool" where
  "pow2_le_frac e a b = (if 0 \<le> e then 2 ^ nat e * b \<le> a else b \<le> a * 2 ^ nat (- e))"

text \<open>The binary exponent \<open>e\<close> of a positive \<open>a / b\<close>: \<open>2 ^ e <= a / b < 2 ^ (e + 1)\<close>.\<close>

definition frac_exp :: "int \<Rightarrow> int \<Rightarrow> int" where
  "frac_exp a b = (let e0 = bitlen a - bitlen b in if pow2_le_frac e0 a b then e0 else e0 - 1)"

text \<open>The exponent of the last place of the result: 52 below the binary exponent, never below \<open>-1074\<close>.\<close>

definition ulp_exp :: "int \<Rightarrow> int \<Rightarrow> int" where
  "ulp_exp a b = max (frac_exp a b - 52) (-1074)"

text \<open>\<open>n / d\<close> rounded to the nearest integer, ties to even, for \<open>d > 0\<close>.\<close>

definition round_div :: "int \<Rightarrow> int \<Rightarrow> int" where
  "round_div n d =
     (let f = n div d; r = n mod d in
      if 2 * r < d then f else if d < 2 * r then f + 1 else if even f then f else f + 1)"

text \<open>\<open>a / b\<close> rounded to the multiples of \<open>2 ^ q\<close>, \<open>q\<close> its last place.\<close>

definition round_frac :: "int \<Rightarrow> int \<Rightarrow> real" where
  "round_frac a b =
     (if a = 0 then 0
      else let q = ulp_exp a b in
        of_int (if 0 \<le> q then round_div a (b * 2 ^ nat q) else round_div (a * 2 ^ nat (- q)) b) * pow2 q)"

text \<open>The float nearest to \<open>a / b\<close> (negated if \<open>neg\<close>), infinite from the threshold on.\<close>

definition b64_of_frac :: "bool \<Rightarrow> int \<Rightarrow> int \<Rightarrow> pyfloat" where
  "b64_of_frac neg a b =
     (if b64_threshold_int * b \<le> a then (if neg then NegInf else PosInf)
      else Fin (if neg then - round_frac a b else round_frac a b))"


section \<open>Lemmas\<close>

lemma pow2_powr: "pow2 e = 2 powr of_int e"
proof (cases "0 \<le> e")
  case True
  have "(2::real) powr of_int e = 2 powr real (nat e)" using True by simp
  also have "\<dots> = 2 ^ nat e" by (rule powr_realpow) simp
  finally show ?thesis using True by (simp add: pow2_def)
next
  case False
  have "(2::real) powr of_int e = 2 powr (- real (nat (- e)))" using False by simp
  also have "\<dots> = 1 / 2 ^ nat (- e)" by (simp add: powr_minus_divide powr_realpow)
  finally show ?thesis using False by (simp add: pow2_def)
qed

lemma pow2_add: "pow2 (a + b) = pow2 a * pow2 b"
  by (simp add: pow2_powr powr_add)

lemma pow2_pos [simp]: "0 < pow2 e"
  by (simp add: pow2_powr)

lemma pow2_neq_0 [simp]: "pow2 e \<noteq> 0"
  using pow2_pos [of e] by linarith

lemma pow2_mono: "a \<le> b \<Longrightarrow> pow2 a \<le> pow2 b"
  by (simp add: pow2_powr)

lemma pow2_of_nat: "pow2 (int n) = 2 ^ n"
  by (simp add: pow2_def)

lemma pow2_le_frac_iff:
  assumes "0 < b"
  shows "pow2_le_frac e a b \<longleftrightarrow> pow2 e \<le> of_int a / of_int b"
proof -
  have bpos: "(0::real) < of_int b" using assms by simp
  show ?thesis
  proof (cases "0 \<le> e")
    case True
    have c: "(of_int (2 ^ nat e * b) :: real) = 2 ^ nat e * of_int b" by simp
    have "pow2 e \<le> of_int a / of_int b \<longleftrightarrow> 2 ^ nat e * of_int b \<le> (of_int a :: real)"
      using True bpos by (simp add: pow2_def pos_le_divide_eq)
    also have "\<dots> \<longleftrightarrow> 2 ^ nat e * b \<le> a" unfolding c [symmetric] by (rule of_int_le_iff)
    finally show ?thesis using True by (simp add: pow2_le_frac_def)
  next
    case False
    let ?x = "(2::real) ^ nat (- e)"
    have xpos: "0 < ?x" by simp
    have c: "(of_int (a * 2 ^ nat (- e)) :: real) = of_int a * ?x" by simp
    have "pow2 e \<le> of_int a / of_int b \<longleftrightarrow> 1 / ?x * of_int b \<le> of_int a"
      using False bpos by (simp add: pow2_def pos_le_divide_eq)
    also have "\<dots> \<longleftrightarrow> of_int b \<le> of_int a * ?x"
      using xpos by (simp add: divide_le_eq mult.commute)
    also have "\<dots> \<longleftrightarrow> b \<le> a * 2 ^ nat (- e)" unfolding c [symmetric] by (rule of_int_le_iff)
    finally show ?thesis using False by (simp add: pow2_le_frac_def)
  qed
qed

lemma round_div_eq:
  assumes "0 < d"
  shows "round_div n d = round_even (of_int n / of_int d)"
proof -
  let ?f = "n div d" and ?r = "n mod d"
  have dpos: "(0::real) < of_int d" using assms by simp
  have fl: "\<lfloor>of_int n / of_int d :: real\<rfloor> = ?f" by (rule floor_divide_of_int_eq)
  have "n = d * ?f + ?r" by simp
  then have "(of_int n :: real) = of_int d * of_int ?f + of_int ?r" by (metis of_int_add of_int_mult)
  then have "(of_int n :: real) / of_int d = of_int ?f + of_int ?r / of_int d"
    using dpos by (simp add: add_divide_distrib)
  then have fr: "of_int n / of_int d - of_int ?f = (of_int ?r / of_int d :: real)" by simp
  have lt: "of_int ?r / of_int d < (1 / 2 :: real) \<longleftrightarrow> 2 * ?r < d"
  proof -
    have "of_int ?r / of_int d < (1 / 2 :: real) \<longleftrightarrow> 2 * of_int ?r < (of_int d :: real)"
      using dpos by (simp only: divide_less_eq) auto
    also have "\<dots> \<longleftrightarrow> 2 * ?r < d" by (metis of_int_less_iff of_int_mult of_int_numeral)
    finally show ?thesis .
  qed
  have gt: "(1 / 2 :: real) < of_int ?r / of_int d \<longleftrightarrow> d < 2 * ?r"
  proof -
    have "(1 / 2 :: real) < of_int ?r / of_int d \<longleftrightarrow> (of_int d :: real) < 2 * of_int ?r"
      using dpos by (simp only: less_divide_eq) auto
    also have "\<dots> \<longleftrightarrow> d < 2 * ?r" by (metis of_int_less_iff of_int_mult of_int_numeral)
    finally show ?thesis .
  qed
  show ?thesis unfolding round_div_def round_even_def Let_def fl fr lt gt ..
qed

lemma round_frac_real:
  assumes "0 < a" and "0 < b"
  shows "round_frac a b =
    of_int (round_even (of_int a / of_int b / pow2 (ulp_exp a b))) * pow2 (ulp_exp a b)"
proof (cases "0 \<le> ulp_exp a b")
  case True
  have "of_int a / of_int b / pow2 (ulp_exp a b) = of_int a / of_int (b * 2 ^ nat (ulp_exp a b))"
    using True by (simp add: pow2_def)
  moreover have "0 < b * 2 ^ nat (ulp_exp a b)" using assms by simp
  ultimately show ?thesis using True assms by (simp add: round_frac_def Let_def round_div_eq)
next
  case False
  have "of_int a / of_int b / pow2 (ulp_exp a b) = of_int (a * 2 ^ nat (- ulp_exp a b)) / of_int b"
    using False by (simp add: pow2_def)
  then show ?thesis using False assms by (simp add: round_frac_def Let_def round_div_eq)
qed

lemma round_even_err: "\<bar>of_int (round_even x) - x\<bar> \<le> 1 / 2"
proof -
  have f: "of_int \<lfloor>x\<rfloor> \<le> x" "x < of_int \<lfloor>x\<rfloor> + 1" by linarith+
  then show ?thesis by (auto simp: round_even_def Let_def)
qed

lemma frac_exp_bounds:
  assumes "0 < a" and "0 < b"
  shows "pow2 (frac_exp a b) \<le> of_int a / of_int b \<and> of_int a / of_int b < pow2 (frac_exp a b + 1)"
proof -
  let ?y = "of_int a / of_int b :: real" and ?e0 = "bitlen a - bitlen b"
  have ba: "2 ^ nat (bitlen a - 1) \<le> a" "a < 2 ^ nat (bitlen a)" using bitlen_bounds [OF assms(1)] by auto
  have bb: "2 ^ nat (bitlen b - 1) \<le> b" "b < 2 ^ nat (bitlen b)" using bitlen_bounds [OF assms(2)] by auto
  have la: "1 \<le> bitlen a" and lb: "1 \<le> bitlen b" using assms by (auto simp: bitlen_alt_def)
  have ra: "pow2 (bitlen a - 1) \<le> of_int a" "of_int a < pow2 (bitlen a)"
    using ba la by (simp_all add: pow2_def)
  have rb: "pow2 (bitlen b - 1) \<le> of_int b" "of_int b < pow2 (bitlen b)"
    using bb lb by (simp_all add: pow2_def)
  have bpos: "0 < (of_int b :: real)" using assms by simp
  have lo: "pow2 (?e0 - 1) < ?y"
  proof -
    have "pow2 (?e0 - 1) * of_int b < pow2 (?e0 - 1) * pow2 (bitlen b)" using rb by simp
    also have "\<dots> = pow2 (bitlen a - 1)" by (simp add: pow2_add [symmetric])
    also have "\<dots> \<le> of_int a" using ra by simp
    finally show ?thesis using bpos by (simp add: pos_less_divide_eq)
  qed
  have hi: "?y < pow2 (?e0 + 1)"
  proof -
    have "of_int a < pow2 (bitlen a)" using ra by simp
    also have "\<dots> = pow2 (?e0 + 1) * pow2 (bitlen b - 1)" by (simp add: pow2_add [symmetric])
    also have "\<dots> \<le> pow2 (?e0 + 1) * of_int b" using rb by simp
    finally show ?thesis using bpos by (simp add: pos_divide_less_eq)
  qed
  show ?thesis
  proof (cases "pow2 ?e0 \<le> ?y")
    case True
    with hi show ?thesis by (simp add: frac_exp_def Let_def pow2_le_frac_iff [OF assms(2)])
  next
    case False
    with lo show ?thesis by (simp add: frac_exp_def Let_def pow2_le_frac_iff [OF assms(2)])
  qed
qed


text \<open>The rounding error is at most half a unit in the last place: relative \<open>2 ^ -53\<close>, or \<open>2 ^ -1075\<close> among the subnormals.\<close>

lemma round_frac_err:
  assumes "0 \<le> a" and "0 < b"
  shows "\<bar>round_frac a b - of_int a / of_int b\<bar> \<le> max (of_int a / of_int b / 2 ^ 53) (1 / 2 ^ 1075)"
proof (cases "a = 0")
  case True
  then show ?thesis by (simp add: round_frac_def)
next
  case False
  with assms have a: "0 < a" by simp
  let ?y = "of_int a / of_int b :: real" and ?q = "ulp_exp a b" and ?e = "frac_exp a b"
  have err: "\<bar>round_frac a b - ?y\<bar> \<le> pow2 ?q / 2"
  proof -
    have "round_frac a b - ?y = pow2 ?q * (of_int (round_even (?y / pow2 ?q)) - ?y / pow2 ?q)"
      using a assms(2) by (simp add: round_frac_real algebra_simps)
    then have "\<bar>round_frac a b - ?y\<bar> = pow2 ?q * \<bar>of_int (round_even (?y / pow2 ?q)) - ?y / pow2 ?q\<bar>"
      by (simp add: abs_mult abs_of_pos)
    also have "\<dots> \<le> pow2 ?q * (1 / 2)" using round_even_err by (intro mult_left_mono) (auto intro: less_imp_le)
    finally show ?thesis by simp
  qed
  show ?thesis
  proof (cases "?e - 52 \<le> -1074")
    case True
    then have "?q = -1074" by (simp add: ulp_exp_def)
    then have "pow2 ?q / 2 = 1 / 2 ^ 1075" by (simp add: pow2_def)
    with err show ?thesis by (metis max.cobounded2 order_trans)
  next
    case False
    then have q: "?q = ?e - 52" by (simp add: ulp_exp_def)
    have "pow2 ?q / 2 = pow2 ?e / 2 ^ 53"
      using pow2_add [of "?e - 52" 52] by (simp add: q pow2_of_nat [of 52, simplified])
    also have "\<dots> \<le> ?y / 2 ^ 53" using frac_exp_bounds [OF a assms(2)] by (simp add: divide_right_mono)
    finally show ?thesis using err by (metis max.cobounded1 order_trans)
  qed
qed


lemma pow2_le_iff: "pow2 a \<le> pow2 b \<longleftrightarrow> a \<le> b"
  by (simp add: pow2_powr)

lemma pow2_less_iff: "pow2 a < pow2 b \<longleftrightarrow> a < b"
  by (simp add: pow2_powr)

lemma pow2_tiny: "pow2 (-1075) = 1 / 2 ^ 1075"
  by (simp add: pow2_def)

lemma b64_threshold_gt1: "1 < b64_threshold"
  by (simp add: b64_threshold_def b64_threshold_int_def)

lemma b64_overflow_iff:
  assumes "0 < b"
  shows "b64_threshold_int * b \<le> a \<longleftrightarrow> b64_threshold \<le> of_int a / of_int b"
proof -
  have bpos: "(0::real) < of_int b" using assms by simp
  have c: "(of_int (b64_threshold_int * b) :: real) = b64_threshold * of_int b" by (simp add: b64_threshold_def)
  have "b64_threshold \<le> of_int a / of_int b \<longleftrightarrow> b64_threshold * of_int b \<le> of_int a"
    using bpos by (rule pos_le_divide_eq)
  also have "\<dots> \<longleftrightarrow> b64_threshold_int * b \<le> a" unfolding c [symmetric] by (rule of_int_le_iff)
  finally show ?thesis ..
qed

lemma round_even_small: "0 \<le> z \<Longrightarrow> z \<le> 1 / 2 \<Longrightarrow> round_even z = 0"
proof -
  assume "0 \<le> z" "z \<le> 1 / 2"
  then have "\<lfloor>z\<rfloor> = 0" by (simp add: floor_eq_iff)
  with \<open>z \<le> 1 / 2\<close> show ?thesis by (auto simp: round_even_def Let_def)
qed

lemma round_even_ge1: "1 / 2 < z \<Longrightarrow> 1 \<le> round_even z"
proof -
  assume z: "1 / 2 < z"
  have f: "of_int \<lfloor>z\<rfloor> \<le> z" "z < of_int \<lfloor>z\<rfloor> + 1" by linarith+
  show ?thesis
  proof (cases "z < 1")
    case True
    with z have "\<lfloor>z\<rfloor> = 0" by (simp add: floor_eq_iff)
    with z show ?thesis by (simp add: round_even_def Let_def)
  next
    case False
    then have "1 \<le> \<lfloor>z\<rfloor>" by (simp add: le_floor_iff)
    then show ?thesis by (auto simp: round_even_def Let_def)
  qed
qed

text \<open>Underflow: a positive value at most \<open>2 ^ -1075\<close> rounds to zero, a larger one to a positive float.\<close>

lemma pow2_zero: "pow2 0 = 1"
  by (simp add: pow2_def)

lemma pow2_one: "pow2 1 = 2"
  by (simp add: pow2_def)

lemma pow2_half: "pow2 (-1075) / pow2 (-1074) = 1 / 2"
proof -
  have "pow2 (-1074) = pow2 (-1075) * 2" using pow2_add [of "-1075" 1] by (simp add: pow2_one)
  then show ?thesis by simp
qed

lemma round_frac_tiny:
  assumes "0 < a" and "0 < b" and "of_int a / of_int b \<le> pow2 (-1075)"
  shows "round_frac a b = 0"
proof -
  let ?y = "of_int a / of_int b :: real" and ?e = "frac_exp a b"
  have "pow2 ?e \<le> pow2 (-1075)" using frac_exp_bounds [OF assms(1,2)] assms(3) by (meson order_trans)
  then have "?e \<le> -1075" by (simp only: pow2_le_iff)
  then have q: "ulp_exp a b = -1074" by (simp add: ulp_exp_def)
  have "?y / pow2 (-1074) \<le> pow2 (-1075) / pow2 (-1074)"
    by (rule divide_right_mono [OF assms(3)]) (simp add: less_imp_le)
  then have "?y / pow2 (-1074) \<le> 1 / 2" by (simp only: pow2_half)
  moreover have "0 \<le> ?y / pow2 (-1074)" using assms(1,2) by (simp add: less_imp_le)
  ultimately show ?thesis using assms(1,2) by (simp add: round_frac_real q round_even_small)
qed

lemma round_frac_pos:
  assumes "0 < a" and "0 < b" and "pow2 (-1075) < of_int a / of_int b"
  shows "0 < round_frac a b"
proof -
  let ?y = "of_int a / of_int b :: real" and ?e = "frac_exp a b" and ?q = "ulp_exp a b"
  have half: "1 / 2 < ?y / pow2 ?q"
  proof (cases "?e - 52 \<le> -1074")
    case True
    then have q: "?q = -1074" by (simp add: ulp_exp_def)
    have "pow2 (-1075) / pow2 (-1074) < ?y / pow2 (-1074)"
      by (rule divide_strict_right_mono [OF assms(3)]) simp
    then show ?thesis by (simp only: q pow2_half)
  next
    case False
    then have q: "?q = ?e - 52" by (simp add: ulp_exp_def)
    have "pow2 ?e = pow2 (?e - 52) * pow2 52" using pow2_add [of "?e - 52" 52] by simp
    then have "pow2 52 = pow2 ?e / pow2 (?e - 52)" by simp
    also have "\<dots> \<le> ?y / pow2 (?e - 52)"
      using frac_exp_bounds [OF assms(1,2)] by (intro divide_right_mono) (simp_all add: less_imp_le)
    finally have "pow2 52 \<le> ?y / pow2 ?q" by (simp only: q)
    moreover have "1 / 2 < pow2 52" by (simp add: pow2_def)
    ultimately show ?thesis by linarith
  qed
  have "1 \<le> round_even (?y / pow2 ?q)" by (rule round_even_ge1 [OF half])
  then show ?thesis using assms(1,2) by (simp add: round_frac_real)
qed

end
