(* ===== verification/PyStr.thy ===== *)
theory PyStr
  imports Binary64
begin

text \<open>
  The string builtins the program calls: \<open>str.lower\<close>, \<open>str.strip\<close>,
  \<open>str.split()\<close>, \<open>str.startswith\<close>, and the conversions \<open>int(x)\<close> and
  \<open>float(x)\<close> of the values the program passes (strings read from the
  console, ints of the stock catalog, \<open>None\<close>). Characters are modelled as
  bytes: case mapping and white space are those of the ASCII range, where
  Python's Unicode rules agree with them. Number literals follow Python's
  grammar for \<open>int()\<close> and \<open>float()\<close> (sign, digit groups with single
  underscores, fraction, exponent, \<open>inf\<close>/\<open>infinity\<close>/\<open>nan\<close> in any case);
  non-ASCII digits are not modelled.
\<close>

section \<open>Characters and strings\<close>

definition is_digit :: "char \<Rightarrow> bool" where
  "is_digit c \<longleftrightarrow> (48::nat) \<le> of_char c \<and> of_char c \<le> (57::nat)"

definition digit_val :: "char \<Rightarrow> nat" where
  "digit_val c = of_char c - 48"

text \<open>\<open>str.isspace\<close> on ASCII: blank, \<open>\t \n \v \f \r\<close> and the separators \<open>\x1c\<close> to \<open>\x1f\<close>.\<close>

definition is_py_space :: "char \<Rightarrow> bool" where
  "is_py_space c \<longleftrightarrow> of_char c \<in> ({9, 10, 11, 12, 13, 28, 29, 30, 31, 32} :: nat set)"

definition py_lower_char :: "char \<Rightarrow> char" where
  "py_lower_char c = (if (65::nat) \<le> of_char c \<and> of_char c \<le> (90::nat) then char_of (of_char c + (32::nat)) else c)"

definition py_lower :: "string \<Rightarrow> string" where
  "py_lower s = map py_lower_char s"

definition py_strip :: "string \<Rightarrow> string" where
  "py_strip s = rev (dropWhile is_py_space (rev (dropWhile is_py_space s)))"

definition py_startswith :: "string \<Rightarrow> string \<Rightarrow> bool" where
  "py_startswith s p \<longleftrightarrow> take (length p) s = p"

text \<open>\<open>str.split()\<close> without separator: the maximal runs of non-space characters. \<open>cur\<close> is the current word, reversed.\<close>

fun split_words :: "string \<Rightarrow> string \<Rightarrow> string list" where
  "split_words cur [] = (if cur = [] then [] else [rev cur])"
| "split_words cur (c # cs) =
     (if is_py_space c then (if cur = [] then split_words [] cs else rev cur # split_words [] cs)
      else split_words (c # cur) cs)"

definition py_split :: "string \<Rightarrow> string list" where
  "py_split s = split_words [] s"

text \<open>\<open>repr\<close> of a string in an error message (the escaping of quotes and control characters is not modelled).\<close>

definition py_str_repr :: "string \<Rightarrow> string" where
  "py_str_repr s = [CHR 0x27] @ s @ [CHR 0x27]"

text \<open>\<open>str(n)\<close> of a non-negative integer: its decimal digits.\<close>

fun nat_str :: "nat \<Rightarrow> string" where
  "nat_str n = (if n < 10 then [char_of (48 + n)] else nat_str (n div 10) @ [char_of (48 + n mod 10)])"

declare nat_str.simps [simp del]

text \<open>\<open>str(i)\<close> of an integer.\<close>

definition py_str_int :: "int \<Rightarrow> string" where
  "py_str_int i = (if i < 0 then CHR ''-'' # nat_str (nat (- i)) else nat_str (nat i))"


section \<open>Number literals\<close>

text \<open>A digit part: digits, with single underscores between two digits. Returns the value and the number of digits.\<close>

fun digits_acc :: "nat \<Rightarrow> nat \<Rightarrow> string \<Rightarrow> (nat \<times> nat) option" where
  "digits_acc v k [] = Some (v, k)"
| "digits_acc v k (c # cs) =
     (if is_digit c then digits_acc (10 * v + digit_val c) (Suc k) cs
      else if c = CHR ''_'' then
        (case cs of d # _ \<Rightarrow> if is_digit d then digits_acc v k cs else None | [] \<Rightarrow> None)
      else None)"

definition parse_digitpart :: "string \<Rightarrow> (nat \<times> nat) option" where
  "parse_digitpart s = (case s of c # _ \<Rightarrow> if is_digit c then digits_acc 0 0 s else None | [] \<Rightarrow> None)"

definition split_sign :: "string \<Rightarrow> bool \<times> string" where
  "split_sign s = (case s of
       c # r \<Rightarrow> if c = CHR ''-'' then (True, r) else if c = CHR ''+'' then (False, r) else (False, s)
     | [] \<Rightarrow> (False, []))"

text \<open>A mantissa \<open>digits[.digits]\<close> or \<open>.digits\<close> or \<open>digits.\<close>, as \<open>(m, k)\<close> meaning \<open>m / 10 ^ k\<close>.\<close>

definition parse_mantissa :: "string \<Rightarrow> (nat \<times> nat) option" where
  "parse_mantissa s =
     (let ip = takeWhile (\<lambda>c. c \<noteq> CHR ''.'') s; rest = dropWhile (\<lambda>c. c \<noteq> CHR ''.'') s in
      case rest of
        [] \<Rightarrow> map_option (\<lambda>(v, _). (v, 0)) (parse_digitpart ip)
      | _ # fp \<Rightarrow>
          if ip = [] \<and> fp = [] then None
          else (case (if ip = [] then Some (0, 0) else parse_digitpart ip,
                      if fp = [] then Some (0, 0) else parse_digitpart fp) of
                  (Some (a, _), Some (b, k)) \<Rightarrow> Some (a * 10 ^ k + b, k)
                | _ \<Rightarrow> None))"

definition parse_exponent :: "string \<Rightarrow> int option" where
  "parse_exponent s =
     (let (neg, body) = split_sign s in
      map_option (\<lambda>(v, _). if neg then - int v else int v) (parse_digitpart body))"

definition parse_decimal :: "string \<Rightarrow> (nat \<times> int) option" where
  "parse_decimal s =
     (let m = takeWhile (\<lambda>c. c \<noteq> CHR ''e'' \<and> c \<noteq> CHR ''E'') s;
          r = dropWhile (\<lambda>c. c \<noteq> CHR ''e'' \<and> c \<noteq> CHR ''E'') s in
      case (parse_mantissa m, r) of
        (Some (v, k), []) \<Rightarrow> Some (v, - int k)
      | (Some (v, k), _ # ex) \<Rightarrow> map_option (\<lambda>e. (v, e - int k)) (parse_exponent ex)
      | _ \<Rightarrow> None)"

text \<open>The exact value \<open>v * 10 ^ d\<close> of a decimal literal as a fraction \<open>a / b\<close> of integers.\<close>

definition dec_frac :: "nat \<times> int \<Rightarrow> int \<times> int" where
  "dec_frac vd =
     (if 0 \<le> snd vd then (int (fst vd) * 10 ^ nat (snd vd), 1) else (int (fst vd), 10 ^ nat (- snd vd)))"

text \<open>The same value as a real: the number the text denotes.\<close>

definition dec_value :: "nat \<times> int \<Rightarrow> real" where
  "dec_value vd = of_nat (fst vd) * (if 0 \<le> snd vd then 10 ^ nat (snd vd) else 1 / 10 ^ nat (- snd vd))"

text \<open>\<open>int(s)\<close> for a string \<open>s\<close>.\<close>

definition py_int_of_str :: "string \<Rightarrow> int result" where
  "py_int_of_str s =
     (let (neg, body) = split_sign (py_strip s) in
      case parse_digitpart body of
        Some (v, _) \<Rightarrow> Inr (if neg then - int v else int v)
      | None \<Rightarrow> Inl (ValueError (''invalid literal for int() with base 10: '' @ py_str_repr s)))"

text \<open>
  \<open>float(s)\<close> for a string \<open>s\<close>: a decimal literal is converted to the
  float nearest to its exact value, as CPython's correctly rounded
  \<open>strtod\<close> does; \<open>inf\<close>, \<open>infinity\<close> and \<open>nan\<close> are recognised in any case.
\<close>

definition py_float_of_str :: "string \<Rightarrow> pyfloat result" where
  "py_float_of_str s =
     (let (neg, body) = split_sign (py_strip s); lb = py_lower body in
      case parse_decimal body of
        Some vd \<Rightarrow> Inr (b64_of_frac neg (fst (dec_frac vd)) (snd (dec_frac vd)))
      | None \<Rightarrow>
          if lb = ''inf'' \<or> lb = ''infinity'' then Inr (if neg then NegInf else PosInf)
          else if lb = ''nan'' then Inr NaN
          else Inl (ValueError (''could not convert string to float: '' @ py_str_repr s)))"

text \<open>The exact value of a decimal text (none for \<open>inf\<close>, \<open>nan\<close> and malformed text).\<close>

definition py_decimal_value :: "string \<Rightarrow> real option" where
  "py_decimal_value s =
     (let (neg, body) = split_sign (py_strip s) in
      map_option (\<lambda>vd. if neg then - dec_value vd else dec_value vd) (parse_decimal body))"

section \<open>Python values passed to the constructors\<close>

datatype pyval = PyNone | PyInt int | PyStr string

fun py_int :: "pyval \<Rightarrow> int result" where
  "py_int PyNone = Inl (TypeError (''int() argument must be a string, a bytes-like object or a real number, not '' @ py_str_repr ''NoneType''))"
| "py_int (PyInt i) = Inr i"
| "py_int (PyStr s) = py_int_of_str s"

fun py_float :: "pyval \<Rightarrow> pyfloat result" where
  "py_float PyNone = Inl (TypeError (''float() argument must be a string or a real number, not '' @ py_str_repr ''NoneType''))"
| "py_float (PyInt i) = Inr (Fin (of_int i))"
| "py_float (PyStr s) = py_float_of_str s"

section \<open>Lemmas\<close>

lemma py_lower_char_idem: "py_lower_char (py_lower_char c) = py_lower_char c"
  by (auto simp: py_lower_char_def)

lemma py_lower_idem [simp]: "py_lower (py_lower s) = py_lower s"
  by (simp add: py_lower_def comp_def py_lower_char_idem)

lemma digit_char: "d < 10 \<Longrightarrow> is_digit (char_of (48 + d)) \<and> digit_val (char_of (48 + d)) = d"
  by (simp add: is_digit_def digit_val_def)

lemma nat_str_digits: "\<forall>c\<in>set (nat_str n). is_digit c"
proof (induction n rule: nat_str.induct)
  case (1 n)
  then show ?case by (subst nat_str.simps) (auto simp: digit_char)
qed

lemma nat_str_ne: "\<exists>c cs. nat_str n = c # cs"
proof (induction n rule: nat_str.induct)
  case (1 n)
  then show ?case by (subst nat_str.simps) (auto simp: Cons_eq_append_conv)
qed

lemma digits_acc_all_digits:
  "\<forall>c\<in>set s. is_digit c \<Longrightarrow> digits_acc v k s = Some (foldl (\<lambda>a c. 10 * a + digit_val c) v s, k + length s)"
  by (induction s arbitrary: v k) auto

lemma foldl_nat_str: "foldl (\<lambda>a c. 10 * a + digit_val c) 0 (nat_str n) = n"
proof (induction n rule: nat_str.induct)
  case (1 n)
  show ?case
  proof (cases "n < 10")
    case True
    then show ?thesis by (subst nat_str.simps) (simp add: digit_char)
  next
    case False
    then have "foldl (\<lambda>a c. 10 * a + digit_val c) 0 (nat_str (n div 10)) = n div 10" using "1" by simp
    with False show ?thesis by (subst nat_str.simps) (simp add: digit_char)
  qed
qed

lemma is_digit_not_space: "is_digit c \<Longrightarrow> \<not> is_py_space c"
  by (auto simp: is_digit_def is_py_space_def)

lemma py_strip_digits: "\<forall>c\<in>set s. is_digit c \<Longrightarrow> py_strip s = s"
proof -
  assume d: "\<forall>c\<in>set s. is_digit c"
  then have "dropWhile is_py_space s = s" by (cases s) (auto simp: is_digit_not_space)
  moreover have "dropWhile is_py_space (rev s) = rev s" using d by (cases "rev s") (auto simp: is_digit_not_space dest: set_rev_mp)
  ultimately show ?thesis by (simp add: py_strip_def)
qed

lemma py_int_of_str_nat_str: "py_int_of_str (nat_str n) = Inr (int n)"
proof -
  obtain c cs where ne: "nat_str n = c # cs" using nat_str_ne by blast
  have d: "\<forall>x\<in>set (nat_str n). is_digit x" by (rule nat_str_digits)
  then have c: "is_digit c" using ne by simp
  then have "c \<noteq> CHR ''-''" and "c \<noteq> CHR ''+''" by (auto simp: is_digit_def)
  then have s: "split_sign (nat_str n) = (False, nat_str n)" using ne by (simp add: split_sign_def)
  have p: "parse_digitpart (nat_str n) = Some (n, length (nat_str n))"
    using ne c digits_acc_all_digits [OF d, of 0 0] foldl_nat_str [of n] by (simp add: parse_digitpart_def)
  show ?thesis by (simp add: py_int_of_str_def py_strip_digits [OF d] s p)
qed
lemma py_strip_minus_digits:
  assumes "\<forall>c\<in>set s. is_digit c" and "s \<noteq> []"
  shows "py_strip (CHR ''-'' # s) = CHR ''-'' # s"
proof -
  have "\<not> is_py_space (CHR ''-'')" by (simp add: is_py_space_def)
  moreover obtain c cs where "rev s = c # cs" using assms(2) by (cases "rev s") auto
  moreover have "is_digit c" using assms(1) calculation(2) by (metis list.set_intros(1) set_rev)
  ultimately show ?thesis by (simp add: py_strip_def is_digit_not_space)
qed

lemma dec_frac_props:
  assumes "dec_frac vd = (a, b)"
  shows "0 \<le> a \<and> 0 < b \<and> of_int a / of_int b = dec_value vd"
  using assms by (auto simp: dec_frac_def dec_value_def split: if_splits)

lemma py_float_decimal:
  assumes "py_decimal_value s = Some r"
  shows "\<exists>neg a b. 0 \<le> a \<and> 0 < b \<and> r = (if neg then - (of_int a / of_int b) else of_int a / of_int b) \<and>
           py_float_of_str s = Inr (b64_of_frac neg a b)"
proof -
  obtain neg body where sp: "split_sign (py_strip s) = (neg, body)" by force
  with assms obtain vd where p: "parse_decimal body = Some vd"
    and r: "r = (if neg then - dec_value vd else dec_value vd)" by (auto simp: py_decimal_value_def)
  obtain a b where ab: "dec_frac vd = (a, b)" by force
  from dec_frac_props [OF ab] have "0 \<le> a" "0 < b" "of_int a / of_int b = dec_value vd" by auto
  moreover have "py_float_of_str s = Inr (b64_of_frac neg a b)" by (simp add: py_float_of_str_def sp p ab)
  ultimately show ?thesis using r by (intro exI [of _ neg] exI [of _ a] exI [of _ b]) auto
qed

lemma py_float_of_str_zero:
  assumes "py_decimal_value s = Some r" and "0 < r" and "r \<le> 1 / 2 ^ 1075"
  shows "py_float_of_str s = Inr (Fin 0)"
proof -
  obtain neg a b where ab: "0 \<le> a" "0 < b" and r: "r = (if neg then - (of_int a / of_int b) else of_int a / of_int b)"
    and f: "py_float_of_str s = Inr (b64_of_frac neg a b)" using py_float_decimal [OF assms(1)] by blast
  have "0 \<le> (of_int a / of_int b :: real)" using ab by simp
  then have n: "\<not> neg" using assms(2) r by (cases neg) auto
  with r assms(2) ab have a: "0 < a" by (cases "a = 0") auto
  have y: "of_int a / of_int b \<le> pow2 (-1075)" using assms(3) r n by (simp add: pow2_tiny)
  have "pow2 (-1075) \<le> pow2 0" by (simp only: pow2_le_iff)
  then have "of_int a / of_int b < b64_threshold"
    using y b64_threshold_gt1 by (simp only: pow2_zero)
  then have "\<not> b64_threshold_int * b \<le> a" using b64_overflow_iff [OF ab(2)] by simp
  with f n round_frac_tiny [OF a ab(2) y] show ?thesis by (simp add: b64_of_frac_def)
qed

text \<open>
  \<open>float()\<close> of a decimal text is correctly rounded: the float differs
  from the exact value of the text by at most half a unit in its last
  place, that is by a relative \<open>2 ^ -53\<close>, or by \<open>2 ^ -1075\<close> in the
  subnormal range.
\<close>

lemma py_float_of_str_nearest:
  assumes "py_float_of_str s = Inr (Fin x)" and "py_decimal_value s = Some r"
  shows "\<bar>x - r\<bar> \<le> max (\<bar>r\<bar> / 2 ^ 53) (1 / 2 ^ 1075)"
proof -
  obtain neg a b where ab: "0 \<le> a" "0 < b" and r: "r = (if neg then - (of_int a / of_int b) else of_int a / of_int b)"
    and f: "py_float_of_str s = Inr (b64_of_frac neg a b)" using py_float_decimal [OF assms(2)] by blast
  have "b64_of_frac neg a b = Fin x" using f assms(1) by simp
  then have x: "x = (if neg then - round_frac a b else round_frac a b)"
    by (auto simp: b64_of_frac_def split: if_splits)
  have ar: "\<bar>r\<bar> = of_int a / of_int b" using r ab by auto
  have e: "\<bar>x - r\<bar> = \<bar>round_frac a b - of_int a / of_int b\<bar>"
    using x r by (cases neg) (simp_all add: abs_minus_commute)
  show ?thesis unfolding e ar by (rule round_frac_err [OF ab])
qed

text \<open>
  \<open>float()\<close> overflows: a decimal text whose value reaches the threshold
  \<open>(2 - 2 ^ -53) * 2 ^ 1023\<close> in magnitude becomes \<open>inf\<close> or \<open>-inf\<close>, so
  \<open>float('1e309')\<close> is \<open>inf\<close>.
\<close>

lemma py_float_of_str_overflow:
  assumes "py_decimal_value s = Some r" and "b64_threshold \<le> \<bar>r\<bar>"
  shows "py_float_of_str s = Inr (if r < 0 then NegInf else PosInf)"
proof -
  obtain neg a b where ab: "0 \<le> a" "0 < b" and r: "r = (if neg then - (of_int a / of_int b) else of_int a / of_int b)"
    and f: "py_float_of_str s = Inr (b64_of_frac neg a b)" using py_float_decimal [OF assms(1)] by blast
  have ar: "\<bar>r\<bar> = of_int a / of_int b" using r ab by auto
  then have "b64_threshold_int * b \<le> a" using assms(2) b64_overflow_iff [OF ab(2)] by simp
  moreover have "r < 0 \<longleftrightarrow> neg" using r ab ar assms(2) b64_threshold_gt1 by (cases neg) auto
  ultimately show ?thesis using f by (simp add: b64_of_frac_def)
qed

text \<open>
  \<open>float()\<close> underflows: the text of a positive number becomes \<open>0.0\<close>
  exactly when its value is at most \<open>2 ^ -1075\<close>, half the smallest
  subnormal; any larger positive value gives a positive float or \<open>inf\<close>.
\<close>

lemma py_float_of_str_underflow:
  assumes "py_decimal_value s = Some r" and "0 < r"
  shows "py_float_of_str s = Inr (Fin 0) \<longleftrightarrow> r \<le> 1 / 2 ^ 1075"
proof
  assume "r \<le> 1 / 2 ^ 1075"
  with assms show "py_float_of_str s = Inr (Fin 0)" by (rule py_float_of_str_zero)
next
  assume z: "py_float_of_str s = Inr (Fin 0)"
  obtain neg a b where ab: "0 \<le> a" "0 < b" and r: "r = (if neg then - (of_int a / of_int b) else of_int a / of_int b)"
    and f: "py_float_of_str s = Inr (b64_of_frac neg a b)" using py_float_decimal [OF assms(1)] by blast
  have "0 \<le> (of_int a / of_int b :: real)" using ab by simp
  then have n: "\<not> neg" using assms(2) r by (cases neg) auto
  with r assms(2) ab have a: "0 < a" by (cases "a = 0") auto
  show "r \<le> 1 / 2 ^ 1075"
  proof (rule ccontr)
    assume "\<not> r \<le> 1 / 2 ^ 1075"
    then have "pow2 (-1075) < of_int a / of_int b" using r n by (simp add: pow2_tiny)
    from round_frac_pos [OF a ab(2) this] have "round_frac a b \<noteq> 0" by simp
    with f z n show False by (simp add: b64_of_frac_def split: if_splits)
  qed
qed

text \<open>
  \<open>int()\<close> reads back what \<open>str()\<close> writes: parsing the decimal
  text of any integer, sign included, gives the integer.
\<close>

lemma py_int_of_str_roundtrip: "py_int_of_str (py_str_int i) = Inr i"
proof (cases "i < 0")
  case False
  then show ?thesis by (simp add: py_str_int_def py_int_of_str_nat_str)
next
  case True
  let ?s = "nat_str (nat (- i))"
  obtain c cs where ne: "?s = c # cs" using nat_str_ne by blast
  have d: "\<forall>x\<in>set ?s. is_digit x" by (rule nat_str_digits)
  have p: "parse_digitpart ?s = Some (nat (- i), length ?s)"
    using ne d digits_acc_all_digits [OF d, of 0 0] foldl_nat_str [of "nat (- i)"] by (simp add: parse_digitpart_def)
  have st: "py_strip (CHR ''-'' # ?s) = CHR ''-'' # ?s" using py_strip_minus_digits [OF d] ne by simp
  show ?thesis using True by (simp add: py_str_int_def py_int_of_str_def st split_sign_def p)
qed


end
