(* ===== verification/Stock.thy ===== *)
theory Stock
  imports PyStr
begin

text \<open>
  The security registry: class \<open>Stock\<close> of \<open>src/Trading_sim.py\<close> (its
  constructor \<open>__init__\<close>, lines 18--34) and the fixed catalog of five
  stocks built into a dict at start-up (lines 165--173). A stock is a
  \<^theory_text>\<open>record\<close> with the five slots of the class. The slot \<open>fixed_div\<close>
  keeps the Python value it was given: the constructor converts it with
  \<open>int()\<close> for a preferred stock only, and stores any other argument
  unchanged. The abstract view of the specification (a security of kind
  Common or Preferred with its fixed percentage) is the partial
  abstraction \<open>abs_stock\<close>.
\<close>

record stock =
  symbol :: string
  stock_typ :: string
  last_div :: int
  fixed_div :: pyval
  par_value :: int

text \<open>\<open>Stock(symbol, typ, last_div, fixed_div, par_value)\<close>; a Python \<open>None\<close> is \<^const>\<open>None\<close> or \<^const>\<open>PyNone\<close>.\<close>

definition Stock :: "string option \<Rightarrow> string option \<Rightarrow> pyval \<Rightarrow> pyval \<Rightarrow> pyval \<Rightarrow> stock result" where
  "Stock symb ty ld fd pv =
     (case (symb, ty) of
        (Some s, Some t) \<Rightarrow>
          if ld = PyNone \<or> pv = PyNone
          then Inl (ValueError ''Mandatory fields (symbol, type, last_div, par_value) cannot be None!'')
          else
            (let t' = py_lower t in
             rbind (if t' = ''preferred''
                    then (if fd = PyNone then Inl (ValueError ''fixed_div cannot be None for preferred stock!'')
                          else rbind (py_int fd) (\<lambda>i. Inr (PyInt i)))
                    else Inr fd)
               (\<lambda>fd'. rbind (py_int ld) (\<lambda>ld'. rbind (py_int pv) (\<lambda>pv'.
                  Inr \<lparr>symbol = s, stock_typ = t', last_div = ld', fixed_div = fd', par_value = pv'\<rparr>))))
      | _ \<Rightarrow> Inl (ValueError ''Mandatory fields (symbol, type, last_div, par_value) cannot be None!''))"

text \<open>The catalog: the list literal of five constructor calls, then the dict comprehension keyed by symbol.\<close>

definition catalog_calls :: "stock result list" where
  "catalog_calls =
     [Stock (Some ''TEA'') (Some ''common'') (PyInt 0) PyNone (PyInt 100),
      Stock (Some ''POP'') (Some ''common'') (PyInt 8) PyNone (PyInt 100),
      Stock (Some ''ALE'') (Some ''common'') (PyInt 23) PyNone (PyInt 60),
      Stock (Some ''GIN'') (Some ''preferred'') (PyInt 8) (PyInt 2) (PyInt 100),
      Stock (Some ''JOE'') (Some ''common'') (PyInt 13) PyNone (PyInt 250)]"

definition dict_of_stocks :: "stock list \<Rightarrow> stock dict" where
  "dict_of_stocks l = fold (\<lambda>st d. dict_set (symbol st) st d) l []"

definition initial_stocks :: "stock dict result" where
  "initial_stocks = rbind (map_result id catalog_calls) (\<lambda>l. Inr (dict_of_stocks l))"

section \<open>The abstract security of the specification\<close>

datatype kind = Common | Preferred int

record security =
  sec_symbol :: string
  sec_kind :: kind
  sec_last_dividend :: int
  sec_par_value :: int

text \<open>A stock whose type is neither \<open>common\<close> nor \<open>preferred\<close> has no abstract counterpart.\<close>

definition abs_stock :: "stock \<Rightarrow> security option" where
  "abs_stock st =
     (if stock_typ st = ''common'' then
        Some \<lparr>sec_symbol = symbol st, sec_kind = Common, sec_last_dividend = last_div st, sec_par_value = par_value st\<rparr>
      else if stock_typ st = ''preferred'' then
        (case fixed_div st of
           PyInt f \<Rightarrow> Some \<lparr>sec_symbol = symbol st, sec_kind = Preferred f, sec_last_dividend = last_div st,
                             sec_par_value = par_value st\<rparr>
         | _ \<Rightarrow> None)
      else None)"

text \<open>The invariant the specification states of every security.\<close>

definition wf_stock :: "stock \<Rightarrow> bool" where
  "wf_stock st \<longleftrightarrow> abs_stock st \<noteq> None \<and> 0 \<le> last_div st \<and> 0 < par_value st"

definition wf_registry :: "stock dict \<Rightarrow> bool" where
  "wf_registry d \<longleftrightarrow> distinct (dict_keys d) \<and> (\<forall>(k, st) \<in> set d. symbol st = k \<and> wf_stock st)"

section \<open>Properties of the constructor and of the catalog\<close>

lemma dict_of_stocks_keys: "distinct (dict_keys (dict_of_stocks l))"
proof -
  have "\<And>d. distinct (dict_keys d) \<Longrightarrow> distinct (dict_keys (fold (\<lambda>st d. dict_set (symbol st) st d) l d))"
    by (induction l) (auto simp: dict_keys_set_distinct)
  then show ?thesis by (simp add: dict_of_stocks_def dict_keys_def)
qed

text \<open>The value of the catalog, for the examples that start from it.\<close>

lemma initial_stocks_eq:
  "initial_stocks = Inr
    [(''TEA'', \<lparr>symbol = ''TEA'', stock_typ = ''common'', last_div = 0, fixed_div = PyNone, par_value = 100\<rparr>),
     (''POP'', \<lparr>symbol = ''POP'', stock_typ = ''common'', last_div = 8, fixed_div = PyNone, par_value = 100\<rparr>),
     (''ALE'', \<lparr>symbol = ''ALE'', stock_typ = ''common'', last_div = 23, fixed_div = PyNone, par_value = 60\<rparr>),
     (''GIN'', \<lparr>symbol = ''GIN'', stock_typ = ''preferred'', last_div = 8, fixed_div = PyInt 2, par_value = 100\<rparr>),
     (''JOE'', \<lparr>symbol = ''JOE'', stock_typ = ''common'', last_div = 13, fixed_div = PyNone, par_value = 250\<rparr>)]"
  by code_simp

text \<open>
  C15. Constructing a preferred stock (the type compared case-insensitively)
  without a fixed dividend fails with the constructor's \<open>ValueError\<close>,
  whatever the other, non-\<open>None\<close>, arguments are.
\<close>

theorem Stock_preferred_requires_fixed:
  assumes "py_lower t = ''preferred''" and "ld \<noteq> PyNone" and "pv \<noteq> PyNone"
  shows "Stock (Some s) (Some t) ld PyNone pv = Inl (ValueError ''fixed_div cannot be None for preferred stock!'')"
  using assms by (simp add: Stock_def Let_def)

theorem Stock_preferred_requires_fixed_witness:
  "py_lower ''Preferred'' = ''preferred'' \<and> PyInt 8 \<noteq> PyNone \<and> PyInt 100 \<noteq> PyNone \<and>
   Stock (Some ''GIN'') (Some ''Preferred'') (PyInt 8) PyNone (PyInt 100)
     = Inl (ValueError ''fixed_div cannot be None for preferred stock!'')"
proof -
  have t: "py_lower ''Preferred'' = ''preferred''" by code_simp
  show ?thesis using Stock_preferred_requires_fixed [OF t, of "PyInt 8" "PyInt 100" "''GIN''"] t by simp
qed

text \<open>
  C27. What a successful construction stores: the symbol as given, the type
  lower-cased, \<open>int()\<close> of the dividend and of the par value, and for a
  preferred stock \<open>int()\<close> of the fixed dividend, for any other type the
  fixed-dividend argument unchanged.
\<close>

theorem Stock_Inr:
  assumes "Stock (Some s) (Some t) ld fd pv = Inr st"
  shows "symbol st = s \<and> stock_typ st = py_lower t \<and> py_int ld = Inr (last_div st) \<and> py_int pv = Inr (par_value st)
     \<and> (if py_lower t = ''preferred'' then \<exists>i. py_int fd = Inr i \<and> fixed_div st = PyInt i else fixed_div st = fd)"
  using assms by (auto simp: Stock_def Let_def rbind_eq_Inr split: if_splits)

theorem Stock_Inr_witness:
  "Stock (Some ''GIN'') (Some ''preferred'') (PyInt 8) (PyStr ''2'') (PyInt 100)
     = Inr \<lparr>symbol = ''GIN'', stock_typ = ''preferred'', last_div = 8, fixed_div = PyInt 2, par_value = 100\<rparr> \<and>
   fixed_div \<lparr>symbol = ''GIN'', stock_typ = ''preferred'', last_div = 8, fixed_div = PyInt 2, par_value = 100\<rparr> = PyInt 2"
proof -
  have e: "Stock (Some ''GIN'') (Some ''preferred'') (PyInt 8) (PyStr ''2'') (PyInt 100)
     = Inr \<lparr>symbol = ''GIN'', stock_typ = ''preferred'', last_div = 8, fixed_div = PyInt 2, par_value = 100\<rparr>"
    by code_simp
  from Stock_Inr [OF e] e show ?thesis by simp
qed

text \<open>
  C28. The catalog the program starts from is built without error, keyed by
  symbol in the order of the source, and every entry satisfies the
  invariant of the specification.
\<close>

theorem initial_stocks_wf:
  "case initial_stocks of
     Inr d \<Rightarrow> wf_registry d \<and> dict_keys d = [''TEA'', ''POP'', ''ALE'', ''GIN'', ''JOE'']
   | Inl _ \<Rightarrow> False"
  by code_simp

text \<open>
  C29. The constructor does not check the type: a stock of a type other than
  \<open>common\<close> and \<open>preferred\<close>, with a negative dividend and a zero par value,
  is built, and it has no abstract counterpart.
\<close>

theorem Stock_accepts_unknown_type:
  "\<exists>st. Stock (Some ''X'') (Some ''ordinary'') (PyInt (-1)) PyNone (PyInt 0) = Inr st \<and>
        abs_stock st = None \<and> \<not> wf_stock st"
proof -
  let ?st = "\<lparr>symbol = ''X'', stock_typ = ''ordinary'', last_div = -1, fixed_div = PyNone, par_value = 0\<rparr>"
  have "Stock (Some ''X'') (Some ''ordinary'') (PyInt (-1)) PyNone (PyInt 0) = Inr ?st" by code_simp
  moreover have "abs_stock ?st = None" by (simp add: abs_stock_def)
  ultimately show ?thesis by (auto simp: wf_stock_def)
qed

end
