(* ===== verification/Trade.thy ===== *)
theory Trade
  imports Stock
begin

text \<open>
  Executed trades: class \<open>Trade\<close> of \<open>src/Trading_sim.py\<close> (its constructor,
  lines 46--60) and the two commands \<open>buy\<close> and \<open>sell\<close> (lines 69--77)
  that construct one. The wall-clock reading \<open>datetime.now(UTC)\<close> of the
  constructor is its first argument \<open>now\<close>, an instant in microseconds (the
  resolution of \<open>datetime\<close>). The constructor converts quantity and price
  with \<open>int()\<close> and \<open>float()\<close> before it checks them, so a price
  \<open>nan\<close> or \<open>inf\<close> passes the check \<open>price <= 0\<close>.
\<close>

record trade =
  instant :: int
  stock :: stock
  is_buy :: bool
  qty :: int
  price :: pyfloat

definition Trade :: "int \<Rightarrow> stock option \<Rightarrow> string option \<Rightarrow> pyval \<Rightarrow> pyval \<Rightarrow> trade result" where
  "Trade now st ind q p =
     rbind (py_int q) (\<lambda>q'. rbind (py_float p) (\<lambda>p'.
       case (st, ind) of
         (Some s, Some i) \<Rightarrow>
           if q' \<le> 0 \<or> pf_le p' (Fin 0) then Inl (ValueError ''Price and quantity must be greater than 0'')
           else
             (let i' = py_lower i in
              if i' \<notin> {''buy'', ''sell''} then Inl (ValueError (''Invalid buy/sell indicator '' @ i'))
              else Inr \<lparr>instant = now, stock = s, is_buy = (i' = ''buy''), qty = q', price = p'\<rparr>)
       | _ \<Rightarrow> Inl (ValueError ''Mandatory fields (stock, indicator, qty, price) cannot be None!'')))"

definition buy :: "int \<Rightarrow> stock \<Rightarrow> pyval \<Rightarrow> pyval \<Rightarrow> trade result" where
  "buy now st q p = Trade now (Some st) (Some ''buy'') q p"

definition sell :: "int \<Rightarrow> stock \<Rightarrow> pyval \<Rightarrow> pyval \<Rightarrow> trade result" where
  "sell now st q p = Trade now (Some st) (Some ''sell'') q p"

text \<open>What the constructor guarantees of every trade it returns.\<close>

definition valid_trade :: "trade \<Rightarrow> bool" where
  "valid_trade t \<longleftrightarrow> 0 < qty t \<and> \<not> pf_le (price t) (Fin 0)"

text \<open>What the specification asks of a trade: a positive quantity and a positive (finite) price.\<close>

definition spec_trade :: "trade \<Rightarrow> bool" where
  "spec_trade t \<longleftrightarrow> 0 < qty t \<and> pf_pos (price t)"

lemma spec_trade_valid: "spec_trade t \<Longrightarrow> valid_trade t"
  by (auto simp: spec_trade_def valid_trade_def pf_pos_def)

section \<open>Properties of the constructor\<close>

lemma Trade_Inr_iff:
  "Trade now (Some s) (Some i) q p = Inr t \<longleftrightarrow>
     (\<exists>q' p'. py_int q = Inr q' \<and> py_float p = Inr p' \<and> 0 < q' \<and> \<not> pf_le p' (Fin 0) \<and>
              py_lower i \<in> {''buy'', ''sell''} \<and>
              t = \<lparr>instant = now, stock = s, is_buy = (py_lower i = ''buy''), qty = q', price = p'\<rparr>)"
  by (auto simp: Trade_def Let_def rbind_eq_Inr not_le)

text \<open>
  C9. Every trade the constructor returns carries the clock reading it was
  created at, a positive quantity and a price that is not \<open><= 0\<close>, and it is
  a buy exactly when the indicator is \<open>buy\<close> in any letter case.
\<close>

theorem Trade_valid:
  assumes "Trade now st ind q p = Inr t"
  shows "valid_trade t \<and> instant t = now \<and> (\<exists>i. ind = Some i \<and> (is_buy t \<longleftrightarrow> py_lower i = ''buy''))"
proof -
  obtain s i where "st = Some s" and "ind = Some i"
    using assms by (cases st; cases ind) (auto simp: Trade_def rbind_eq_Inr)
  with assms show ?thesis by (auto simp: Trade_Inr_iff valid_trade_def)
qed

theorem Trade_valid_witness:
  "Trade 0 (Some \<lparr>symbol = ''TEA'', stock_typ = ''common'', last_div = 0, fixed_div = PyNone, par_value = 100\<rparr>)
     (Some ''SELL'') (PyStr ''5'') (PyStr ''1.2'')
   = Inr \<lparr>instant = 0, stock = \<lparr>symbol = ''TEA'', stock_typ = ''common'', last_div = 0, fixed_div = PyNone, par_value = 100\<rparr>,
          is_buy = False, qty = 5, price = Fin (5404319552844595 / 4503599627370496)\<rparr> \<and>
   valid_trade \<lparr>instant = 0, stock = \<lparr>symbol = ''TEA'', stock_typ = ''common'', last_div = 0, fixed_div = PyNone, par_value = 100\<rparr>,
          is_buy = False, qty = 5, price = Fin (5404319552844595 / 4503599627370496)\<rparr>"
proof -
  have e: "Trade 0 (Some \<lparr>symbol = ''TEA'', stock_typ = ''common'', last_div = 0, fixed_div = PyNone, par_value = 100\<rparr>)
     (Some ''SELL'') (PyStr ''5'') (PyStr ''1.2'')
   = Inr \<lparr>instant = 0, stock = \<lparr>symbol = ''TEA'', stock_typ = ''common'', last_div = 0, fixed_div = PyNone, par_value = 100\<rparr>,
          is_buy = False, qty = 5, price = Fin (5404319552844595 / 4503599627370496)\<rparr>"
    by code_simp
  from Trade_valid [OF e] e show ?thesis by simp
qed

text \<open>
  C11. A quantity that converts to an integer \<open><= 0\<close>, or a price that converts
  to a float \<open><= 0\<close>, makes the constructor fail with \<open>ValueError\<close>: no trade
  is created.
\<close>

theorem Trade_rejects_nonpositive:
  assumes "py_int q = Inr q'" and "py_float p = Inr p'" and "q' \<le> 0 \<or> pf_le p' (Fin 0)"
  shows "Trade now (Some s) (Some i) q p = Inl (ValueError ''Price and quantity must be greater than 0'')"
  using assms by (simp add: Trade_def)

theorem Trade_rejects_nonpositive_witness:
  "py_int (PyStr ''-3'') = Inr (-3) \<and> py_float (PyStr ''1.5'') = Inr (Fin (3/2)) \<and>
   Trade 7 (Some \<lparr>symbol = ''POP'', stock_typ = ''common'', last_div = 8, fixed_div = PyNone, par_value = 100\<rparr>)
     (Some ''buy'') (PyStr ''-3'') (PyStr ''1.5'') = Inl (ValueError ''Price and quantity must be greater than 0'')"
proof -
  have q: "py_int (PyStr ''-3'') = Inr (-3)" by code_simp
  have p: "py_float (PyStr ''1.5'') = Inr (Fin (3/2))" by code_simp
  have "(-3::int) \<le> 0 \<or> pf_le (Fin (3/2)) (Fin 0)" by simp
  from Trade_rejects_nonpositive [OF q p this] q p show ?thesis by simp
qed

text \<open>
  C19. The check \<open>price <= 0\<close> lets the price \<open>nan\<close> through (every comparison
  with NaN is false): the constructor returns a trade whose price is not
  positive, against the specification's invariant \<open>price > 0\<close>.
\<close>

theorem Trade_accepts_nan_price:
  "\<exists>t. Trade now (Some s) (Some ''buy'') (PyStr ''10'') (PyStr ''nan'') = Inr t \<and> price t = NaN \<and> \<not> spec_trade t"
proof -
  have q: "py_int (PyStr ''10'') = Inr 10" by code_simp
  have p: "py_float (PyStr ''nan'') = Inr NaN" by code_simp
  have b: "py_lower ''buy'' = ''buy''" by code_simp
  show ?thesis using q p b by (auto simp: Trade_Inr_iff spec_trade_def pf_pos_def)
qed


text \<open>
  C12. A price whose text denotes a positive number too small for a float
  (at most \<open>2 ^ -1075\<close>, e.g. \<open>1e-400\<close>) becomes \<open>0.0\<close> under \<open>float()\<close>
  and is rejected as not greater than 0, whatever the quantity.
\<close>

theorem Trade_rejects_underflow_price:
  assumes "py_decimal_value p = Some r" and "0 < r" and "r \<le> 1 / 2 ^ 1075" and "py_int q = Inr n"
  shows "Trade now (Some s) (Some i) q (PyStr p) = Inl (ValueError ''Price and quantity must be greater than 0'')"
  using assms(4) by (simp add: Trade_def py_float_of_str_zero [OF assms(1-3)])

theorem Trade_rejects_underflow_price_witness:
  "Trade 0 (Some \<lparr>symbol = ''TEA'', stock_typ = ''common'', last_div = 0, fixed_div = PyNone, par_value = 100\<rparr>)
     (Some ''buy'') (PyStr ''3'') (PyStr ''1e-400'') = Inl (ValueError ''Price and quantity must be greater than 0'')"
proof -
  have d: "py_decimal_value ''1e-400'' = Some (1 / 10 ^ 400)" by code_simp
  have q: "py_int (PyStr ''3'') = Inr 3" by code_simp
  show ?thesis by (rule Trade_rejects_underflow_price [OF d _ _ q]) simp_all
qed


text \<open>
  C13. A price whose text denotes a number at least the overflow threshold
  \<open>2 ^ 1024 - 2 ^ 970\<close> (e.g. \<open>1e309\<close>) becomes \<open>inf\<close> under \<open>float()\<close>, passes
  the check \<open>price <= 0\<close>, and the trade is built with an infinite price.
\<close>

theorem Trade_accepts_overflow_price:
  assumes "py_decimal_value p = Some r" and "b64_threshold \<le> r" and "py_int q = Inr n" and "0 < n"
    and "py_lower i \<in> {''buy'', ''sell''}"
  shows "Trade now (Some s) (Some i) q (PyStr p) =
    Inr \<lparr>instant = now, stock = s, is_buy = (py_lower i = ''buy''), qty = n, price = PosInf\<rparr>"
proof -
  have "0 < r" using assms(2) b64_threshold_gt1 by linarith
  then have "py_float_of_str p = Inr PosInf"
    using py_float_of_str_overflow [OF assms(1)] assms(2) by simp
  then show ?thesis using assms(3-5) by (auto simp: Trade_def Let_def)
qed

theorem Trade_accepts_overflow_price_witness:
  "Trade 0 (Some \<lparr>symbol = ''TEA'', stock_typ = ''common'', last_div = 0, fixed_div = PyNone, par_value = 100\<rparr>)
     (Some ''buy'') (PyStr ''3'') (PyStr ''1e309'') =
   Inr \<lparr>instant = 0, stock = \<lparr>symbol = ''TEA'', stock_typ = ''common'', last_div = 0, fixed_div = PyNone, par_value = 100\<rparr>,
        is_buy = True, qty = 3, price = PosInf\<rparr>"
proof -
  have d: "py_decimal_value ''1e309'' = Some (10 ^ 309)" by code_simp
  have t: "b64_threshold \<le> (10 ^ 309 :: real)" by (simp add: b64_threshold_def b64_threshold_int_def)
  have q: "py_int (PyStr ''3'') = Inr 3" by code_simp
  have l: "py_lower ''buy'' \<in> {''buy'', ''sell''}" "py_lower ''buy'' = ''buy''" by code_simp+
  show ?thesis using Trade_accepts_overflow_price [OF d t q _ l(1)] l(2) by simp
qed

end
