(* ===== verification/Metrics.thy ===== *)
theory Metrics
  imports Trade
begin

text \<open>
  The metrics engine of \<open>src/Trading_sim.py\<close>: \<open>calc_div_yield\<close>
  (lines 80--88), \<open>calc_ratio\<close> (91--93), \<open>calc_volume_weighted_price\<close>
  (96--108) and \<open>gbce\<close> (111--122) with the \<open>statistics.geometric_mean\<close>
  of Python 3.12 it calls. Each reading of \<open>datetime.now(UTC)\<close> is an
  argument: \<open>now\<close> for one volume-weighted price, and for \<open>gbce\<close> a clock
  \<open>clock k\<close> giving the reading taken by the \<open>k\<close>-th call of the loop.
  Each routine is proved equal to a reference definition over the reals
  (the specification's formulas) under the hypotheses that exclude the
  non-finite floats.
\<close>

section \<open>Dividend yield and P/E ratio\<close>

text \<open>
  The guard raises \<open>valueError\<close>, a name that is not defined: the
  exception actually raised is \<open>NameError\<close>, which the command loop does
  not catch. The else branch multiplies \<open>fixed_div\<close> as stored, which is
  \<open>None\<close> for a stock whose type is neither \<open>common\<close> nor \<open>preferred\<close>.
\<close>

definition calc_div_yield :: "stock \<Rightarrow> pyfloat \<Rightarrow> pyfloat result" where
  "calc_div_yield st p =
     (if pf_le p (Fin 0) then Inl (NameError (''name '' @ py_str_repr ''valueError'' @ '' is not defined''))
      else if py_lower (stock_typ st) = ''common'' then py_truediv (Fin (of_int (last_div st))) p
      else (case fixed_div st of
              PyInt f \<Rightarrow> py_truediv (Fin (of_int (f * par_value st))) (pf_mul p (Fin 100))
            | PyNone \<Rightarrow> Inl (TypeError (''unsupported operand type(s) for *: '' @ py_str_repr ''NoneType'' @ '' and '' @ py_str_repr ''int''))
            | PyStr _ \<Rightarrow> Inl (TypeError (''unsupported operand type(s) for /: '' @ py_str_repr ''str'' @ '' and '' @ py_str_repr ''float''))))"

definition calc_ratio :: int where
  "calc_ratio = 0"

text \<open>The specification's dividend yield of a security at a positive price.\<close>

fun spec_div_yield :: "security \<Rightarrow> real \<Rightarrow> real" where
  "spec_div_yield sec p =
     (case sec_kind sec of
        Common \<Rightarrow> of_int (sec_last_dividend sec) / p
      | Preferred f \<Rightarrow> of_int (f * sec_par_value sec) / (p * 100))"

section \<open>Volume-weighted price\<close>

text \<open>\<open>timedelta(minutes=5)\<close> in microseconds.\<close>

definition window :: int where
  "window = 5 * 60 * 1000000"

definition in_window :: "int \<Rightarrow> string \<Rightarrow> trade \<Rightarrow> bool" where
  "in_window cutoff sy t \<longleftrightarrow> cutoff < instant t \<and> symbol (stock t) = sy"

text \<open>The \<open>for\<close> loop with its two accumulators \<open>weighted_price\<close> and \<open>volume\<close>.\<close>

fun vwap_loop :: "int \<Rightarrow> string \<Rightarrow> trade list \<Rightarrow> pyfloat \<Rightarrow> int \<Rightarrow> pyfloat \<times> int" where
  "vwap_loop cutoff sy [] wp vol = (wp, vol)"
| "vwap_loop cutoff sy (t # ts) wp vol =
     (if in_window cutoff sy t
      then vwap_loop cutoff sy ts (pf_add wp (pf_mul (price t) (Fin (of_int (qty t))))) (vol + qty t)
      else vwap_loop cutoff sy ts wp vol)"

definition no_activity_prefix :: string where
  "no_activity_prefix = ''Couldn'' @ [CHR 0x27] @ ''t find any trading activity''"

definition calc_volume_weighted_price :: "int \<Rightarrow> stock \<Rightarrow> trade list \<Rightarrow> pyfloat result" where
  "calc_volume_weighted_price now st trades =
     (let (wp, vol) = vwap_loop (now - window) (symbol st) trades (Fin 0) 0 in
      if vol = 0 then Inl (ValueError (no_activity_prefix @ '' for '' @ symbol st @ ''!''))
      else py_truediv wp (Fin (of_int vol)))"

text \<open>The specification's volume-weighted price over the trades of the window, for finite prices.\<close>

definition fin_val :: "pyfloat \<Rightarrow> real" where
  "fin_val x = (case x of Fin a \<Rightarrow> a | _ \<Rightarrow> 0)"

definition window_trades :: "int \<Rightarrow> string \<Rightarrow> trade list \<Rightarrow> trade list" where
  "window_trades now sy trades = filter (in_window (now - window) sy) trades"

definition spec_vwap :: "trade list \<Rightarrow> real" where
  "spec_vwap ts = (\<Sum>t\<leftarrow>ts. fin_val (price t) * of_int (qty t)) / of_int (\<Sum>t\<leftarrow>ts. qty t)"

section \<open>The GBCE all-share index\<close>

text \<open>
  \<open>statistics.geometric_mean\<close> of Python 3.12 is
  \<open>exp(fmean(map(log, data)))\<close>, every \<open>ValueError\<close> inside replaced by a
  \<open>StatisticsError\<close>; \<open>fmean\<close> sums with \<open>fsum\<close> and then divides by the
  number of items, raising on an empty input.
\<close>

definition fmean :: "pyfloat list \<Rightarrow> pyfloat result" where
  "fmean xs = rbind (py_fsum xs) (\<lambda>total.
     if xs = [] then Inl (StatisticsError ''fmean requires at least one data point'')
     else py_truediv total (Fin (of_nat (length xs))))"

definition geometric_mean :: "pyfloat list \<Rightarrow> pyfloat result" where
  "geometric_mean data =
     (case rbind (map_result py_log data) (\<lambda>logs. rbind (fmean logs) (\<lambda>m. Inr (py_exp m))) of
        Inl e \<Rightarrow> if is_value_error e
                 then Inl (StatisticsError ''geometric mean requires a non-empty dataset containing positive numbers'')
                 else Inl e
      | Inr v \<Rightarrow> Inr v)"

text \<open>
  The loop of \<open>gbce\<close> over the symbols of the dict, in insertion order. The
  dict's keys are distinct, so \<open>stocks[symbol]\<close> is the value paired with
  the key. A \<open>ValueError\<close> whose text starts with the no-activity prefix is
  swallowed; any other exception propagates.
\<close>

fun gbce_loop :: "(nat \<Rightarrow> int) \<Rightarrow> nat \<Rightarrow> stock dict \<Rightarrow> trade list \<Rightarrow> pyfloat list \<Rightarrow> pyfloat list result" where
  "gbce_loop clock k [] trades acc = Inr acc"
| "gbce_loop clock k ((sy, st) # rest) trades acc =
     (case calc_volume_weighted_price (clock k) st trades of
        Inr v \<Rightarrow> gbce_loop clock (Suc k) rest trades (acc @ [v])
      | Inl e \<Rightarrow>
          if is_value_error e \<and> py_startswith (error_message e) no_activity_prefix
          then gbce_loop clock (Suc k) rest trades acc
          else Inl e)"

definition gbce :: "(nat \<Rightarrow> int) \<Rightarrow> stock dict \<Rightarrow> trade list \<Rightarrow> pyfloat result" where
  "gbce clock stocks trades =
     rbind (gbce_loop clock 0 stocks trades [])
       (\<lambda>vs. if vs = [] then Inl (ValueError (no_activity_prefix @ '' for any stock!''))
             else geometric_mean vs)"

text \<open>The specification's per-stock prices: those of the stocks with a trade in the window.\<close>

definition active_vwaps :: "int \<Rightarrow> stock dict \<Rightarrow> trade list \<Rightarrow> real list" where
  "active_vwaps now stocks trades =
     map (\<lambda>(sy, st). spec_vwap (window_trades now (symbol st) trades))
       (filter (\<lambda>(sy, st). window_trades now (symbol st) trades \<noteq> []) stocks)"

text \<open>
  The reimplementation the specification's design notes ask for (section 9):
  the outcome of one volume-weighted price as a tagged value, and the index
  branching on the tag instead of on the text of an exception.
\<close>

datatype vwap_outcome = Price pyfloat | NoActivity

definition vwap_tagged :: "int \<Rightarrow> stock \<Rightarrow> trade list \<Rightarrow> vwap_outcome" where
  "vwap_tagged now st trades =
     (let (wp, vol) = vwap_loop (now - window) (symbol st) trades (Fin 0) 0 in
      if vol = 0 then NoActivity else Price (pf_div wp (Fin (of_int vol))))"

fun gbce_tagged_loop :: "(nat \<Rightarrow> int) \<Rightarrow> nat \<Rightarrow> stock dict \<Rightarrow> trade list \<Rightarrow> pyfloat list" where
  "gbce_tagged_loop clock k [] trades = []"
| "gbce_tagged_loop clock k ((sy, st) # rest) trades =
     (case vwap_tagged (clock k) st trades of
        Price v \<Rightarrow> v # gbce_tagged_loop clock (Suc k) rest trades
      | NoActivity \<Rightarrow> gbce_tagged_loop clock (Suc k) rest trades)"

definition gbce_tagged :: "(nat \<Rightarrow> int) \<Rightarrow> stock dict \<Rightarrow> trade list \<Rightarrow> pyfloat result" where
  "gbce_tagged clock stocks trades =
     (let vs = gbce_tagged_loop clock 0 stocks trades in
      if vs = [] then Inl (ValueError (no_activity_prefix @ '' for any stock!'')) else geometric_mean vs)"

text \<open>Two stocks of the examples below.\<close>

definition sample_a :: stock where "sample_a = \<lparr>symbol = ''A'', stock_typ = ''common'', last_div = 1, fixed_div = PyNone, par_value = 100\<rparr>"
definition sample_b :: stock where "sample_b = \<lparr>symbol = ''B'', stock_typ = ''common'', last_div = 1, fixed_div = PyNone, par_value = 100\<rparr>"

section \<open>Properties\<close>

lemma vwap_loop_fin:
  assumes "\<forall>t\<in>set ts. \<exists>a. price t = Fin a"
  shows "vwap_loop c sy ts (Fin w) v =
    (Fin (w + (\<Sum>t\<leftarrow>filter (in_window c sy) ts. fin_val (price t) * of_int (qty t))),
     v + (\<Sum>t\<leftarrow>filter (in_window c sy) ts. qty t))"
  using assms
proof (induction ts arbitrary: w v)
  case Nil
  then show ?case by simp
next
  case (Cons t ts)
  then obtain a where "price t = Fin a" by auto
  with Cons show ?case by (simp add: fin_val_def algebra_simps)
qed

lemma spec_trades_finite:
  "\<forall>t\<in>set ts. spec_trade t \<Longrightarrow> \<forall>t\<in>set ts. \<exists>a. price t = Fin a"
  by (auto simp: spec_trade_def pf_pos_def)

lemma spec_vwap_pos:
  assumes "\<forall>t\<in>set ts. spec_trade t" and "ts \<noteq> []"
  shows "0 < spec_vwap ts"
proof -
  have "\<forall>t\<in>set ts. 0 < fin_val (price t) * of_int (qty t)"
    using assms(1) by (auto simp: spec_trade_def pf_pos_def fin_val_def)
  then have "0 < (\<Sum>t\<leftarrow>ts. fin_val (price t) * of_int (qty t))"
    using assms(2) by (rule sum_list_pos)
  moreover have "0 < (\<Sum>t\<leftarrow>ts. qty t)"
    using assms by (intro sum_list_pos) (auto simp: spec_trade_def)
  ultimately show ?thesis by (simp add: spec_vwap_def)
qed

lemma vwap_window_sums:
  assumes "\<forall>t\<in>set trades. spec_trade t"
  shows "vwap_loop (now - window) sy trades (Fin 0) 0 =
     (Fin (\<Sum>t\<leftarrow>window_trades now sy trades. fin_val (price t) * of_int (qty t)),
      \<Sum>t\<leftarrow>window_trades now sy trades. qty t)"
  using vwap_loop_fin [OF spec_trades_finite [OF assms]] by (simp add: window_trades_def)

lemma window_volume_pos:
  assumes "\<forall>t\<in>set trades. spec_trade t" and "window_trades now sy trades \<noteq> []"
  shows "0 < (\<Sum>t\<leftarrow>window_trades now sy trades. qty t)"
  using assms by (intro sum_list_pos) (auto simp: spec_trade_def window_trades_def)

text \<open>
  C1. On trades that satisfy the specification's invariant, the loop of
  \<open>calc_volume_weighted_price\<close> computes the specification's formula
  \<open>sum(price * qty) / sum(qty)\<close> over the trades of the stock's symbol
  strictly younger than five minutes, and fails with the no-activity
  \<open>ValueError\<close> naming the symbol exactly when there is no such trade.
\<close>

theorem calc_volume_weighted_price_spec:
  assumes "\<forall>t\<in>set trades. spec_trade t"
  shows "calc_volume_weighted_price now st trades =
    (if window_trades now (symbol st) trades = []
     then Inl (ValueError (no_activity_prefix @ '' for '' @ symbol st @ ''!''))
     else Inr (Fin (spec_vwap (window_trades now (symbol st) trades))))"
proof (cases "window_trades now (symbol st) trades = []")
  case True
  then show ?thesis by (simp add: calc_volume_weighted_price_def vwap_window_sums [OF assms])
next
  case False
  have "0 < (\<Sum>t\<leftarrow>window_trades now (symbol st) trades. qty t)"
    by (rule window_volume_pos [OF assms False])
  with False show ?thesis
    by (simp add: calc_volume_weighted_price_def vwap_window_sums [OF assms] py_truediv_def spec_vwap_def)
qed

theorem calc_volume_weighted_price_spec_witness:
  "calc_volume_weighted_price 300 \<lparr>symbol = ''X'', stock_typ = ''common'', last_div = 0, fixed_div = PyNone, par_value = 100\<rparr>
     [\<lparr>instant = 100, stock = \<lparr>symbol = ''X'', stock_typ = ''common'', last_div = 0, fixed_div = PyNone, par_value = 100\<rparr>, is_buy = True, qty = 100, price = Fin 10\<rparr>,
      \<lparr>instant = 200, stock = \<lparr>symbol = ''X'', stock_typ = ''common'', last_div = 0, fixed_div = PyNone, par_value = 100\<rparr>, is_buy = False, qty = 50, price = Fin 20\<rparr>]
   = Inr (Fin (40 / 3))"
proof -
  let ?st = "\<lparr>symbol = ''X'', stock_typ = ''common'', last_div = 0, fixed_div = PyNone, par_value = 100\<rparr>"
  let ?ts = "[\<lparr>instant = 100, stock = ?st, is_buy = True, qty = 100, price = Fin 10\<rparr>,
              \<lparr>instant = 200, stock = ?st, is_buy = False, qty = 50, price = Fin 20\<rparr>]"
  have h: "\<forall>t\<in>set ?ts. spec_trade t" by (simp add: spec_trade_def)
  have w: "window_trades 300 ''X'' ?ts = ?ts" by (simp add: window_trades_def in_window_def window_def)
  show ?thesis using calc_volume_weighted_price_spec [OF h, of 300 ?st] h w
    by (simp add: spec_vwap_def fin_val_def)
qed

lemma geometric_mean_pos:
  assumes "xs \<noteq> []" and "\<forall>a\<in>set xs. 0 < a"
  shows "geometric_mean (map Fin xs) = Inr (Fin (prod_list xs powr (1 / real (length xs))))"
proof -
  have logs: "map_result py_log (map Fin xs) = Inr (map (\<lambda>a. Fin (ln a)) xs)"
    using map_result_py_log_pos [OF assms(2)] .
  have mean: "fmean (map (\<lambda>a. Fin (ln a)) xs) = Inr (Fin (sum_list (map ln xs) / real (length xs)))"
    using assms(1) by (simp add: fmean_def py_fsum_Fin py_truediv_def)
  have "exp (sum_list (map ln xs) / real (length xs)) = prod_list xs powr (1 / real (length xs))"
    using prod_list_pos_real [OF assms(2)] ln_prod_list_pos [OF assms(2)] by (simp add: powr_def)
  then show ?thesis by (simp add: geometric_mean_def logs mean)
qed

lemma no_activity_caught:
  "is_value_error (ValueError (no_activity_prefix @ s)) \<and> py_startswith (error_message (ValueError (no_activity_prefix @ s))) no_activity_prefix"
  by (simp add: py_startswith_def)

lemma gbce_loop_spec:
  assumes "\<forall>t\<in>set trades. spec_trade t"
  shows "gbce_loop (\<lambda>_. now) k stocks trades acc =
    Inr (acc @ map Fin (active_vwaps now stocks trades))"
proof (induction stocks arbitrary: k acc)
  case Nil
  then show ?case by (simp add: active_vwaps_def)
next
  case (Cons p stocks)
  obtain sy st where p: "p = (sy, st)" by force
  show ?case
  proof (cases "window_trades now (symbol st) trades = []")
    case True
    then show ?thesis using Cons.IH no_activity_caught
      by (simp add: p active_vwaps_def calc_volume_weighted_price_def vwap_window_sums [OF assms]
          del: is_value_error.simps error_message.simps)
  next
    case False
    then show ?thesis using Cons.IH window_volume_pos [OF assms False]
      by (simp add: p active_vwaps_def calc_volume_weighted_price_def vwap_window_sums [OF assms]
          py_truediv_def spec_vwap_def)
  qed
qed

lemma active_vwaps_pos:
  "\<forall>t\<in>set trades. spec_trade t \<Longrightarrow> \<forall>v\<in>set (active_vwaps now stocks trades). 0 < v"
  by (auto simp: active_vwaps_def window_trades_def intro!: spec_vwap_pos)

text \<open>
  C2. \<open>gbce\<close> over trades that satisfy the specification's invariant, with
  one clock reading for the whole call, is the geometric mean
  \<open>(prod p_i) ^ (1/n)\<close> of the volume-weighted prices of the stocks that
  have activity in the window (in dict order), and fails with the global
  no-activity \<open>ValueError\<close> when no stock has any.
\<close>

theorem gbce_spec:
  assumes "\<forall>t\<in>set trades. spec_trade t"
  shows "gbce (\<lambda>_. now) stocks trades =
    (let vs = active_vwaps now stocks trades in
     if vs = [] then Inl (ValueError (no_activity_prefix @ '' for any stock!''))
     else Inr (Fin (prod_list vs powr (1 / real (length vs)))))"
  using gbce_loop_spec [OF assms, of now 0 stocks "[]"] geometric_mean_pos active_vwaps_pos [OF assms]
  by (simp add: gbce_def Let_def)

theorem gbce_spec_witness:
  "gbce (\<lambda>_. 1) [(''A'', \<lparr>symbol = ''A'', stock_typ = ''common'', last_div = 1, fixed_div = PyNone, par_value = 100\<rparr>),
                  (''B'', \<lparr>symbol = ''B'', stock_typ = ''common'', last_div = 1, fixed_div = PyNone, par_value = 100\<rparr>),
                  (''C'', \<lparr>symbol = ''C'', stock_typ = ''common'', last_div = 1, fixed_div = PyNone, par_value = 100\<rparr>)]
     [\<lparr>instant = 0, stock = \<lparr>symbol = ''A'', stock_typ = ''common'', last_div = 1, fixed_div = PyNone, par_value = 100\<rparr>, is_buy = True, qty = 3, price = Fin 2\<rparr>,
      \<lparr>instant = 0, stock = \<lparr>symbol = ''B'', stock_typ = ''common'', last_div = 1, fixed_div = PyNone, par_value = 100\<rparr>, is_buy = False, qty = 1, price = Fin 8\<rparr>]
   = Inr (Fin 4)"
proof -
  let ?a = "\<lparr>symbol = ''A'', stock_typ = ''common'', last_div = 1, fixed_div = PyNone, par_value = 100\<rparr>"
  let ?b = "\<lparr>symbol = ''B'', stock_typ = ''common'', last_div = 1, fixed_div = PyNone, par_value = 100\<rparr>"
  let ?c = "\<lparr>symbol = ''C'', stock_typ = ''common'', last_div = 1, fixed_div = PyNone, par_value = 100\<rparr>"
  let ?ts = "[\<lparr>instant = 0, stock = ?a, is_buy = True, qty = 3, price = Fin 2\<rparr>,
              \<lparr>instant = 0, stock = ?b, is_buy = False, qty = 1, price = Fin 8\<rparr>]"
  have h: "\<forall>t\<in>set ?ts. spec_trade t" by (simp add: spec_trade_def)
  have v: "active_vwaps 1 [(''A'', ?a), (''B'', ?b), (''C'', ?c)] ?ts = [2, 8]"
    by (simp add: active_vwaps_def window_trades_def in_window_def window_def spec_vwap_def fin_val_def)
  have r: "(16::real) powr (1 / 2) = 4"
    by (simp add: powr_half_sqrt)
  show ?thesis using gbce_spec [OF h, of 1 "[(''A'', ?a), (''B'', ?b), (''C'', ?c)]"] h v r
    by simp
qed
lemma py_lower_common: "py_lower ''common'' = ''common''"
  by code_simp

lemma py_lower_preferred: "py_lower ''preferred'' = ''preferred''"
  by code_simp

text \<open>
  C5. On a stock with an abstract counterpart (type \<open>common\<close>, or
  \<open>preferred\<close> with an integer fixed dividend) and a positive finite price,
  \<open>calc_div_yield\<close> computes the specification's dividend yield:
  \<open>last_div / price\<close>, or \<open>fixed_div * par_value / (price * 100)\<close>.
\<close>

theorem calc_div_yield_spec:
  assumes "abs_stock st = Some sec" and "0 < p"
  shows "calc_div_yield st (Fin p) = Inr (Fin (spec_div_yield sec p))"
  using assms
  by (auto simp: abs_stock_def calc_div_yield_def py_truediv_def py_lower_common py_lower_preferred
           split: if_splits pyval.splits)

theorem calc_div_yield_spec_witness:
  "calc_div_yield \<lparr>symbol = ''POP'', stock_typ = ''common'', last_div = 8, fixed_div = PyNone, par_value = 100\<rparr> (Fin 2)
     = Inr (Fin 4) \<and>
   calc_div_yield \<lparr>symbol = ''GIN'', stock_typ = ''preferred'', last_div = 8, fixed_div = PyInt 2, par_value = 100\<rparr> (Fin 50)
     = Inr (Fin (4 / 100))"
proof -
  have a: "abs_stock \<lparr>symbol = ''POP'', stock_typ = ''common'', last_div = 8, fixed_div = PyNone, par_value = 100\<rparr> =
     Some \<lparr>sec_symbol = ''POP'', sec_kind = Common, sec_last_dividend = 8, sec_par_value = 100\<rparr>"
    by (simp add: abs_stock_def)
  have b: "abs_stock \<lparr>symbol = ''GIN'', stock_typ = ''preferred'', last_div = 8, fixed_div = PyInt 2, par_value = 100\<rparr> =
     Some \<lparr>sec_symbol = ''GIN'', sec_kind = Preferred 2, sec_last_dividend = 8, sec_par_value = 100\<rparr>"
    by (simp add: abs_stock_def)
  show ?thesis
    using calc_div_yield_spec [OF a, of 2] calc_div_yield_spec [OF b, of 50] by simp
qed

text \<open>
  C16. A price \<open><= 0\<close> makes \<open>calc_div_yield\<close> raise \<open>NameError\<close> (the guard
  calls the undefined name \<open>valueError\<close>), not the intended
  \<open>ValueError\<close>, whatever the stock.
\<close>

theorem calc_div_yield_nonpositive:
  assumes "pf_le p (Fin 0)"
  shows "calc_div_yield st p = Inl (NameError (''name '' @ py_str_repr ''valueError'' @ '' is not defined''))"
  using assms by (simp add: calc_div_yield_def)

theorem calc_div_yield_nonpositive_witness:
  "pf_le (Fin 0) (Fin 0) \<and>
   calc_div_yield \<lparr>symbol = ''POP'', stock_typ = ''common'', last_div = 8, fixed_div = PyNone, par_value = 100\<rparr> (Fin 0)
     = Inl (NameError (''name '' @ py_str_repr ''valueError'' @ '' is not defined''))"
  using calc_div_yield_nonpositive [of "Fin 0"] by simp

text \<open>
  C6. The window is strict: a trade exactly five minutes old, or older, is
  left out, a younger one is counted. With trades 301, 300 and 299 seconds
  old at prices 1000, 100 and 10, the volume-weighted price is 10, at every
  instant \<open>now\<close>.
\<close>

theorem calc_volume_weighted_price_window:
  "calc_volume_weighted_price now st
     [\<lparr>instant = now - 301000000, stock = st, is_buy = True, qty = 1, price = Fin 1000\<rparr>,
      \<lparr>instant = now - 300000000, stock = st, is_buy = True, qty = 1, price = Fin 100\<rparr>,
      \<lparr>instant = now - 299000000, stock = st, is_buy = False, qty = 1, price = Fin 10\<rparr>]
   = Inr (Fin 10)"
  by (simp add: calc_volume_weighted_price_def in_window_def window_def py_truediv_def)

text \<open>
  C31. \<open>gbce\<close> reads the clock anew for every stock, so the five-minute window
  moves during one computation: with trades of two stocks at instant 0 and
  readings 299 s and 301 s, the second stock drops out and the index is 9,
  where one reading of 299 s for the whole call gives the geometric mean 6.
\<close>

theorem gbce_clock_moves:
  "gbce (\<lambda>k. 299000000 + 2000000 * int k) [(''A'', sample_a), (''B'', sample_b)]
     [\<lparr>instant = 0, stock = sample_a, is_buy = True, qty = 1, price = Fin 9\<rparr>, \<lparr>instant = 0, stock = sample_b, is_buy = True, qty = 1, price = Fin 4\<rparr>]
     = Inr (Fin 9) \<and>
   gbce (\<lambda>_. 299000000) [(''A'', sample_a), (''B'', sample_b)]
     [\<lparr>instant = 0, stock = sample_a, is_buy = True, qty = 1, price = Fin 9\<rparr>, \<lparr>instant = 0, stock = sample_b, is_buy = True, qty = 1, price = Fin 4\<rparr>]
     = Inr (Fin 6)"
proof
  show "gbce (\<lambda>k. 299000000 + 2000000 * int k) [(''A'', sample_a), (''B'', sample_b)]
     [\<lparr>instant = 0, stock = sample_a, is_buy = True, qty = 1, price = Fin 9\<rparr>, \<lparr>instant = 0, stock = sample_b, is_buy = True, qty = 1, price = Fin 4\<rparr>]
     = Inr (Fin 9)"
    by (simp add: gbce_def calc_volume_weighted_price_def in_window_def window_def py_truediv_def sample_a_def sample_b_def
        no_activity_prefix_def py_startswith_def geometric_mean_def fmean_def py_fsum_def)
  let ?ts = "[\<lparr>instant = 0, stock = sample_a, is_buy = True, qty = 1, price = Fin 9\<rparr>, \<lparr>instant = 0, stock = sample_b, is_buy = True, qty = 1, price = Fin 4\<rparr>]"
  have h: "\<forall>t\<in>set ?ts. spec_trade t" by (simp add: spec_trade_def)
  have a: "active_vwaps 299000000 [(''A'', sample_a), (''B'', sample_b)] ?ts = [9, 4]"
    by (simp add: active_vwaps_def window_trades_def in_window_def window_def spec_vwap_def fin_val_def sample_a_def sample_b_def)
  have g: "geometric_mean (map Fin [9, 4]) = Inr (Fin (prod_list [9, 4::real] powr (1 / real (length [9, 4::real]))))"
    by (rule geometric_mean_pos) auto
  have r: "(36::real) powr (1 / 2) = 6" by (simp add: powr_half_sqrt)
  show "gbce (\<lambda>_. 299000000) [(''A'', sample_a), (''B'', sample_b)] ?ts = Inr (Fin 6)"
    using gbce_loop_spec [OF h, of 299000000 0 "[(''A'', sample_a), (''B'', sample_b)]" "[]"] a g r
    by (simp add: gbce_def)
qed

text \<open>
  C33. For a stock whose type is neither \<open>common\<close> nor \<open>preferred\<close>, which
  the constructor accepts, and no fixed dividend, \<open>calc_div_yield\<close> at a
  valid price takes the preferred branch and raises \<open>TypeError\<close> on
  \<open>None * int\<close>; the specification says no other kind can occur.
\<close>

theorem calc_div_yield_unknown_type:
  assumes "py_lower (stock_typ st) \<noteq> ''common''" and "fixed_div st = PyNone" and "\<not> pf_le p (Fin 0)"
  shows "calc_div_yield st p =
    Inl (TypeError (''unsupported operand type(s) for *: '' @ py_str_repr ''NoneType'' @ '' and '' @ py_str_repr ''int''))"
  using assms by (simp add: calc_div_yield_def)

theorem calc_div_yield_unknown_type_witness:
  "calc_div_yield \<lparr>symbol = ''X'', stock_typ = ''ordinary'', last_div = 5, fixed_div = PyNone, par_value = 100\<rparr> (Fin 2) =
    Inl (TypeError (''unsupported operand type(s) for *: '' @ py_str_repr ''NoneType'' @ '' and '' @ py_str_repr ''int''))"
proof -
  have t: "py_lower (stock_typ \<lparr>symbol = ''X'', stock_typ = ''ordinary'', last_div = 5, fixed_div = PyNone, par_value = 100\<rparr>) \<noteq> ''common''"
    by code_simp
  show ?thesis by (rule calc_div_yield_unknown_type [OF t]) simp_all
qed


lemma calc_volume_weighted_price_tagged:
  "calc_volume_weighted_price now st trades =
     (case vwap_tagged now st trades of
        Price v \<Rightarrow> Inr v
      | NoActivity \<Rightarrow> Inl (ValueError (no_activity_prefix @ '' for '' @ symbol st @ ''!'')))"
  by (simp add: calc_volume_weighted_price_def vwap_tagged_def py_truediv_def split: prod.splits)

lemma gbce_loop_tagged:
  "gbce_loop clock k stocks trades acc = Inr (acc @ gbce_tagged_loop clock k stocks trades)"
proof (induction stocks arbitrary: k acc)
  case Nil
  then show ?case by simp
next
  case (Cons p stocks)
  obtain sy st where p: "p = (sy, st)" by force
  show ?case
  proof (cases "vwap_tagged (clock k) st trades")
    case (Price v)
    then show ?thesis using Cons.IH by (simp add: p calc_volume_weighted_price_tagged)
  next
    case NoActivity
    then show ?thesis using Cons.IH no_activity_caught
      by (simp add: p calc_volume_weighted_price_tagged del: is_value_error.simps error_message.simps)
  qed
qed

text \<open>
  C8. The index's test on the text of the exception is sound here: \<open>gbce\<close>
  equals, on every registry, ledger and clock, the reimplementation that
  branches on a tagged no-activity outcome, because the no-activity
  \<open>ValueError\<close> is the only exception \<open>calc_volume_weighted_price\<close> raises
  and its text always starts with the prefix tested.
\<close>

theorem gbce_tagged_eq: "gbce clock stocks trades = gbce_tagged clock stocks trades"
  by (simp add: gbce_def gbce_tagged_def gbce_loop_tagged Let_def)

lemma snd_vwap_loop: "snd (vwap_loop c sy ts wp v) = v + (\<Sum>t\<leftarrow>filter (in_window c sy) ts. qty t)"
  by (induction ts arbitrary: wp v) simp_all

lemma pf_mul_PosInf_pos: "0 < q \<Longrightarrow> pf_mul PosInf (Fin q) = PosInf"
  by (simp add: inf_of_sign_def)

lemma vwap_loop_inf:
  assumes "\<forall>t\<in>set ts. in_window c sy t \<longrightarrow> 0 < qty t \<and> (pf_pos (price t) \<or> price t = PosInf)"
    and "wp = PosInf \<or> (\<exists>t\<in>set ts. in_window c sy t \<and> price t = PosInf)"
    and "wp = PosInf \<or> (\<exists>a. wp = Fin a \<and> 0 \<le> a)"
  shows "fst (vwap_loop c sy ts wp v) = PosInf"
  using assms
proof (induction ts arbitrary: wp v)
  case Nil
  then show ?case by simp
next
  case (Cons t ts)
  show ?case
  proof (cases "in_window c sy t")
    case True
    let ?wp = "pf_add wp (pf_mul (price t) (Fin (of_int (qty t))))"
    have q: "0 < qty t" and p: "pf_pos (price t) \<or> price t = PosInf" using Cons.prems(1) True by auto
    have nn: "?wp = PosInf \<or> (\<exists>a. ?wp = Fin a \<and> 0 \<le> a)"
      using p q Cons.prems(3) by (auto simp: pf_pos_def inf_of_sign_def)
    have hit: "?wp = PosInf \<or> (\<exists>t\<in>set ts. in_window c sy t \<and> price t = PosInf)"
      using Cons.prems(2,3) p q by (auto simp: pf_pos_def inf_of_sign_def)
    from Cons.IH [OF _ hit nn] Cons.prems(1) True show ?thesis by simp
  next
    case False
    with Cons.prems have "fst (vwap_loop c sy ts wp v) = PosInf" by (intro Cons.IH) auto
    with False show ?thesis by simp
  qed
qed

text \<open>
  C21. An infinite price passes the trade's validation (\<open>inf <= 0\<close> is
  false) and makes the volume-weighted price of its stock infinite, whatever
  the other trades of the window: on trades of positive quantity with
  positive or infinite prices, one infinite price in the window gives \<open>inf\<close>.
\<close>

theorem calc_volume_weighted_price_inf:
  assumes "\<forall>t\<in>set (window_trades now (symbol st) trades). 0 < qty t \<and> (pf_pos (price t) \<or> price t = PosInf)"
    and "\<exists>t\<in>set (window_trades now (symbol st) trades). price t = PosInf"
  shows "calc_volume_weighted_price now st trades = Inr PosInf"
proof -
  let ?c = "now - window"
  have wp: "fst (vwap_loop ?c (symbol st) trades (Fin 0) 0) = PosInf"
    using assms by (intro vwap_loop_inf) (auto simp: window_trades_def)
  have "0 < (\<Sum>t\<leftarrow>window_trades now (symbol st) trades. qty t)"
    using assms by (intro sum_list_pos) auto
  then have vol: "0 < snd (vwap_loop ?c (symbol st) trades (Fin 0) 0)"
    by (simp add: snd_vwap_loop window_trades_def)
  from wp vol show ?thesis
    by (cases "vwap_loop ?c (symbol st) trades (Fin 0) 0") (simp add: calc_volume_weighted_price_def py_truediv_def inf_of_sign_def)
qed

theorem calc_volume_weighted_price_inf_witness:
  "calc_volume_weighted_price 0 sample_a
     [\<lparr>instant = 0, stock = sample_a, is_buy = True, qty = 2, price = Fin 3\<rparr>,
      \<lparr>instant = -1, stock = sample_a, is_buy = False, qty = 1, price = PosInf\<rparr>,
      \<lparr>instant = 0, stock = sample_b, is_buy = True, qty = 1, price = Fin 1\<rparr>] = Inr PosInf"
  by (rule calc_volume_weighted_price_inf)
     (simp_all add: window_trades_def in_window_def window_def sample_a_def sample_b_def pf_pos_def)

theorem gbce_tagged_eq_witness:
  "gbce (\<lambda>_. 0) [(''A'', sample_a), (''B'', sample_b)]
     [\<lparr>instant = 0, stock = sample_a, is_buy = True, qty = 2, price = NaN\<rparr>] =
   gbce_tagged (\<lambda>_. 0) [(''A'', sample_a), (''B'', sample_b)]
     [\<lparr>instant = 0, stock = sample_a, is_buy = True, qty = 2, price = NaN\<rparr>]"
  by (rule gbce_tagged_eq)

end
