(* ===== verification/Simulator.thy ===== *)
theory Simulator
  imports Metrics
begin

text \<open>
  The command loop of \<open>src/Trading_sim.py\<close> (lines 150--224) and the trade
  ledger it owns. The state is the dict \<open>stocks\<close> and the list \<open>trades\<close>;
  one input line is one step \<open>handle_line\<close>, which either continues with a
  new state and what it printed, leaves the loop (\<open>exit\<close>, \<open>quit\<close>), or ends
  the process with an exception the clause \<open>except (ValueError, TypeError)\<close>
  does not catch. The readings of the clock taken while a line is
  processed are \<open>clock 0, clock 1, ...\<close>. The text printed is kept
  abstract: the value of \<open>Result: ...\<close>, the exception whose \<open>str\<close> is
  printed, the items listed by \<open>pretty_print\<close>.
\<close>

record sim_state =
  sim_stocks :: "stock dict"
  sim_trades :: "trade list"

datatype result_val = RFloat pyfloat | RInt int | RTrade trade | RNone

datatype console_out =
    OResult result_val
  | OError py_error
  | OText string
  | OHelp
  | OTrades "trade list"
  | OStocks "stock list"

datatype outcome = Continue sim_state "console_out list" | Exit | Crash py_error

text \<open>The keys of the dict \<open>actions\<close> (lines 151--163), in order.\<close>

definition action_names :: "string list" where
  "action_names = [''help'', ''dividend_yield'', ''p_to_e_ratio'', ''buy'', ''sell'',
     ''volume_weighted_price'', ''gbce'', ''show_trades'', ''show_stocks'', ''exit'', ''quit'']"

text \<open>\<open>sep.join(xs)\<close> and \<open>repr\<close> of a list of strings.\<close>

fun py_join :: "string \<Rightarrow> string list \<Rightarrow> string" where
  "py_join sep [] = []"
| "py_join sep [x] = x"
| "py_join sep (x # xs) = x @ sep @ py_join sep xs"

definition py_list_repr :: "string list \<Rightarrow> string" where
  "py_list_repr xs = ''['' @ py_join '', '' (map py_str_repr xs) @ '']''"

text \<open>\<open>validate_symbol\<close> (lines 145--147).\<close>

definition validate_symbol :: "string \<Rightarrow> stock dict \<Rightarrow> unit result" where
  "validate_symbol sy d =
     (if dict_contains d sy then Inr ()
      else Inl (ValueError (''Invalid stock symbol('' @ sy @ ''). Choose from: '' @ py_list_repr (dict_keys d))))"

text \<open>
  The \<open>TypeError\<close> of a call \<open>f(*args)\<close> with the wrong number of positional
  arguments, with CPython's messages.
\<close>

fun py_and_list :: "string list \<Rightarrow> string" where
  "py_and_list [] = []"
| "py_and_list [x] = py_str_repr x"
| "py_and_list [x, y] = py_str_repr x @ '' and '' @ py_str_repr y"
| "py_and_list (x # xs) = py_str_repr x @ '', '' @ py_and_list xs"

definition plural :: "nat \<Rightarrow> string \<Rightarrow> string" where
  "plural n w = (if n = 1 then w else w @ ''s'')"

definition arity_error :: "string \<Rightarrow> string list \<Rightarrow> nat \<Rightarrow> py_error" where
  "arity_error f params given =
     (let n = length params in
      if given < n then
        TypeError (f @ ''() missing '' @ nat_str (n - given) @ '' required positional ''
                   @ plural (n - given) ''argument'' @ '': '' @ py_and_list (drop given params))
      else
        TypeError (f @ ''() takes '' @ nat_str n @ '' positional '' @ plural n ''argument''
                   @ '' but '' @ nat_str given @ (if given = 1 then '' was'' else '' were'') @ '' given''))"

text \<open>
  The body of the loop for a known action: the argument reshaping of the
  \<open>match\<close> (lines 195--216), the call \<open>actions[action]( *args)\<close> (line
  217), and for \<open>buy\<close> and \<open>sell\<close> the \<open>on_exit\<close> that appends the new
  trade once its result is printed (lines 200, 218--220). Reading
  \<open>args[i]\<close> past the end raises \<open>IndexError\<close>; a call with the wrong
  number of arguments raises \<open>TypeError\<close>.
\<close>

definition no_arg :: py_error where
  "no_arg = IndexError ''list index out of range''"

text \<open>\<open>buy\<close>/\<open>sell\<close> (lines 196--200): \<open>args[0]\<close> replaced by the stock, then the call with the remaining arguments.\<close>

definition trade_command :: "(nat \<Rightarrow> int) \<Rightarrow> sim_state \<Rightarrow> string \<Rightarrow> string list \<Rightarrow> (sim_state \<times> console_out list) result" where
  "trade_command clock st action args =
     (case args of
        [] \<Rightarrow> Inl no_arg
      | sy # rest \<Rightarrow>
          rbind (validate_symbol sy (sim_stocks st)) (\<lambda>_. rbind (dict_getitem (sim_stocks st) sy) (\<lambda>s.
            if length rest = 2 then
              rbind ((if action = ''buy'' then buy else sell) (clock 0) s (PyStr (rest ! 0)) (PyStr (rest ! 1)))
                (\<lambda>t. Inr (st\<lparr>sim_trades := sim_trades st @ [t]\<rparr>, [OResult (RTrade t)]))
            else Inl (arity_error action [''stock'', ''qty'', ''price''] (Suc (length rest))))))"

text \<open>\<open>dividend_yield\<close> (lines 201--204): the stock and \<open>float(args[1])\<close>; further arguments are dropped.\<close>

definition yield_command :: "sim_state \<Rightarrow> string list \<Rightarrow> (sim_state \<times> console_out list) result" where
  "yield_command st args =
     (case args of
        [] \<Rightarrow> Inl no_arg
      | sy # rest \<Rightarrow>
          rbind (validate_symbol sy (sim_stocks st)) (\<lambda>_. rbind (dict_getitem (sim_stocks st) sy) (\<lambda>s.
            case rest of
              [] \<Rightarrow> Inl no_arg
            | pr # _ \<Rightarrow>
                rbind (py_float_of_str pr) (\<lambda>p. rbind (calc_div_yield s p) (\<lambda>y. Inr (st, [OResult (RFloat y)]))))))"

text \<open>\<open>volume_weighted_price\<close> (lines 205--208): the stock and the ledger; further arguments are dropped.\<close>

definition vwap_command :: "(nat \<Rightarrow> int) \<Rightarrow> sim_state \<Rightarrow> string list \<Rightarrow> (sim_state \<times> console_out list) result" where
  "vwap_command clock st args =
     (case args of
        [] \<Rightarrow> Inl no_arg
      | sy # _ \<Rightarrow>
          rbind (validate_symbol sy (sim_stocks st)) (\<lambda>_. rbind (dict_getitem (sim_stocks st) sy) (\<lambda>s.
            rbind (calc_volume_weighted_price (clock 0) s (sim_trades st)) (\<lambda>v. Inr (st, [OResult (RFloat v)])))))"

text \<open>The \<open>match\<close> and the call, for a known action other than \<open>exit\<close>/\<open>quit\<close>.\<close>

definition dispatch :: "(nat \<Rightarrow> int) \<Rightarrow> sim_state \<Rightarrow> string \<Rightarrow> string list \<Rightarrow> (sim_state \<times> console_out list) result" where
  "dispatch clock st action args =
     (if action = ''buy'' \<or> action = ''sell'' then trade_command clock st action args
      else if action = ''dividend_yield'' then yield_command st args
      else if action = ''volume_weighted_price'' then vwap_command clock st args
      else if action = ''gbce'' then
        rbind (gbce clock (sim_stocks st) (sim_trades st)) (\<lambda>v. Inr (st, [OResult (RFloat v)]))
      else if action = ''show_trades'' then Inr (st, [OTrades (sim_trades st)])
      else if action = ''show_stocks'' then Inr (st, [OStocks (map snd (sim_stocks st))])
      else if action = ''help'' then
        (if args = [] then Inr (st, [OHelp, OResult RNone]) else Inl (arity_error ''print_help'' [] (length args)))
      else if action = ''p_to_e_ratio'' then
        (if args = [] then Inr (st, [OResult (RInt calc_ratio)]) else Inl (arity_error ''calc_ratio'' [] (length args)))
      else Inr (st, []))"

text \<open>The exceptions the clause \<open>except (ValueError, TypeError)\<close> of line 223 catches.\<close>

definition loop_catches :: "py_error \<Rightarrow> bool" where
  "loop_catches e \<longleftrightarrow> is_value_error e \<or> (case e of TypeError _ \<Rightarrow> True | _ \<Rightarrow> False)"

text \<open>One iteration of \<open>while True\<close> (lines 186--224) on the line read by \<open>input()\<close>.\<close>

definition handle_line :: "(nat \<Rightarrow> int) \<Rightarrow> sim_state \<Rightarrow> string \<Rightarrow> outcome" where
  "handle_line clock st line =
     (case py_split (py_strip line) of
        [] \<Rightarrow> Continue st [OError (ValueError ''not enough values to unpack (expected at least 1, got 0)'')]
      | a # args \<Rightarrow>
          (let action = py_lower a in
           if action \<notin> set action_names
           then Continue st [OText (''Invalid action! choose from: '' @ py_list_repr action_names)]
           else if action = ''exit'' \<or> action = ''quit'' then Exit
           else (case dispatch clock st action args of
                   Inr (st', out) \<Rightarrow> Continue st' out
                 | Inl e \<Rightarrow> if loop_catches e then Continue st [OError e] else Crash e)))"

text \<open>The state at the start of the loop (lines 165--175).\<close>

definition init_state :: "sim_state result" where
  "init_state = rbind initial_stocks (\<lambda>d. Inr \<lparr>sim_stocks = d, sim_trades = []\<rparr>)"

text \<open>A session: the lines read, one after the other; \<open>clk i\<close> is the clock while the \<open>i\<close>-th line is processed.\<close>

datatype status = Waiting | Exited | Crashed py_error

fun run :: "(nat \<Rightarrow> nat \<Rightarrow> int) \<Rightarrow> nat \<Rightarrow> sim_state \<Rightarrow> string list \<Rightarrow> sim_state \<times> status" where
  "run clk i st [] = (st, Waiting)"
| "run clk i st (l # ls) =
     (case handle_line (clk i) st l of
        Continue st' _ \<Rightarrow> run clk (Suc i) st' ls
      | Exit \<Rightarrow> (st, Exited)
      | Crash e \<Rightarrow> (st, Crashed e))"

text \<open>The states the loop can be in: the start state and every state a line leads to.\<close>

inductive reachable :: "sim_state \<Rightarrow> bool" where
  start: "init_state = Inr st \<Longrightarrow> reachable st"
| step: "reachable st \<Longrightarrow> handle_line clock st l = Continue st' out \<Longrightarrow> reachable st'"

text \<open>
  What one line may do to the state: nothing, or append one valid trade,
  stamped with the first clock reading, of a stock of the registry.
\<close>

definition appends_trade :: "(nat \<Rightarrow> int) \<Rightarrow> sim_state \<Rightarrow> sim_state \<Rightarrow> bool" where
  "appends_trade clock st st' \<longleftrightarrow>
     st' = st \<or> (\<exists>t. st' = st\<lparr>sim_trades := sim_trades st @ [t]\<rparr> \<and> valid_trade t \<and> instant t = clock 0 \<and>
                      stock t \<in> snd ` set (sim_stocks st))"

text \<open>The invariant of the loop: the registry is the start-up catalog, every trade is valid and of a registered stock.\<close>

definition ledger_inv :: "sim_state \<Rightarrow> bool" where
  "ledger_inv st \<longleftrightarrow> init_state = Inr \<lparr>sim_stocks = sim_stocks st, sim_trades = []\<rparr> \<and>
     (\<forall>t\<in>set (sim_trades st). valid_trade t \<and> stock t \<in> snd ` set (sim_stocks st))"

text \<open>The catalog entry \<open>TEA\<close> (line 167), used in the examples below.\<close>

definition tea :: stock where
  "tea = \<lparr>symbol = ''TEA'', stock_typ = ''common'', last_div = 0, fixed_div = PyNone, par_value = 100\<rparr>"


section \<open>Properties of the command loop\<close>

lemma dict_getitem_in: "dict_getitem d k = Inr v \<Longrightarrow> v \<in> snd ` set d"
  by (auto simp: dict_getitem_def dict_get_in_values split: option.splits)

lemma buy_sell_valid:
  "(if b then buy else sell) now s q p = Inr t \<Longrightarrow> valid_trade t \<and> instant t = now \<and> stock t = s"
  by (cases b) (auto simp: buy_def sell_def Trade_Inr_iff valid_trade_def)

lemma trade_command_effect:
  assumes "trade_command clock st a args = Inr (st', out)"
  shows "\<exists>t. st' = st\<lparr>sim_trades := sim_trades st @ [t]\<rparr> \<and> valid_trade t \<and> instant t = clock 0 \<and>
             stock t \<in> snd ` set (sim_stocks st) \<and> out = [OResult (RTrade t)]"
proof -
  obtain sy rest where args: "args = sy # rest"
    using assms by (cases args) (auto simp: trade_command_def no_arg_def)
  with assms obtain s where gs: "dict_getitem (sim_stocks st) sy = Inr s"
    and body: "(if length rest = 2 then
              rbind ((if a = ''buy'' then buy else sell) (clock 0) s (PyStr (rest ! 0)) (PyStr (rest ! 1)))
                (\<lambda>t. Inr (st\<lparr>sim_trades := sim_trades st @ [t]\<rparr>, [OResult (RTrade t)]))
            else Inl (arity_error a [''stock'', ''qty'', ''price''] (Suc (length rest)))) = Inr (st', out)"
    by (auto simp: trade_command_def rbind_eq_Inr)
  then obtain t where bt: "(if a = ''buy'' then buy else sell) (clock 0) s (PyStr (rest ! 0)) (PyStr (rest ! 1)) = Inr t"
    and "st' = st\<lparr>sim_trades := sim_trades st @ [t]\<rparr>" and "out = [OResult (RTrade t)]"
    by (auto simp: rbind_eq_Inr split: if_splits)
  with buy_sell_valid [OF bt] dict_getitem_in [OF gs] show ?thesis by auto
qed

lemma yield_command_effect:
  assumes "yield_command st args = Inr (st', out)"
  shows "st' = st \<and> (\<exists>y. out = [OResult (RFloat y)])"
proof -
  obtain sy rest where args: "args = sy # rest"
    using assms by (cases args) (auto simp: yield_command_def)
  show ?thesis
  proof (cases rest)
    case Nil
    with assms args show ?thesis by (auto simp: yield_command_def rbind_eq_Inr)
  next
    case (Cons pr more)
    with assms args show ?thesis by (auto simp: yield_command_def rbind_eq_Inr)
  qed
qed

lemma vwap_command_effect:
  assumes "vwap_command clock st args = Inr (st', out)"
  shows "st' = st \<and> (\<exists>y. out = [OResult (RFloat y)])"
  using assms by (cases args) (auto simp: vwap_command_def rbind_eq_Inr)

lemma dispatch_effect:
  assumes "dispatch clock st a args = Inr (st', out)"
  shows "appends_trade clock st st' \<and> (\<forall>e. OError e \<notin> set out)"
proof -
  consider (trade) "a = ''buy'' \<or> a = ''sell''" | (yield) "a = ''dividend_yield''" | (vwap) "a = ''volume_weighted_price''"
    | (other) "a \<noteq> ''buy''" "a \<noteq> ''sell''" "a \<noteq> ''dividend_yield''" "a \<noteq> ''volume_weighted_price''"
    by blast
  then show ?thesis
  proof cases
    case trade
    with assms have "trade_command clock st a args = Inr (st', out)" by (auto simp: dispatch_def)
    from trade_command_effect [OF this] show ?thesis by (auto simp: appends_trade_def)
  next
    case yield
    with assms have "yield_command st args = Inr (st', out)" by (simp add: dispatch_def)
    from yield_command_effect [OF this] show ?thesis by (auto simp: appends_trade_def)
  next
    case vwap
    with assms have "vwap_command clock st args = Inr (st', out)" by (simp add: dispatch_def)
    from vwap_command_effect [OF this] show ?thesis by (auto simp: appends_trade_def)
  next
    case other
    with assms show ?thesis by (auto simp: dispatch_def appends_trade_def rbind_eq_Inr split: if_splits)
  qed
qed

lemma handle_line_effect:
  assumes "handle_line clock st l = Continue st' out"
  shows "appends_trade clock st st' \<and> (\<forall>e. OError e \<in> set out \<longrightarrow> st' = st)"
  using assms
  by (auto simp: handle_line_def Let_def appends_trade_def split: list.splits if_splits sum.splits
      dest!: dispatch_effect)
lemma ledger_inv_init: "init_state = Inr st \<Longrightarrow> ledger_inv st"
  by (auto simp: init_state_def rbind_eq_Inr ledger_inv_def)

lemma ledger_inv_step:
  assumes "ledger_inv st" and "handle_line clock st l = Continue st' out"
  shows "ledger_inv st'"
proof -
  from handle_line_effect [OF assms(2)] have "appends_trade clock st st'" ..
  with assms(1) show ?thesis by (force simp: appends_trade_def ledger_inv_def)
qed

text \<open>
  C4. In every state the loop can reach from its start, the registry is the
  catalog built at start-up and every trade of the ledger is valid and
  references a registered stock.
\<close>

theorem reachable_ledger_inv: "reachable st \<Longrightarrow> ledger_inv st"
proof (induction rule: reachable.induct)
  case (start st)
  then show ?case by (rule ledger_inv_init)
next
  case (step st clock l st' out)
  then show ?case by (blast intro: ledger_inv_step)
qed

lemma py_lower_buy: "py_lower ''buy'' = ''buy''" by code_simp
lemma py_lower_sell: "py_lower ''sell'' = ''sell''" by code_simp

text \<open>
  C14. A line \<open>buy SYM QTY PRICE\<close> or \<open>sell SYM QTY PRICE\<close> (command in any
  case) for a registered symbol, a quantity that parses to a positive
  integer and a price that parses to a float not \<open><= 0\<close> appends exactly the
  trade built from them with the clock reading, and prints it.
\<close>

theorem handle_line_trade:
  assumes "py_split (py_strip l) = [a, sy, q, p]" and "py_lower a \<in> {''buy'', ''sell''}"
    and "dict_get (sim_stocks st) sy = Some s"
    and "py_int_of_str q = Inr n" and "0 < n" and "py_float_of_str p = Inr x" and "\<not> pf_le x (Fin 0)"
  shows "handle_line clock st l =
    Continue (st\<lparr>sim_trades := sim_trades st @ [\<lparr>instant = clock 0, stock = s, is_buy = (py_lower a = ''buy''), qty = n, price = x\<rparr>]\<rparr>)
      [OResult (RTrade \<lparr>instant = clock 0, stock = s, is_buy = (py_lower a = ''buy''), qty = n, price = x\<rparr>)]"
proof -
  have tc: "trade_command clock st (py_lower a) [sy, q, p] =
    Inr (st\<lparr>sim_trades := sim_trades st @ [\<lparr>instant = clock 0, stock = s, is_buy = (py_lower a = ''buy''), qty = n, price = x\<rparr>]\<rparr>,
      [OResult (RTrade \<lparr>instant = clock 0, stock = s, is_buy = (py_lower a = ''buy''), qty = n, price = x\<rparr>)])"
    using assms(2-7)
    by (auto simp: trade_command_def validate_symbol_def dict_contains_def dict_get_def dict_getitem_def
        buy_def sell_def Trade_def py_lower_buy py_lower_sell)
  have "py_lower a \<in> set action_names" using assms(2) by (auto simp: action_names_def)
  with assms(1,2) tc show ?thesis
    by (auto simp: handle_line_def dispatch_def)
qed

text \<open>
  C18. A line \<open>buy\<close>, \<open>sell\<close>, \<open>dividend_yield\<close> or \<open>volume_weighted_price\<close>
  without a symbol reads \<open>args[0]\<close> of an empty list: the \<open>IndexError\<close> is
  not caught by the loop and ends the program.
\<close>

theorem handle_line_missing_arg_crash:
  assumes "py_split (py_strip l) = [a]"
    and "py_lower a \<in> {''buy'', ''sell'', ''dividend_yield'', ''volume_weighted_price''}"
  shows "handle_line clock st l = Crash no_arg"
proof -
  have "py_lower a \<in> set action_names" using assms(2) by (auto simp: action_names_def)
  with assms show ?thesis
    by (auto simp: handle_line_def dispatch_def trade_command_def yield_command_def vwap_command_def
        loop_catches_def no_arg_def)
qed

text \<open>
  C17. A line \<open>dividend_yield SYM PRICE\<close> with a registered symbol and a price
  \<open><= 0\<close> ends the program: \<open>calc_div_yield\<close> raises \<open>NameError\<close>, which the
  loop does not catch.
\<close>

theorem handle_line_yield_crash:
  assumes "py_split (py_strip l) = a # sy # pr # rest" and "py_lower a = ''dividend_yield''"
    and "dict_get (sim_stocks st) sy = Some s"
    and "py_float_of_str pr = Inr x" and "pf_le x (Fin 0)"
  shows "handle_line clock st l = Crash (NameError (''name '' @ py_str_repr ''valueError'' @ '' is not defined''))"
proof -
  have "py_lower a \<in> set action_names" using assms(2) by (auto simp: action_names_def)
  with assms show ?thesis
    by (auto simp: handle_line_def dispatch_def yield_command_def validate_symbol_def dict_contains_def
        dict_get_def dict_getitem_def calc_div_yield_def loop_catches_def)
qed
theorem reachable_ledger_inv_witness:
  "reachable \<lparr>sim_stocks = [(''TEA'', \<lparr>symbol = ''TEA'', stock_typ = ''common'', last_div = 0, fixed_div = PyNone, par_value = 100\<rparr>),
     (''POP'', \<lparr>symbol = ''POP'', stock_typ = ''common'', last_div = 8, fixed_div = PyNone, par_value = 100\<rparr>),
     (''ALE'', \<lparr>symbol = ''ALE'', stock_typ = ''common'', last_div = 23, fixed_div = PyNone, par_value = 60\<rparr>),
     (''GIN'', \<lparr>symbol = ''GIN'', stock_typ = ''preferred'', last_div = 8, fixed_div = PyInt 2, par_value = 100\<rparr>),
     (''JOE'', \<lparr>symbol = ''JOE'', stock_typ = ''common'', last_div = 13, fixed_div = PyNone, par_value = 250\<rparr>)],
     sim_trades = [\<lparr>instant = 0, stock = \<lparr>symbol = ''GIN'', stock_typ = ''preferred'', last_div = 8, fixed_div = PyInt 2, par_value = 100\<rparr>,
                    is_buy = False, qty = 5, price = Fin (5404319552844595 / 4503599627370496)\<rparr>]\<rparr> \<and>
   valid_trade \<lparr>instant = 0, stock = \<lparr>symbol = ''GIN'', stock_typ = ''preferred'', last_div = 8, fixed_div = PyInt 2, par_value = 100\<rparr>,
                    is_buy = False, qty = 5, price = Fin (5404319552844595 / 4503599627370496)\<rparr>"
  (is "reachable ?st1 \<and> valid_trade ?t")
proof -
  let ?st0 = "?st1\<lparr>sim_trades := []\<rparr>"
  have i: "init_state = Inr ?st0" by (simp add: init_state_def initial_stocks_eq)
  have h: "handle_line (\<lambda>_. 0) ?st0 ''sell GIN 5 1.2'' = Continue ?st1 [OResult (RTrade ?t)]" by code_simp
  have r: "reachable ?st1" by (rule reachable.step [OF reachable.start [OF i] h])
  from reachable_ledger_inv [OF r] r show ?thesis by (simp add: ledger_inv_def)
qed

lemma gbce_nan:
  "gbce (\<lambda>_. now) [(''TEA'', tea)] [\<lparr>instant = now, stock = tea, is_buy = True, qty = 10, price = NaN\<rparr>] = Inr NaN"
  by (simp add: gbce_def calc_volume_weighted_price_def in_window_def window_def py_truediv_def
      geometric_mean_def fmean_def py_fsum_def)

lemma split_gbce: "py_split (py_strip ''gbce'') = [''gbce'']" by code_simp
lemma lower_gbce: "py_lower ''gbce'' = ''gbce''" by code_simp

text \<open>
  C20. The line \<open>buy TEA 10 nan\<close> is accepted and recorded, and the GBCE index
  printed afterwards is \<open>nan\<close>: one trade with a NaN price makes the index
  of every stock set NaN.
\<close>

theorem nan_trade_poisons_gbce:
  "handle_line (\<lambda>_. now) \<lparr>sim_stocks = [(''TEA'', tea)], sim_trades = []\<rparr> ''buy TEA 10 nan'' =
     Continue \<lparr>sim_stocks = [(''TEA'', tea)], sim_trades = [\<lparr>instant = now, stock = tea, is_buy = True, qty = 10, price = NaN\<rparr>]\<rparr>
       [OResult (RTrade \<lparr>instant = now, stock = tea, is_buy = True, qty = 10, price = NaN\<rparr>)] \<and>
   handle_line (\<lambda>_. now) \<lparr>sim_stocks = [(''TEA'', tea)], sim_trades = [\<lparr>instant = now, stock = tea, is_buy = True, qty = 10, price = NaN\<rparr>]\<rparr> ''gbce'' =
     Continue \<lparr>sim_stocks = [(''TEA'', tea)], sim_trades = [\<lparr>instant = now, stock = tea, is_buy = True, qty = 10, price = NaN\<rparr>]\<rparr>
       [OResult (RFloat NaN)]"
proof
  show "handle_line (\<lambda>_. now) \<lparr>sim_stocks = [(''TEA'', tea)], sim_trades = []\<rparr> ''buy TEA 10 nan'' =
     Continue \<lparr>sim_stocks = [(''TEA'', tea)], sim_trades = [\<lparr>instant = now, stock = tea, is_buy = True, qty = 10, price = NaN\<rparr>]\<rparr>
       [OResult (RTrade \<lparr>instant = now, stock = tea, is_buy = True, qty = 10, price = NaN\<rparr>)]"
    by (simp add: tea_def) code_simp
  show "handle_line (\<lambda>_. now) \<lparr>sim_stocks = [(''TEA'', tea)], sim_trades = [\<lparr>instant = now, stock = tea, is_buy = True, qty = 10, price = NaN\<rparr>]\<rparr> ''gbce'' =
     Continue \<lparr>sim_stocks = [(''TEA'', tea)], sim_trades = [\<lparr>instant = now, stock = tea, is_buy = True, qty = 10, price = NaN\<rparr>]\<rparr>
       [OResult (RFloat NaN)]"
    by (simp add: handle_line_def split_gbce lower_gbce action_names_def dispatch_def gbce_nan)
qed
text \<open>
  C3. The ledger is append-only and the registry never changes: a line that
  the loop survives leaves the stocks as they were and extends the trades
  by at most one trade, which is valid, stamped with the first clock
  reading and of a registered stock; a line whose exception is printed
  leaves the whole state unchanged.
\<close>

theorem handle_line_append_only:
  assumes "handle_line clock st l = Continue st' out"
  shows "sim_stocks st' = sim_stocks st \<and>
    (\<exists>new. sim_trades st' = sim_trades st @ new \<and> length new \<le> 1 \<and>
           (\<forall>t\<in>set new. valid_trade t \<and> instant t = clock 0 \<and> stock t \<in> snd ` set (sim_stocks st))) \<and>
    (\<forall>e. OError e \<in> set out \<longrightarrow> st' = st)"
proof -
  from handle_line_effect [OF assms]
  have a: "appends_trade clock st st'" and e: "\<forall>e. OError e \<in> set out \<longrightarrow> st' = st" by auto
  from a have "sim_stocks st' = sim_stocks st \<and>
    (\<exists>new. sim_trades st' = sim_trades st @ new \<and> length new \<le> 1 \<and>
           (\<forall>t\<in>set new. valid_trade t \<and> instant t = clock 0 \<and> stock t \<in> snd ` set (sim_stocks st)))"
  proof (cases "st' = st")
    case True
    then show ?thesis by auto
  next
    case False
    with a obtain t where "st' = st\<lparr>sim_trades := sim_trades st @ [t]\<rparr>" and "valid_trade t" and "instant t = clock 0"
      and "stock t \<in> snd ` set (sim_stocks st)" by (auto simp: appends_trade_def)
    then show ?thesis by (intro conjI exI [of _ "[t]"]) auto
  qed
  with e show ?thesis by blast
qed

theorem handle_line_append_only_witness:
  "handle_line (\<lambda>_. 5) \<lparr>sim_stocks = [(''TEA'', tea)], sim_trades = []\<rparr> ''buy TEA 3 2'' =
     Continue \<lparr>sim_stocks = [(''TEA'', tea)], sim_trades = [\<lparr>instant = 5, stock = tea, is_buy = True, qty = 3, price = Fin 2\<rparr>]\<rparr>
       [OResult (RTrade \<lparr>instant = 5, stock = tea, is_buy = True, qty = 3, price = Fin 2\<rparr>)] \<and>
   valid_trade \<lparr>instant = 5, stock = tea, is_buy = True, qty = 3, price = Fin 2\<rparr>"
proof -
  have h: "handle_line (\<lambda>_. 5) \<lparr>sim_stocks = [(''TEA'', tea)], sim_trades = []\<rparr> ''buy TEA 3 2'' =
     Continue \<lparr>sim_stocks = [(''TEA'', tea)], sim_trades = [\<lparr>instant = 5, stock = tea, is_buy = True, qty = 3, price = Fin 2\<rparr>]\<rparr>
       [OResult (RTrade \<lparr>instant = 5, stock = tea, is_buy = True, qty = 3, price = Fin 2\<rparr>)]"
    by (simp add: tea_def) code_simp
  from handle_line_append_only [OF h] h show ?thesis by auto
qed

theorem handle_line_trade_witness:
  "handle_line (\<lambda>_. 7) \<lparr>sim_stocks = [(''TEA'', tea)], sim_trades = []\<rparr> '' Sell  TEA 4 0.5'' =
     Continue \<lparr>sim_stocks = [(''TEA'', tea)], sim_trades = [\<lparr>instant = 7, stock = tea, is_buy = False, qty = 4, price = Fin (1/2)\<rparr>]\<rparr>
       [OResult (RTrade \<lparr>instant = 7, stock = tea, is_buy = False, qty = 4, price = Fin (1/2)\<rparr>)]"
proof -
  have sp: "py_split (py_strip '' Sell  TEA 4 0.5'') = [''Sell'', ''TEA'', ''4'', ''0.5'']" by code_simp
  have lw: "py_lower ''Sell'' = ''sell''" by code_simp
  have a: "py_lower ''Sell'' \<in> {''buy'', ''sell''}" using lw by simp
  have g: "dict_get (sim_stocks \<lparr>sim_stocks = [(''TEA'', tea)], sim_trades = []\<rparr>) ''TEA'' = Some tea" by (simp add: dict_get_def)
  have q: "py_int_of_str ''4'' = Inr 4" by code_simp
  have p: "py_float_of_str ''0.5'' = Inr (Fin (1/2))" by code_simp
  show ?thesis using handle_line_trade [OF sp a g q _ p, of "\<lambda>_. 7"] lw by simp
qed

theorem handle_line_missing_arg_crash_witness:
  "handle_line (\<lambda>_. 0) \<lparr>sim_stocks = [(''TEA'', tea)], sim_trades = []\<rparr> ''Buy'' = Crash no_arg"
proof -
  have sp: "py_split (py_strip ''Buy'') = [''Buy'']" by code_simp
  have lw: "py_lower ''Buy'' \<in> {''buy'', ''sell'', ''dividend_yield'', ''volume_weighted_price''}" by code_simp
  show ?thesis using handle_line_missing_arg_crash [OF sp lw] .
qed

theorem handle_line_yield_crash_witness:
  "handle_line (\<lambda>_. 0) \<lparr>sim_stocks = [(''TEA'', tea)], sim_trades = []\<rparr> ''dividend_yield TEA -1.5'' =
     Crash (NameError (''name '' @ py_str_repr ''valueError'' @ '' is not defined''))"
proof -
  have sp: "py_split (py_strip ''dividend_yield TEA -1.5'') = [''dividend_yield'', ''TEA'', ''-1.5'']" by code_simp
  have lw: "py_lower ''dividend_yield'' = ''dividend_yield''" by code_simp
  have g: "dict_get (sim_stocks \<lparr>sim_stocks = [(''TEA'', tea)], sim_trades = []\<rparr>) ''TEA'' = Some tea" by (simp add: dict_get_def)
  have p: "py_float_of_str ''-1.5'' = Inr (Fin (-3/2))" by code_simp
  show ?thesis using handle_line_yield_crash [OF sp lw g p] by simp
qed

text \<open>
  C32. A command that takes a stock, given a symbol that is not a key of the
  registry (the test is case-sensitive), prints the \<open>ValueError\<close> of
  \<open>validate_symbol\<close> listing the symbols, and changes nothing.
\<close>

theorem handle_line_unknown_symbol:
  assumes "py_split (py_strip l) = a # sy # rest"
    and "py_lower a \<in> {''buy'', ''sell'', ''dividend_yield'', ''volume_weighted_price''}"
    and "\<not> dict_contains (sim_stocks st) sy"
  shows "handle_line clock st l =
    Continue st [OError (ValueError (''Invalid stock symbol('' @ sy @ ''). Choose from: '' @ py_list_repr (dict_keys (sim_stocks st))))]"
proof -
  have "py_lower a \<in> set action_names" using assms(2) by (auto simp: action_names_def)
  with assms show ?thesis
    by (auto simp: handle_line_def dispatch_def trade_command_def yield_command_def vwap_command_def
        validate_symbol_def loop_catches_def)
qed

theorem handle_line_unknown_symbol_witness:
  "handle_line (\<lambda>_. 0) \<lparr>sim_stocks = [(''TEA'', tea)], sim_trades = []\<rparr> ''volume_weighted_price tea'' =
    Continue \<lparr>sim_stocks = [(''TEA'', tea)], sim_trades = []\<rparr>
      [OError (ValueError (''Invalid stock symbol(tea). Choose from: ['' @ [CHR 0x27] @ ''TEA'' @ [CHR 0x27] @ '']''))]"
proof -
  have sp: "py_split (py_strip ''volume_weighted_price tea'') = [''volume_weighted_price'', ''tea'']" by code_simp
  have lw: "py_lower ''volume_weighted_price'' \<in> {''buy'', ''sell'', ''dividend_yield'', ''volume_weighted_price''}" by code_simp
  have nc: "\<not> dict_contains (sim_stocks \<lparr>sim_stocks = [(''TEA'', tea)], sim_trades = []\<rparr>) ''tea''"
    by (simp add: dict_contains_def)
  show ?thesis using handle_line_unknown_symbol [OF sp lw nc]
    by (simp add: dict_keys_def py_list_repr_def py_str_repr_def)
qed

end
