(* ===== verification/FloatRepr.thy ===== *)
theory FloatRepr
  imports PyStr
begin

text \<open>
  \<open>str()\<close> and \<open>repr()\<close> of a float (CPython's \<open>float_repr\<close>, with
  \<open>float_repr_style\<close> \<open>'short'\<close>): the shortest decimal that reads back as
  the same float, the nearest one among the shortest, laid out as
  \<open>PyOS_double_to_string(x, 'r', 0, Py_DTSF_ADD_DOT_0)\<close> does.
\<close>

text \<open>\<open>10 ^ e\<close> for an integer exponent.\<close>

definition pow10 :: "int \<Rightarrow> real" where
  "pow10 e = (if 0 \<le> e then 10 ^ nat e else 1 / 10 ^ nat (- e))"

text \<open>The decimal exponent \<open>E\<close> of a positive \<open>x\<close>: \<open>10 ^ E <= x < 10 ^ (E + 1)\<close>.\<close>

definition dec_exp :: "real \<Rightarrow> int" where
  "dec_exp x =
     (if 1 \<le> x then int (floorlog 10 (nat \<lfloor>x\<rfloor>)) - 1
      else let d = int (floorlog 10 (nat \<lfloor>1 / x\<rfloor>)) in if pow10 (1 - d) = x then 1 - d else - d)"

text \<open>The scale \<open>10 ^ s\<close> of the last of \<open>n\<close> significant digits of \<open>x\<close>.\<close>

definition repr_scale :: "real \<Rightarrow> nat \<Rightarrow> int" where
  "repr_scale x n = dec_exp x + 1 - int n"

text \<open>The float that \<open>c * 10 ^ s\<close> reads as.\<close>

definition b64_of_dec :: "nat \<Rightarrow> int \<Rightarrow> pyfloat" where
  "b64_of_dec c s = b64_of_frac False (fst (dec_frac (c, s))) (snd (dec_frac (c, s)))"

text \<open>The two \<open>n\<close>-digit decimals next to \<open>x\<close>, as multiples of \<open>10 ^ s\<close>: the nearest (ties to even) first.\<close>

definition repr_cands :: "real \<Rightarrow> nat \<Rightarrow> nat list" where
  "repr_cands x n =
     (let y = x / pow10 (repr_scale x n); r = round_even y; f = \<lfloor>y\<rfloor> in
      [nat r, nat (if r = f then f + 1 else f)])"

text \<open>
  The shortest digits: for \<open>n = 1, 2, ...\<close> the first \<open>n\<close>-digit decimal next
  to \<open>x\<close> that reads back as \<open>x\<close>, the nearest first; after 16 digits the
  nearest 17-digit decimal, which always reads back (\<open>repr_17_digits\<close>).
\<close>

fun repr_search :: "real \<Rightarrow> nat \<Rightarrow> nat \<Rightarrow> nat \<times> int" where
  "repr_search x n 0 = (nat (round_even (x / pow10 (repr_scale x n))), repr_scale x n)"
| "repr_search x n (Suc k) =
     (case find (\<lambda>c. b64_of_dec c (repr_scale x n) = Fin x) (repr_cands x n) of
        Some c \<Rightarrow> (c, repr_scale x n)
      | None \<Rightarrow> repr_search x (Suc n) k)"

text \<open>Trailing zeros of the digits moved into the exponent.\<close>

fun strip_zeros :: "nat \<Rightarrow> int \<Rightarrow> nat \<times> int" where
  "strip_zeros c s = (if c \<noteq> 0 \<and> c mod 10 = 0 then strip_zeros (c div 10) (s + 1) else (c, s))"

declare strip_zeros.simps [simp del]

definition repr_digits :: "real \<Rightarrow> nat \<times> int" where
  "repr_digits x = (let (c, s) = repr_search x 1 16 in strip_zeros c s)"

text \<open>The exponent as \<open>%+.02d\<close> writes it.\<close>

definition exp_str :: "int \<Rightarrow> string" where
  "exp_str e =
     (if e < 0 then CHR ''-'' else CHR ''+'') #
     (let ds = nat_str (nat \<bar>e\<bar>) in if length ds < 2 then CHR ''0'' # ds else ds)"

text \<open>
  The digits \<open>c\<close> with the point \<open>decpt\<close> places from their start
  (\<open>format_float_short\<close>, mode \<open>'r'\<close>): exponent notation when
  \<open>decpt <= -4\<close> or \<open>16 < decpt\<close>, else positional with \<open>.0\<close> added to an
  integral value.
\<close>

definition format_short :: "nat \<Rightarrow> int \<Rightarrow> string" where
  "format_short c s =
     (let ds = nat_str c; l = int (length ds); decpt = l + s in
      if decpt \<le> -4 \<or> 16 < decpt
      then hd ds # (if tl ds = [] then [] else CHR ''.'' # tl ds) @ CHR ''e'' # exp_str (decpt - 1)
      else if decpt \<le> 0 then ''0.'' @ replicate (nat (- decpt)) (CHR ''0'') @ ds
      else if decpt < l then take (nat decpt) ds @ CHR ''.'' # drop (nat decpt) ds
      else ds @ replicate (nat (decpt - l)) (CHR ''0'') @ ''.0'')"

definition float_repr :: "real \<Rightarrow> string" where
  "float_repr x =
     (if x = 0 then ''0.0''
      else (if x < 0 then ''-'' else []) @ (let (c, s) = repr_digits \<bar>x\<bar> in format_short c s))"

fun py_float_repr :: "pyfloat \<Rightarrow> string" where
  "py_float_repr (Fin x) = float_repr x"
| "py_float_repr PosInf = ''inf''"
| "py_float_repr NegInf = ''-inf''"
| "py_float_repr NaN = ''nan''"


section \<open>Rounding depends on the value only\<close>

lemma round_even_int:
  assumes "\<bar>y - of_int k\<bar> < 1 / 2"
  shows "round_even y = k"
proof (cases "of_int k \<le> y")
  case True
  then have "\<lfloor>y\<rfloor> = k" using assms by (simp add: floor_eq_iff abs_less_iff)
  then show ?thesis using True assms by (simp add: round_even_def Let_def abs_less_iff)
next
  case False
  then have "\<lfloor>y\<rfloor> = k - 1" using assms by (simp add: floor_eq_iff abs_less_iff)
  then show ?thesis using False assms by (simp add: round_even_def Let_def abs_less_iff)
qed

lemma round_even_le:
  assumes "y < of_int n + 1 / 2"
  shows "round_even y \<le> n"
proof -
  have f: "of_int \<lfloor>y\<rfloor> \<le> y" "y < of_int \<lfloor>y\<rfloor> + 1" by linarith+
  then have "\<lfloor>y\<rfloor> \<le> n" using assms by linarith
  moreover have "\<lfloor>y\<rfloor> = n \<Longrightarrow> y - of_int \<lfloor>y\<rfloor> < 1 / 2" using assms by simp
  ultimately show ?thesis unfolding round_even_def Let_def by (cases "\<lfloor>y\<rfloor> = n") auto
qed

lemma frac_exp_eqI:
  assumes "0 < a" and "0 < b" and "pow2 e \<le> of_int a / of_int b" and "of_int a / of_int b < pow2 (e + 1)"
  shows "frac_exp a b = e"
proof -
  have fe: "pow2 (frac_exp a b) \<le> of_int a / of_int b" "of_int a / of_int b < pow2 (frac_exp a b + 1)"
    using frac_exp_bounds [OF assms(1,2)] by auto
  have "e < frac_exp a b + 1" unfolding pow2_less_iff [symmetric] using fe(2) assms(3) by linarith
  moreover have "frac_exp a b < e + 1" unfolding pow2_less_iff [symmetric] using fe(1) assms(4) by linarith
  ultimately show ?thesis by linarith
qed

lemma round_frac_cong:
  assumes "0 < a" and "0 < b" and "0 < a'" and "0 < b'"
    and v: "of_int a / of_int b = (of_int a' / of_int b' :: real)"
  shows "round_frac a b = round_frac a' b'"
proof -
  have "frac_exp a' b' = frac_exp a b"
    using frac_exp_bounds [OF assms(1,2)] v by (intro frac_exp_eqI [OF assms(3,4)]) auto
  then have "ulp_exp a' b' = ulp_exp a b" by (simp add: ulp_exp_def)
  then show ?thesis using assms by (simp add: round_frac_real)
qed

lemma b64_of_frac_cong:
  assumes "0 \<le> a" and "0 < b" and "0 \<le> a'" and "0 < b'"
    and v: "of_int a / of_int b = (of_int a' / of_int b' :: real)"
  shows "b64_of_frac n a b = b64_of_frac n a' b'"
proof (cases "a = 0")
  case True
  then have "a' = 0" using v assms(4) by simp
  moreover have "0 < b64_threshold_int * b" "0 < b64_threshold_int * b'"
    using assms(2,4) by (simp_all add: b64_threshold_int_def)
  ultimately show ?thesis using True by (simp add: b64_of_frac_def round_frac_def)
next
  case False
  with assms have a: "0 < a" by simp
  with v assms(2,4) have a': "0 < a'"
    by (metis assms(3) divide_eq_0_iff of_int_0_eq_iff order_le_less)
  have "b64_threshold_int * b \<le> a \<longleftrightarrow> b64_threshold_int * b' \<le> a'"
    using b64_overflow_iff [OF assms(2)] b64_overflow_iff [OF assms(4)] v by simp
  moreover have "round_frac a b = round_frac a' b'" by (rule round_frac_cong [OF a assms(2) a' assms(4) v])
  ultimately show ?thesis by (simp add: b64_of_frac_def)
qed


section \<open>Decimal exponents\<close>

lemma pow10_powr: "pow10 e = 10 powr of_int e"
proof (cases "0 \<le> e")
  case True
  have "(10::real) powr of_int e = 10 powr real (nat e)" using True by simp
  also have "\<dots> = 10 ^ nat e" by (rule powr_realpow) simp
  finally show ?thesis using True by (simp add: pow10_def)
next
  case False
  have "(10::real) powr of_int e = 10 powr (- real (nat (- e)))" using False by simp
  also have "\<dots> = 1 / 10 ^ nat (- e)" by (simp add: powr_minus_divide powr_realpow)
  finally show ?thesis using False by (simp add: pow10_def)
qed

lemma pow10_add: "pow10 (a + b) = pow10 a * pow10 b"
  by (simp add: pow10_powr powr_add)

lemma pow10_pos [simp]: "0 < pow10 e"
  by (simp add: pow10_powr)

lemma pow10_neq_0 [simp]: "pow10 e \<noteq> 0"
  using pow10_pos [of e] by linarith

lemma pow10_less_iff: "pow10 a < pow10 b \<longleftrightarrow> a < b"
  by (simp add: pow10_powr)

lemma pow10_of_nat: "pow10 (int n) = 10 ^ n"
  by (simp add: pow10_def)

lemma pow10_minus: "pow10 (- e) = 1 / pow10 e"
  by (simp add: pow10_powr powr_minus_divide)

lemma dec_exp_bounds:
  assumes "0 < x"
  shows "pow10 (dec_exp x) \<le> x \<and> x < pow10 (dec_exp x + 1)"
proof (cases "1 \<le> x")
  case True
  let ?n = "nat \<lfloor>x\<rfloor>"
  have n1: "0 < ?n" using True by linarith
  have nx: "real ?n \<le> x" "x < real ?n + 1" using True by linarith+
  let ?d = "floorlog 10 ?n"
  have b: "10 ^ (?d - 1) \<le> ?n" "?n < 10 ^ ?d" using floorlog_bounds [OF n1, of 10] by auto
  have d1: "1 \<le> ?d" using b(2) n1 by (cases ?d) auto
  have e: "dec_exp x = int (?d - 1)" using True d1 by (simp add: dec_exp_def of_nat_diff)
  have "(10::real) ^ (?d - 1) \<le> real ?n" using b(1) by (metis of_nat_le_iff of_nat_numeral of_nat_power)
  moreover have "real ?n + 1 \<le> (10::real) ^ ?d" using b(2) by (metis Suc_leI of_nat_Suc of_nat_le_iff of_nat_numeral of_nat_power add.commute)
  moreover have "int (?d - 1) + 1 = int ?d" using d1 by simp
  ultimately show ?thesis using nx by (simp only: e pow10_of_nat) linarith
next
  case False
  let ?y = "1 / x"
  have y1: "1 < ?y" using False assms by simp
  let ?n = "nat \<lfloor>?y\<rfloor>"
  have n1: "0 < ?n" using y1 by linarith
  have ny: "real ?n \<le> ?y" "?y < real ?n + 1" using y1 by linarith+
  let ?d = "floorlog 10 ?n"
  have b: "10 ^ (?d - 1) \<le> ?n" "?n < 10 ^ ?d" using floorlog_bounds [OF n1, of 10] by auto
  have d1: "1 \<le> ?d" using b(2) n1 by (cases ?d) auto
  have lo: "(10::real) ^ (?d - 1) \<le> ?y" using b(1) ny(1) by (metis of_nat_le_iff of_nat_numeral of_nat_power order_trans)
  have hi: "?y < (10::real) ^ ?d" using b(2) ny(2) by (metis Suc_leI of_nat_Suc of_nat_le_iff of_nat_numeral of_nat_power add.commute order_less_le_trans)
  have eq: "1 - int ?d = - int (?d - 1)" using d1 by simp
  have p1: "pow10 (1 - int ?d) = 1 / 10 ^ (?d - 1)"
    unfolding eq pow10_minus pow10_of_nat ..
  have p0: "pow10 (- int ?d) = 1 / 10 ^ ?d" using pow10_minus [of "int ?d"] by (simp add: pow10_of_nat)
  have p2: "pow10 (1 - int ?d + 1) = 10 * pow10 (1 - int ?d)" using pow10_add [of 1 "1 - int ?d"] by (simp add: pow10_def add.commute)
  have xle: "x \<le> pow10 (1 - int ?d)" using lo assms by (simp add: p1 field_simps)
  have xgt: "pow10 (- int ?d) < x" using hi assms by (simp add: p0 field_simps)
  show ?thesis
  proof (cases "pow10 (1 - int ?d) = x")
    case True
    then show ?thesis using False assms p2 by (simp add: dec_exp_def Let_def)
  next
    case ne: False
    then have "dec_exp x = - int ?d" using False by (simp add: dec_exp_def Let_def)
    then show ?thesis using xle xgt ne by (simp add: add.commute)
  qed
qed


section \<open>Rounding back to a float\<close>

text \<open>The binary64 values: \<open>k * 2 ^ p\<close> with a significand \<open>0 < k < 2 ^ 53\<close> and \<open>-1074 <= p <= 971\<close>.\<close>

lemma b64_threshold_pow2: "b64_threshold = 18014398509481983 / 2 * pow2 971"
  by (simp add: b64_threshold_def b64_threshold_int_def pow2_def)

lemma pow2_53: "pow2 (q + 53) = 9007199254740992 * pow2 q"
  using pow2_add [of 53 q] by (simp add: pow2_def add.commute)

lemma close_bounds:
  fixes c x :: real
  assumes "\<bar>c - x\<bar> < x / 2 ^ 54"
  shows "c < x + x / 18014398509481984" and "x - x / 18014398509481984 < c"
proof -
  have e: "(2::real) ^ 54 = 18014398509481984" by simp
  from assms have "\<bar>c - x\<bar> < x / 18014398509481984" unfolding e .
  then show "c < x + x / 18014398509481984" and "x - x / 18014398509481984 < c"
    unfolding abs_less_iff by linarith+
qed

lemma div_pow2_less: "y < c * pow2 q \<Longrightarrow> y / pow2 q < c"
  by (simp add: pos_divide_less_eq)

lemma round_even_nonneg: "0 \<le> y \<Longrightarrow> 0 \<le> round_even y"
  by (auto simp: round_even_def Let_def)

lemma stable_exp:
  assumes a: "0 < a" and b: "0 < b" and x: "x = of_int k * pow2 p" and k: "0 < k" "k < 2 ^ 53" and p: "-1074 \<le> p"
    and close: "\<bar>of_int a / of_int b - x\<bar> < x / 2 ^ 54"
  shows "ulp_exp a b \<le> p"
proof (rule ccontr)
  let ?c = "of_int a / of_int b :: real" and ?e = "frac_exp a b"
  assume "\<not> ulp_exp a b \<le> p"
  then have pe: "p \<le> ?e - 53" using p by (auto simp: ulp_exp_def)
  let ?P = "pow2 (?e - 53)"
  have P: "0 < ?P" by simp
  have e: "pow2 ?e = 9007199254740992 * ?P" using pow2_53 [of "?e - 53"] by simp
  have kk: "of_int k \<le> (9007199254740991 :: real)" using k(2) by simp
  have x1: "x \<le> 9007199254740991 * ?P"
    unfolding x by (rule mult_mono [OF kk pow2_mono [OF pe]]) (simp_all add: less_imp_le)
  have "9007199254740992 * ?P \<le> ?c" using frac_exp_bounds [OF a b] e by simp
  moreover have "?c < x + x / 18014398509481984" by (rule close_bounds(1) [OF close])
  ultimately show False using x1 P by linarith
qed

lemma round_frac_stable:
  assumes a: "0 < a" and b: "0 < b" and x: "x = of_int k * pow2 p" and k: "0 < k" "k < 2 ^ 53" and p: "-1074 \<le> p"
    and close: "\<bar>of_int a / of_int b - x\<bar> < x / 2 ^ 54"
  shows "round_frac a b = x"
proof -
  let ?c = "of_int a / of_int b :: real" and ?e = "frac_exp a b" and ?q = "ulp_exp a b"
  let ?Q = "pow2 ?q"
  have qp: "?q \<le> p" by (rule stable_exp [OF a b x k p close])
  define K where "K = k * 2 ^ nat (p - ?q)"
  have "pow2 p = pow2 (int (nat (p - ?q)) + ?q)" using qp by simp
  then have pq: "pow2 p = 2 ^ nat (p - ?q) * ?Q" by (simp only: pow2_add pow2_of_nat)
  have xK: "x = of_int K * ?Q" by (simp add: x K_def pq)
  note cl = close_bounds [OF close]
  have "?c < pow2 (?e + 1)" using frac_exp_bounds [OF a b] by simp
  also have "\<dots> \<le> pow2 (?q + 53)" by (rule pow2_mono) (simp add: ulp_exp_def)
  finally have cq: "?c < 9007199254740992 * ?Q" by (simp only: pow2_53)
  have Kle: "K \<le> 9007199254740992"
  proof (rule ccontr)
    assume "\<not> K \<le> 9007199254740992"
    then have "(9007199254740993 :: real) \<le> of_int K" by simp
    then have "9007199254740993 * ?Q \<le> x" unfolding xK by (rule mult_right_mono) (simp add: less_imp_le)
    then show False using cl(2) cq pow2_pos [of ?q] by linarith
  qed
  have "x \<le> 9007199254740992 * ?Q" unfolding xK using Kle by (intro mult_right_mono) (simp_all add: less_imp_le)
  then have "\<bar>?c - x\<bar> < ?Q / 2" using cl unfolding abs_less_iff by linarith
  moreover have "?c / ?Q - of_int K = (?c - x) / ?Q" using xK by (simp add: diff_divide_distrib)
  ultimately have "\<bar>?c / ?Q - of_int K\<bar> < 1 / 2" by (simp add: abs_divide)
  then have "round_even (?c / ?Q) = K" by (rule round_even_int)
  then show ?thesis using a b xK by (simp add: round_frac_real)
qed

lemma round_frac_grid:
  assumes a: "0 < a" and b: "0 < b" and t: "\<not> b64_threshold_int * b \<le> a" and nz: "round_frac a b \<noteq> 0"
  shows "\<exists>k p. round_frac a b = of_int k * pow2 p \<and> 0 < k \<and> k < 2 ^ 53 \<and> -1074 \<le> p \<and> p \<le> 971"
proof -
  let ?y = "of_int a / of_int b :: real" and ?e = "frac_exp a b" and ?q = "ulp_exp a b"
  define M where "M = round_even (?y / pow2 ?q)"
  have r: "round_frac a b = of_int M * pow2 ?q" using a b by (simp add: round_frac_real M_def)
  have "0 \<le> ?y / pow2 ?q" using a b by (intro divide_nonneg_pos) auto
  then have "0 \<le> M" unfolding M_def by (rule round_even_nonneg)
  with nz r have M0: "0 < M" by (cases "M = 0") auto
  have yt: "?y < b64_threshold" using t b64_overflow_iff [OF b] by simp
  have "pow2 ?e < pow2 1024"
    using frac_exp_bounds [OF a b] yt by (simp add: b64_threshold_pow2 pow2_def)
  then have q971: "?q \<le> 971" by (simp add: pow2_less_iff ulp_exp_def)
  have q1074: "-1074 \<le> ?q" by (simp add: ulp_exp_def)
  have "?y < pow2 (?e + 1)" using frac_exp_bounds [OF a b] by simp
  also have "\<dots> \<le> pow2 (?q + 53)" by (rule pow2_mono) (simp add: ulp_exp_def)
  finally have yq: "?y / pow2 ?q < 9007199254740992" by (intro div_pow2_less) (simp only: pow2_53)
  have Mle: "M \<le> 9007199254740992" unfolding M_def by (rule round_even_le) (use yq in linarith)
  show ?thesis
  proof (cases "M = 9007199254740992")
    case False
    then show ?thesis using M0 Mle q971 q1074 r by (intro exI [of _ M] exI [of _ ?q]) simp
  next
    case True
    have "?q \<noteq> 971"
    proof
      assume q: "?q = 971"
      have h: "?y / pow2 971 < 9007199254740991 + 1 / 2"
        using yt by (intro div_pow2_less) (simp add: b64_threshold_pow2)
      have "M \<le> 9007199254740991" unfolding M_def q by (rule round_even_le) (use h in linarith)
      then show False using True by simp
    qed
    with q971 have q970: "?q + 1 \<le> 971" by simp
    have "round_frac a b = of_int 4503599627370496 * pow2 (?q + 1)"
      using r True by (simp add: pow2_add pow2_one)
    then show ?thesis using q970 q1074 by (intro exI [of _ 4503599627370496] exI [of _ "?q + 1"]) simp
  qed
qed

lemma b64_of_frac_stable:
  assumes a: "0 < a" and b: "0 < b" and x: "x = of_int k * pow2 p" and k: "0 < k" "k < 2 ^ 53"
    and p: "-1074 \<le> p" "p \<le> 971" and close: "\<bar>of_int a / of_int b - x\<bar> < x / 2 ^ 54"
  shows "b64_of_frac False a b = Fin x"
proof -
  have kk: "of_int k \<le> (9007199254740991 :: real)" using k(2) by simp
  have "x \<le> 9007199254740991 * pow2 971"
    unfolding x by (rule mult_mono [OF kk pow2_mono [OF p(2)]]) (simp_all add: less_imp_le)
  moreover have "of_int a / of_int b < x + x / 18014398509481984" by (rule close_bounds(1) [OF close])
  moreover have "0 < pow2 971" by simp
  ultimately have "of_int a / of_int b < b64_threshold" unfolding b64_threshold_pow2 by linarith
  then have "\<not> b64_threshold_int * b \<le> a" using b64_overflow_iff [OF b] by simp
  then show ?thesis using round_frac_stable [OF a b x k p(1) close] by (simp add: b64_of_frac_def)
qed


section \<open>The shortest digits read back\<close>

lemma dec_value_pow10: "dec_value (c, s) = of_nat c * pow10 s"
  by (simp add: dec_value_def pow10_def)

lemma b64_of_dec_value:
  assumes "dec_value (c, s) = dec_value (c', s')"
  shows "b64_of_dec c s = b64_of_dec c' s'"
proof -
  obtain a b where ab: "dec_frac (c, s) = (a, b)" by force
  obtain a' b' where ab': "dec_frac (c', s') = (a', b')" by force
  show ?thesis
    using dec_frac_props [OF ab] dec_frac_props [OF ab'] assms
    by (simp add: b64_of_dec_def ab ab' b64_of_frac_cong)
qed

lemma b64_of_dec_stable:
  assumes x: "x = of_int k * pow2 p" and k: "0 < k" "k < 2 ^ 53" and p: "-1074 \<le> p" "p \<le> 971"
    and c: "0 < c" and close: "\<bar>of_nat c * pow10 s - x\<bar> < x / 2 ^ 54"
  shows "b64_of_dec c s = Fin x"
proof -
  obtain a b where ab: "dec_frac (c, s) = (a, b)" by force
  have v: "0 \<le> a" "0 < b" "of_int a / of_int b = of_nat c * pow10 s"
    using dec_frac_props [OF ab] by (simp_all add: dec_value_pow10)
  have "0 < (of_int a / of_int b :: real)" using v(3) c by simp
  then have a: "0 < a" using v(2) by (simp add: zero_less_divide_iff)
  show ?thesis
    using b64_of_frac_stable [OF a v(2) x k p] close v(3) by (simp add: b64_of_dec_def ab)
qed

text \<open>Seventeen significant digits always identify a binary64 value: the nearest 17-digit decimal is within \<open>x / (2 * 10 ^ 16) < x / 2 ^ 54\<close> of \<open>x\<close>.\<close>

lemma repr_17_digits:
  assumes x: "x = of_int k * pow2 p" and k: "0 < k" "k < 2 ^ 53" and p: "-1074 \<le> p" "p \<le> 971"
  shows "b64_of_dec (nat (round_even (x / pow10 (repr_scale x 17)))) (repr_scale x 17) = Fin x"
proof -
  let ?s = "repr_scale x 17" and ?E = "dec_exp x"
  let ?y = "x / pow10 ?s" and ?r = "round_even (x / pow10 ?s)"
  have xpos: "0 < x" using x k by simp
  have E: "pow10 ?E \<le> x" using dec_exp_bounds [OF xpos] by simp
  have sE: "pow10 ?E = 10000000000000000 * pow10 ?s"
    using pow10_add [of 16 ?s] by (simp add: repr_scale_def pow10_def)
  have y16: "10000000000000000 \<le> ?y" using E sE by (simp add: pos_le_divide_eq)
  then have r1: "1 \<le> ?r" by (intro round_even_ge1) linarith
  have err: "\<bar>of_int ?r - ?y\<bar> \<le> 1 / 2" by (rule round_even_err)
  have eq: "of_nat (nat ?r) * pow10 ?s - x = (of_int ?r - ?y) * pow10 ?s" using r1 by (simp add: algebra_simps)
  have "\<bar>of_nat (nat ?r) * pow10 ?s - x\<bar> = \<bar>of_int ?r - ?y\<bar> * pow10 ?s"
    unfolding eq abs_mult using pow10_pos [of ?s] by (simp only: abs_of_pos)
  also have "\<dots> \<le> pow10 ?s / 2" using err by (simp add: mult_right_mono)
  also have "\<dots> \<le> x / 20000000000000000" using E sE by linarith
  also have "\<dots> < x / 2 ^ 54" using xpos by (simp add: divide_strict_left_mono)
  finally show ?thesis using r1 by (intro b64_of_dec_stable [OF x k p]) simp_all
qed

lemma repr_search_b64:
  assumes x: "x = of_int k * pow2 p" and k: "0 < k" "k < 2 ^ 53" and p: "-1074 \<le> p" "p \<le> 971"
  shows "n + j = 17 \<Longrightarrow> b64_of_dec (fst (repr_search x n j)) (snd (repr_search x n j)) = Fin x"
proof (induction j arbitrary: n)
  case 0
  then show ?case using repr_17_digits [OF x k p] by simp
next
  case (Suc j)
  show ?case
  proof (cases "find (\<lambda>c. b64_of_dec c (repr_scale x n) = Fin x) (repr_cands x n)")
    case None
    then show ?thesis using Suc.IH [of "Suc n"] Suc.prems by simp
  next
    case (Some c)
    then have "b64_of_dec c (repr_scale x n) = Fin x" by (auto simp: find_Some_iff)
    with Some show ?thesis by simp
  qed
qed

lemma b64_of_dec_pos:
  assumes "b64_of_dec c s = Fin x" and "0 < x"
  shows "0 < c"
proof (rule ccontr)
  assume "\<not> 0 < c"
  then have "c = 0" by simp
  then show False using assms
    by (simp add: b64_of_dec_def b64_of_frac_def round_frac_def dec_frac_def b64_threshold_int_def split: if_splits)
qed

lemma strip_zeros_value: "dec_value (strip_zeros c s) = dec_value (c, s)"
proof (induction c s rule: strip_zeros.induct)
  case (1 c s)
  show ?case
  proof (cases "c \<noteq> 0 \<and> c mod 10 = 0")
    case True
    then have "c = c div 10 * 10" using div_mult_mod_eq [of c 10] by simp
    then have c10: "real c = real (c div 10) * 10" by (metis of_nat_mult of_nat_numeral)
    have p10: "pow10 (s + 1) = pow10 s * 10" using pow10_add [of s 1] by (simp add: pow10_def)
    have "strip_zeros c s = strip_zeros (c div 10) (s + 1)" using True by (subst strip_zeros.simps) simp
    then show ?thesis using True "1" c10 p10 by (simp add: dec_value_pow10)
  next
    case False
    then have "strip_zeros c s = (c, s)" unfolding strip_zeros.simps [of c s] by (rule if_not_P)
    then show ?thesis by simp
  qed
qed

lemma strip_zeros_pos: "0 < c \<Longrightarrow> 0 < fst (strip_zeros c s)"
proof (induction c s rule: strip_zeros.induct)
  case (1 c s)
  show ?case
  proof (cases "c \<noteq> 0 \<and> c mod 10 = 0")
    case True
    then have "0 < c div 10" by (cases "c < 10") auto
    then show ?thesis using "1" True unfolding strip_zeros.simps [of c s] by simp
  next
    case False
    then show ?thesis using "1" unfolding strip_zeros.simps [of c s] by simp
  qed
qed

lemma repr_digits_b64:
  assumes x: "x = of_int k * pow2 p" and k: "0 < k" "k < 2 ^ 53" and p: "-1074 \<le> p" "p \<le> 971"
    and d: "repr_digits x = (c, s)"
  shows "0 < c \<and> b64_of_dec c s = Fin x"
proof -
  obtain c0 s0 where r: "repr_search x 1 16 = (c0, s0)" by force
  have b0: "b64_of_dec c0 s0 = Fin x" using repr_search_b64 [OF x k p, of 1 16] r by simp
  have "0 < x" using x k by simp
  then have "0 < c0" by (rule b64_of_dec_pos [OF b0])
  moreover have "strip_zeros c0 s0 = (c, s)" using d r by (simp add: repr_digits_def)
  ultimately show ?thesis using b0 strip_zeros_value [of c0 s0] strip_zeros_pos [of c0 s0]
    by (metis b64_of_dec_value fst_conv)
qed


section \<open>The text reads back\<close>

lemma foldl_digits_acc:
  "foldl (\<lambda>a c. 10 * a + digit_val c) v w = v * 10 ^ length w + foldl (\<lambda>a c. 10 * a + digit_val c) 0 w"
proof (induction w arbitrary: v)
  case Nil
  then show ?case by simp
next
  case (Cons c w)
  have l: "foldl (\<lambda>a c. 10 * a + digit_val c) v (c # w) =
      (10 * v + digit_val c) * 10 ^ length w + foldl (\<lambda>a c. 10 * a + digit_val c) 0 w"
    using Cons.IH [of "10 * v + digit_val c"] by simp
  have r: "foldl (\<lambda>a c. 10 * a + digit_val c) 0 (c # w) =
      digit_val c * 10 ^ length w + foldl (\<lambda>a c. 10 * a + digit_val c) 0 w"
    using Cons.IH [of "digit_val c"] by simp
  show ?case unfolding l r by (simp add: algebra_simps)
qed

lemma foldl_digits_append:
  "foldl (\<lambda>a c. 10 * a + digit_val c) 0 (u @ w) =
   foldl (\<lambda>a c. 10 * a + digit_val c) 0 u * 10 ^ length w + foldl (\<lambda>a c. 10 * a + digit_val c) 0 w"
proof -
  have "foldl (\<lambda>a c. 10 * a + digit_val c) 0 (u @ w) =
      foldl (\<lambda>a c. 10 * a + digit_val c) (foldl (\<lambda>a c. 10 * a + digit_val c) 0 u) w" by simp
  also have "\<dots> = foldl (\<lambda>a c. 10 * a + digit_val c) 0 u * 10 ^ length w + foldl (\<lambda>a c. 10 * a + digit_val c) 0 w"
    by (rule foldl_digits_acc)
  finally show ?thesis .
qed

lemma foldl_digits_zeros: "foldl (\<lambda>a c. 10 * a + digit_val c) 0 (replicate k (CHR ''0'')) = 0"
  by (induction k) (simp_all add: digit_val_def)

lemma digit_not_special:
  "is_digit c \<Longrightarrow> c \<noteq> CHR ''.'' \<and> c \<noteq> CHR ''e'' \<and> c \<noteq> CHR ''E'' \<and> c \<noteq> CHR ''-'' \<and> c \<noteq> CHR ''+'' \<and> \<not> is_py_space c"
  by (auto simp: is_digit_def is_py_space_def)

lemma is_digit_zero [simp]: "is_digit (CHR ''0'')"
  by (simp add: is_digit_def)

lemma parse_digitpart_digits:
  assumes "w \<noteq> []" and "\<forall>c\<in>set w. is_digit c"
  shows "parse_digitpart w = Some (foldl (\<lambda>a c. 10 * a + digit_val c) 0 w, length w)"
  using assms digits_acc_all_digits [OF assms(2), of 0 0] by (cases w) (auto simp: parse_digitpart_def)

lemma parse_mantissa_int:
  assumes "w \<noteq> []" and d: "\<forall>c\<in>set w. is_digit c"
  shows "parse_mantissa w = Some (foldl (\<lambda>a c. 10 * a + digit_val c) 0 w, 0)"
proof -
  have "\<forall>c\<in>set w. c \<noteq> CHR ''.''" using d digit_not_special by blast
  then have t: "takeWhile (\<lambda>c. c \<noteq> CHR ''.'') w = w" and dr: "dropWhile (\<lambda>c. c \<noteq> CHR ''.'') w = []"
    by (simp_all add: takeWhile_eq_all_conv dropWhile_eq_Nil_conv)
  show ?thesis unfolding parse_mantissa_def Let_def t dr using parse_digitpart_digits [OF assms] by simp
qed

lemma parse_mantissa_frac:
  assumes "u \<noteq> []" and du: "\<forall>c\<in>set u. is_digit c" and "w \<noteq> []" and dw: "\<forall>c\<in>set w. is_digit c"
  shows "parse_mantissa (u @ CHR ''.'' # w) =
    Some (foldl (\<lambda>a c. 10 * a + digit_val c) 0 u * 10 ^ length w + foldl (\<lambda>a c. 10 * a + digit_val c) 0 w, length w)"
proof -
  have "\<forall>c\<in>set u. c \<noteq> CHR ''.''" using du digit_not_special by blast
  then have t: "takeWhile (\<lambda>c. c \<noteq> CHR ''.'') (u @ CHR ''.'' # w) = u"
    and dr: "dropWhile (\<lambda>c. c \<noteq> CHR ''.'') (u @ CHR ''.'' # w) = CHR ''.'' # w"
    by (simp_all add: takeWhile_append2 dropWhile_append2)
  show ?thesis unfolding parse_mantissa_def Let_def t dr
    using parse_digitpart_digits [OF assms(1,2)] parse_digitpart_digits [OF assms(3,4)] assms(1,3) by simp
qed

lemma parse_decimal_noexp:
  assumes "\<forall>c\<in>set m. c \<noteq> CHR ''e'' \<and> c \<noteq> CHR ''E''" and "parse_mantissa m = Some (v, k)"
  shows "parse_decimal m = Some (v, - int k)"
proof -
  have t: "takeWhile (\<lambda>c. c \<noteq> CHR ''e'' \<and> c \<noteq> CHR ''E'') m = m"
    and dr: "dropWhile (\<lambda>c. c \<noteq> CHR ''e'' \<and> c \<noteq> CHR ''E'') m = []"
    using assms(1) by (simp_all add: takeWhile_eq_all_conv dropWhile_eq_Nil_conv)
  show ?thesis unfolding parse_decimal_def Let_def t dr using assms(2) by simp
qed

lemma parse_decimal_exp:
  assumes "\<forall>c\<in>set m. c \<noteq> CHR ''e'' \<and> c \<noteq> CHR ''E''" and "parse_mantissa m = Some (v, k)"
    and "parse_exponent ex = Some e"
  shows "parse_decimal (m @ CHR ''e'' # ex) = Some (v, e - int k)"
proof -
  have t: "takeWhile (\<lambda>c. c \<noteq> CHR ''e'' \<and> c \<noteq> CHR ''E'') (m @ CHR ''e'' # ex) = m"
    and dr: "dropWhile (\<lambda>c. c \<noteq> CHR ''e'' \<and> c \<noteq> CHR ''E'') (m @ CHR ''e'' # ex) = CHR ''e'' # ex"
    using assms(1) by (simp_all add: takeWhile_append2 dropWhile_append2)
  show ?thesis unfolding parse_decimal_def Let_def t dr using assms(2,3) by simp
qed

lemma parse_exponent_exp_str: "parse_exponent (exp_str e) = Some e"
proof -
  let ?ds = "nat_str (nat \<bar>e\<bar>)"
  let ?ds' = "if length ?ds < 2 then CHR ''0'' # ?ds else ?ds"
  have d: "\<forall>c\<in>set ?ds. is_digit c" by (rule nat_str_digits)
  have ne: "?ds \<noteq> []" using nat_str_ne by (metis list.distinct(1))
  have d': "\<forall>c\<in>set ?ds'. is_digit c" and ne': "?ds' \<noteq> []" using d ne by auto
  have v: "foldl (\<lambda>a c. 10 * a + digit_val c) 0 ?ds' = nat \<bar>e\<bar>"
    using foldl_nat_str [of "nat \<bar>e\<bar>"] by (simp add: digit_val_def)
  have "split_sign (exp_str e) = (e < 0, ?ds')" by (simp add: exp_str_def split_sign_def)
  then show ?thesis using parse_digitpart_digits [OF ne' d'] v by (simp add: parse_exponent_def)
qed


lemma format_short_parse:
  assumes c: "0 < c"
  shows "\<exists>vd. parse_decimal (format_short c s) = Some vd \<and> dec_value vd = dec_value (c, s)"
proof -
  let ?F = "\<lambda>w. foldl (\<lambda>a c. 10 * a + digit_val c) 0 w"
  define ds where "ds = nat_str c"
  define l where "l = int (length ds)"
  define decpt where "decpt = l + s"
  have d: "\<forall>x\<in>set ds. is_digit x" unfolding ds_def by (rule nat_str_digits)
  have ne: "ds \<noteq> []" unfolding ds_def using nat_str_ne by (metis list.distinct(1))
  have v: "?F ds = c" unfolding ds_def by (rule foldl_nat_str)
  have nde: "\<forall>x\<in>set m. is_digit x \<or> x = CHR ''.'' \<Longrightarrow> \<forall>x\<in>set m. x \<noteq> CHR ''e'' \<and> x \<noteq> CHR ''E''" for m
    using digit_not_special by fastforce
  have fs: "format_short c s =
     (if decpt \<le> -4 \<or> 16 < decpt
      then hd ds # (if tl ds = [] then [] else CHR ''.'' # tl ds) @ CHR ''e'' # exp_str (decpt - 1)
      else if decpt \<le> 0 then ''0.'' @ replicate (nat (- decpt)) (CHR ''0'') @ ds
      else if decpt < l then take (nat decpt) ds @ CHR ''.'' # drop (nat decpt) ds
      else ds @ replicate (nat (decpt - l)) (CHR ''0'') @ ''.0'')"
    by (simp add: format_short_def ds_def l_def decpt_def Let_def)
  consider (E) "decpt \<le> -4 \<or> 16 < decpt" | (Z) "\<not> (decpt \<le> -4 \<or> 16 < decpt)" "decpt \<le> 0"
    | (M) "\<not> (decpt \<le> -4 \<or> 16 < decpt)" "0 < decpt" "decpt < l"
    | (I) "\<not> (decpt \<le> -4 \<or> 16 < decpt)" "0 < decpt" "l \<le> decpt" by linarith
  then show ?thesis
  proof cases
    case E
    obtain h t where ht: "ds = h # t" using ne by (cases ds) auto
    define m where "m = h # (if t = [] then [] else CHR ''.'' # t)"
    have f: "format_short c s = m @ CHR ''e'' # exp_str (decpt - 1)" using E by (simp add: fs ht m_def)
    have pm: "parse_mantissa m = Some (c, length t)"
    proof (cases "t = []")
      case True
      then show ?thesis using parse_mantissa_int [OF ne d] v by (simp add: m_def ht)
    next
      case False
      have "?F [h] * 10 ^ length t + ?F t = c" using v foldl_digits_append [of "[h]" t] ht by simp
      then show ?thesis using parse_mantissa_frac [of "[h]" t] False d by (simp add: m_def ht)
    qed
    have "\<forall>x\<in>set m. x \<noteq> CHR ''e'' \<and> x \<noteq> CHR ''E''" using d by (intro nde) (auto simp: m_def ht)
    from parse_decimal_exp [OF this pm parse_exponent_exp_str]
    have "parse_decimal (format_short c s) = Some (c, decpt - 1 - int (length t))" by (simp add: f)
    moreover have "decpt - 1 - int (length t) = s" using ht by (simp add: decpt_def l_def)
    ultimately show ?thesis by auto
  next
    case Z
    let ?k = "nat (- decpt)"
    have f: "format_short c s = ''0'' @ CHR ''.'' # (replicate ?k (CHR ''0'') @ ds)" using Z by (simp add: fs)
    have dz: "\<forall>x\<in>set (replicate ?k (CHR ''0'') @ ds). is_digit x" using d by auto
    have "?F (replicate ?k (CHR ''0'') @ ds) = c" unfolding foldl_digits_append foldl_digits_zeros v by simp
    then have pm: "parse_mantissa (''0'' @ CHR ''.'' # (replicate ?k (CHR ''0'') @ ds)) = Some (c, ?k + length ds)"
      using parse_mantissa_frac [of "''0''" "replicate ?k (CHR ''0'') @ ds"] dz ne by (simp add: digit_val_def)
    have "\<forall>x\<in>set (''0'' @ CHR ''.'' # (replicate ?k (CHR ''0'') @ ds)). x \<noteq> CHR ''e'' \<and> x \<noteq> CHR ''E''"
      using dz by (intro nde) auto
    from parse_decimal_noexp [OF this pm]
    have "parse_decimal (format_short c s) = Some (c, - int (?k + length ds))" by (simp add: f)
    moreover have "- int (?k + length ds) = s" using Z by (simp add: decpt_def l_def)
    ultimately show ?thesis by auto
  next
    case M
    let ?j = "nat decpt"
    have f: "format_short c s = take ?j ds @ CHR ''.'' # drop ?j ds" using M by (simp add: fs)
    have j: "0 < ?j" "?j < length ds" using M by (simp_all add: l_def)
    have tn: "take ?j ds \<noteq> []" and dn: "drop ?j ds \<noteq> []" using j ne by simp_all
    have td: "\<forall>x\<in>set (take ?j ds). is_digit x" and dd: "\<forall>x\<in>set (drop ?j ds). is_digit x"
      using d by (auto dest: in_set_takeD in_set_dropD)
    have "?F (take ?j ds) * 10 ^ length (drop ?j ds) + ?F (drop ?j ds) = c"
      using v foldl_digits_append [of "take ?j ds" "drop ?j ds"] by simp
    then have pm: "parse_mantissa (take ?j ds @ CHR ''.'' # drop ?j ds) = Some (c, length (drop ?j ds))"
      using parse_mantissa_frac [OF tn td dn dd] by simp
    have "\<forall>x\<in>set (take ?j ds @ CHR ''.'' # drop ?j ds). x \<noteq> CHR ''e'' \<and> x \<noteq> CHR ''E''"
      using td dd by (intro nde) auto
    from parse_decimal_noexp [OF this pm]
    have "parse_decimal (format_short c s) = Some (c, - int (length (drop ?j ds)))" by (simp add: f)
    moreover have "- int (length (drop ?j ds)) = s" using M j by (simp add: decpt_def l_def)
    ultimately show ?thesis by auto
  next
    case I
    let ?k = "nat (decpt - l)"
    have f: "format_short c s = (ds @ replicate ?k (CHR ''0'')) @ CHR ''.'' # ''0''" using I by (simp add: fs)
    have dz: "\<forall>x\<in>set (ds @ replicate ?k (CHR ''0'')). is_digit x" using d by auto
    have "?F (ds @ replicate ?k (CHR ''0'')) = c * 10 ^ ?k" unfolding foldl_digits_append foldl_digits_zeros v by simp
    then have pm: "parse_mantissa ((ds @ replicate ?k (CHR ''0'')) @ CHR ''.'' # ''0'') = Some (c * 10 ^ ?k * 10, 1)"
      using parse_mantissa_frac [of "ds @ replicate ?k (CHR ''0'')" "''0''"] dz ne by (simp add: digit_val_def)
    have "\<forall>x\<in>set ((ds @ replicate ?k (CHR ''0'')) @ CHR ''.'' # ''0''). x \<noteq> CHR ''e'' \<and> x \<noteq> CHR ''E''"
      using dz by (intro nde) auto
    from parse_decimal_noexp [OF this pm]
    have "parse_decimal (format_short c s) = Some (c * 10 ^ ?k * 10, - 1)" by (simp add: f)
    moreover have "?k = nat s" and "0 \<le> s" using I by (simp_all add: decpt_def)
    then have "dec_value (c * 10 ^ ?k * 10, - 1) = dec_value (c, s)" by (simp add: dec_value_def)
    ultimately show ?thesis by auto
  qed
qed


lemma exp_str_last: "is_digit (last (exp_str e))"
proof -
  let ?ds = "nat_str (nat \<bar>e\<bar>)"
  let ?ds' = "if length ?ds < 2 then CHR ''0'' # ?ds else ?ds"
  have ne: "?ds \<noteq> []" using nat_str_ne by (metis list.distinct(1))
  have "\<forall>c\<in>set ?ds'. is_digit c" using nat_str_digits [of "nat \<bar>e\<bar>"] by auto
  moreover have "?ds' \<noteq> []" using ne by simp
  moreover have ne': "?ds' \<noteq> []" using ne by simp
  ultimately have dl: "is_digit (last ?ds')" by simp
  have eq: "exp_str e = (if e < 0 then CHR ''-'' else CHR ''+'') # ?ds'" by (simp only: exp_str_def Let_def)
  show ?thesis unfolding eq last_ConsR [OF ne'] by (rule dl)
qed

lemma exp_str_ne [simp]: "exp_str e \<noteq> []"
  by (simp add: exp_str_def)

lemma format_short_shape:
  assumes "0 < c"
  shows "format_short c s \<noteq> [] \<and> is_digit (hd (format_short c s)) \<and> is_digit (last (format_short c s))"
proof -
  let ?ds = "nat_str c"
  have d: "\<forall>x\<in>set ?ds. is_digit x" by (rule nat_str_digits)
  have ne: "?ds \<noteq> []" using nat_str_ne by (metis list.distinct(1))
  have h: "is_digit (hd ?ds)" and l: "is_digit (last ?ds)" using d ne by simp_all
  have "\<forall>j. 0 < j \<longrightarrow> j < length ?ds \<longrightarrow> is_digit (hd (take j ?ds)) \<and> is_digit (last (drop j ?ds))"
    using h l by (simp add: hd_take last_drop)
  then show ?thesis using h l ne
    by (auto simp: format_short_def Let_def exp_str_last hd_append last_append nat_less_iff)
qed

lemma py_strip_digit_ends:
  assumes "s \<noteq> []" and "\<not> is_py_space (hd s)" and "\<not> is_py_space (last s)"
  shows "py_strip s = s"
proof -
  have l: "dropWhile is_py_space s = s" using assms(1,2) by (cases s) auto
  obtain y ys where r: "rev s = y # ys" using assms(1) by (cases "rev s") auto
  then have "y = last s" by (metis hd_rev list.sel(1))
  then have "dropWhile is_py_space (rev s) = rev s" unfolding r using assms(3) by simp
  then show ?thesis using l by (simp add: py_strip_def)
qed

lemma b64_of_frac_dec_cong:
  assumes "dec_value vd = dec_value vd'"
  shows "b64_of_frac n (fst (dec_frac vd)) (snd (dec_frac vd)) = b64_of_frac n (fst (dec_frac vd')) (snd (dec_frac vd'))"
proof -
  obtain a b where ab: "dec_frac vd = (a, b)" by force
  obtain a' b' where ab': "dec_frac vd' = (a', b')" by force
  show ?thesis using dec_frac_props [OF ab] dec_frac_props [OF ab'] assms by (simp add: ab ab' b64_of_frac_cong)
qed

lemma b64_of_frac_neg: "b64_of_frac False a b = Fin r \<Longrightarrow> b64_of_frac True a b = Fin (- r)"
  by (simp add: b64_of_frac_def split: if_splits)

lemma py_float_of_str_format:
  assumes c: "0 < c" and x: "b64_of_dec c s = Fin x"
  shows "py_float_of_str (format_short c s) = Inr (Fin x)"
    and "py_float_of_str (CHR ''-'' # format_short c s) = Inr (Fin (- x))"
proof -
  let ?f = "format_short c s"
  obtain vd where p: "parse_decimal ?f = Some vd" and v: "dec_value vd = dec_value (c, s)"
    using format_short_parse [OF c] by blast
  have sh: "?f \<noteq> []" "is_digit (hd ?f)" "is_digit (last ?f)" using format_short_shape [OF c] by simp_all
  have b: "b64_of_frac False (fst (dec_frac vd)) (snd (dec_frac vd)) = Fin x"
    using x b64_of_frac_dec_cong [OF v, of False] by (simp add: b64_of_dec_def)
  have st1: "py_strip ?f = ?f" using sh digit_not_special by (intro py_strip_digit_ends) auto
  have st2: "py_strip (CHR ''-'' # ?f) = CHR ''-'' # ?f"
    using sh digit_not_special by (intro py_strip_digit_ends) (auto simp: is_py_space_def)
  obtain d r where dr: "?f = d # r" using sh(1) by (cases ?f) auto
  have "d \<noteq> CHR ''-'' \<and> d \<noteq> CHR ''+''" using sh(2) dr digit_not_special by simp
  then have sp1: "split_sign ?f = (False, ?f)" using dr by (simp add: split_sign_def)
  have sp2: "split_sign (CHR ''-'' # ?f) = (True, ?f)" by (simp add: split_sign_def)
  show "py_float_of_str ?f = Inr (Fin x)" by (simp add: py_float_of_str_def st1 sp1 p b)
  show "py_float_of_str (CHR ''-'' # ?f) = Inr (Fin (- x))"
    by (simp add: py_float_of_str_def st2 sp2 p b64_of_frac_neg [OF b])
qed

lemma py_float_of_str_Fin:
  assumes "py_float_of_str s = Inr (Fin x)"
  shows "\<exists>neg a b. 0 \<le> a \<and> 0 < b \<and> b64_of_frac neg a b = Fin x"
proof -
  obtain neg body where sp: "split_sign (py_strip s) = (neg, body)" by force
  show ?thesis
  proof (cases "parse_decimal body")
    case None
    then show ?thesis using assms sp by (simp add: py_float_of_str_def Let_def split: if_splits)
  next
    case (Some vd)
    obtain a b where ab: "dec_frac vd = (a, b)" by force
    then show ?thesis using assms sp Some dec_frac_props [OF ab] by (auto simp: py_float_of_str_def)
  qed
qed

lemma round_frac_nonneg: "0 \<le> a \<Longrightarrow> 0 < b \<Longrightarrow> 0 \<le> round_frac a b"
proof (cases "a = 0")
  case False
  assume "0 \<le> a" "0 < b"
  with False have a: "0 < a" by simp
  have "0 \<le> of_int a / of_int b / pow2 (ulp_exp a b)" using a \<open>0 < b\<close> by (intro divide_nonneg_pos) auto
  then have "0 \<le> round_even (of_int a / of_int b / pow2 (ulp_exp a b))" by (rule round_even_nonneg)
  then show ?thesis using a \<open>0 < b\<close> by (simp add: round_frac_real zero_le_mult_iff less_imp_le)
qed (simp add: round_frac_def)

lemma b64_of_frac_grid:
  assumes f: "b64_of_frac neg a b = Fin x" and a: "0 \<le> a" and b: "0 < b" and x: "x \<noteq> 0"
  shows "\<exists>k p. \<bar>x\<bar> = of_int k * pow2 p \<and> 0 < k \<and> k < 2 ^ 53 \<and> -1074 \<le> p \<and> p \<le> 971"
proof -
  have t: "\<not> b64_threshold_int * b \<le> a" and xr: "x = (if neg then - round_frac a b else round_frac a b)"
    using f by (simp_all add: b64_of_frac_def split: if_splits)
  have nz: "round_frac a b \<noteq> 0" using xr x by (cases neg) auto
  then have "a \<noteq> 0" by (auto simp: round_frac_def)
  with a have a0: "0 < a" by simp
  have "\<bar>x\<bar> = round_frac a b" using xr round_frac_nonneg [OF a b] by auto
  then show ?thesis using round_frac_grid [OF a0 b t nz] by simp
qed

lemma py_float_of_str_zero_text: "py_float_of_str ''0.0'' = Inr (Fin 0)"
  by code_simp


section \<open>At most seventeen digits\<close>

lemma repr_cands_le:
  assumes x: "0 < x" and c: "c \<in> set (repr_cands x n)"
  shows "c \<le> 10 ^ n"
proof -
  let ?s = "repr_scale x n" and ?E = "dec_exp x"
  let ?y = "x / pow10 ?s"
  have "pow10 (?E + 1) = pow10 ?s * 10 ^ n"
    using pow10_add [of ?s "int n"] by (simp add: repr_scale_def pow10_of_nat)
  then have "?y < 10 ^ n" using dec_exp_bounds [OF x] by (simp add: pos_divide_less_eq mult.commute)
  then have "?y < of_int (10 ^ n) + 1 / 2" by simp
  then have r: "round_even ?y \<le> 10 ^ n" by (rule round_even_le)
  have "\<lfloor>?y\<rfloor> < 10 ^ n" using \<open>?y < 10 ^ n\<close> by (simp add: floor_less_iff)
  then have f: "\<lfloor>?y\<rfloor> + 1 \<le> 10 ^ n" by simp
  have "nat (round_even ?y) \<le> 10 ^ n" using r by (simp add: nat_le_iff)
  moreover have "nat (\<lfloor>?y\<rfloor> + 1) \<le> 10 ^ n" "nat \<lfloor>?y\<rfloor> \<le> 10 ^ n" using f by (simp_all add: nat_le_iff)
  ultimately show ?thesis using c by (auto simp: repr_cands_def Let_def)
qed

lemma repr_search_le:
  "0 < x \<Longrightarrow> n + j = 17 \<Longrightarrow> fst (repr_search x n j) \<le> 10 ^ 17"
proof (induction j arbitrary: n)
  case 0
  have "nat (round_even (x / pow10 (repr_scale x n))) \<in> set (repr_cands x n)" by (simp add: repr_cands_def Let_def)
  then show ?case using repr_cands_le [OF "0.prems"(1)] "0.prems"(2) by fastforce
next
  case (Suc j)
  show ?case
  proof (cases "find (\<lambda>c. b64_of_dec c (repr_scale x n) = Fin x) (repr_cands x n)")
    case None
    then show ?thesis using Suc.IH [of "Suc n"] Suc.prems by simp
  next
    case (Some c)
    then have "c \<in> set (repr_cands x n)" by (auto simp: find_Some_iff)
    then have "c \<le> 10 ^ n" by (rule repr_cands_le [OF Suc.prems(1)])
    moreover have "(10::nat) ^ n \<le> 10 ^ 17" by (rule power_increasing) (use Suc.prems(2) in simp_all)
    ultimately show ?thesis using Some by simp
  qed
qed

lemma repr_scaled_ge1:
  assumes x: "0 < x" and n: "1 \<le> n"
  shows "1 \<le> x / pow10 (repr_scale x n)"
proof -
  let ?s = "repr_scale x n"
  have e: "?s + int (n - 1) = dec_exp x" using n by (simp add: repr_scale_def of_nat_diff)
  have "pow10 (dec_exp x) = pow10 ?s * 10 ^ (n - 1)" unfolding e [symmetric] pow10_add pow10_of_nat ..
  moreover have "(1::real) \<le> 10 ^ (n - 1)" by simp
  ultimately have "pow10 ?s \<le> pow10 (dec_exp x)" by (metis mult_le_cancel_left1 pow10_pos less_imp_le not_le)
  then have "pow10 ?s \<le> x" using dec_exp_bounds [OF x] by linarith
  then show ?thesis by (simp add: pos_le_divide_eq)
qed

lemma repr_cands_pos:
  assumes x: "0 < x" and n: "1 \<le> n" and c: "c \<in> set (repr_cands x n)"
  shows "0 < c"
proof -
  let ?y = "x / pow10 (repr_scale x n)"
  have y: "1 \<le> ?y" by (rule repr_scaled_ge1 [OF x n])
  then have "1 \<le> round_even ?y" by (intro round_even_ge1) linarith
  moreover have "1 \<le> \<lfloor>?y\<rfloor>" using y by (metis le_floor_iff of_int_1)
  ultimately have "0 < round_even ?y" "0 < \<lfloor>?y\<rfloor>" "0 < \<lfloor>?y\<rfloor> + 1" by linarith+
  then have "0 < nat (round_even ?y)" "0 < nat \<lfloor>?y\<rfloor>" "0 < nat (\<lfloor>?y\<rfloor> + 1)" by (simp_all only: zero_less_nat_eq)
  then show ?thesis using c by (auto simp: repr_cands_def Let_def)
qed

lemma repr_search_pos:
  "0 < x \<Longrightarrow> 1 \<le> n \<Longrightarrow> 0 < fst (repr_search x n j)"
proof (induction j arbitrary: n)
  case 0
  have "nat (round_even (x / pow10 (repr_scale x n))) \<in> set (repr_cands x n)" by (simp add: repr_cands_def Let_def)
  then have "0 < nat (round_even (x / pow10 (repr_scale x n)))" by (rule repr_cands_pos [OF "0.prems"])
  then show ?case by simp
next
  case (Suc j)
  show ?case
  proof (cases "find (\<lambda>c. b64_of_dec c (repr_scale x n) = Fin x) (repr_cands x n)")
    case None
    then show ?thesis using Suc.IH [of "Suc n"] Suc.prems by simp
  next
    case (Some c)
    then have "c \<in> set (repr_cands x n)" by (auto simp: find_Some_iff)
    then show ?thesis using repr_cands_pos [OF Suc.prems] Some by simp
  qed
qed

lemma strip_zeros_le: "fst (strip_zeros c s) \<le> c \<and> (fst (strip_zeros c s) = 0 \<or> fst (strip_zeros c s) mod 10 \<noteq> 0)"
proof (induction c s rule: strip_zeros.induct)
  case (1 c s)
  show ?case
  proof (cases "c \<noteq> 0 \<and> c mod 10 = 0")
    case True
    then have "strip_zeros c s = strip_zeros (c div 10) (s + 1)" unfolding strip_zeros.simps [of c s] by (rule if_P)
    then show ?thesis using "1" True by (metis div_le_dividend order_trans)
  next
    case False
    then have "strip_zeros c s = (c, s)" unfolding strip_zeros.simps [of c s] by (rule if_not_P)
    then show ?thesis using False by auto
  qed
qed

lemma nat_str_length: "n < 10 ^ Suc k \<Longrightarrow> length (nat_str n) \<le> Suc k"
proof (induction n arbitrary: k rule: nat_str.induct)
  case (1 n)
  show ?case
  proof (cases "n < 10")
    case True
    then show ?thesis by (subst nat_str.simps) simp
  next
    case False
    then obtain k' where k: "k = Suc k'" using "1.prems" by (cases k) auto
    have "n div 10 < 10 ^ Suc k'" using "1.prems" k by (simp add: div_less_iff_less_mult)
    then have "length (nat_str (n div 10)) \<le> Suc k'" using "1.IH" False by simp
    then show ?thesis using False k by (subst nat_str.simps) simp
  qed
qed

text \<open>
  \<open>repr()\<close> of a positive float prints at most 17 significant digits,
  and never a trailing zero among them.
\<close>

lemma repr_digits_17:
  assumes "0 < x"
  shows "length (nat_str (fst (repr_digits x))) \<le> 17 \<and> fst (repr_digits x) mod 10 \<noteq> 0"
proof -
  obtain c0 s0 where r: "repr_search x 1 16 = (c0, s0)" by force
  have c0: "c0 \<le> 10 ^ 17" using repr_search_le [OF assms, of 1 16] r by simp
  have d: "repr_digits x = strip_zeros c0 s0" using r by (simp add: repr_digits_def)
  have b: "0 < c0" using repr_search_pos [OF assms, of 1 16] r by simp
  let ?c = "fst (strip_zeros c0 s0)"
  have "?c \<le> c0" "?c = 0 \<or> ?c mod 10 \<noteq> 0" using strip_zeros_le [of c0 s0] by simp_all
  moreover have "0 < ?c" using strip_zeros_pos [OF b] by simp
  ultimately have m: "?c mod 10 \<noteq> 0" and "?c < 10 ^ 17" using c0 by (auto simp: le_less)
  then have "length (nat_str ?c) \<le> 17" using nat_str_length [of ?c 16] by simp
  then show ?thesis using m d by simp
qed

text \<open>\<open>str()\<close> of a float reads back: \<open>float(str(x))\<close> is \<open>x\<close> for every finite float \<open>float()\<close> returns.\<close>

lemma float_repr_reads_back:
  assumes "py_float_of_str s = Inr (Fin x)"
  shows "py_float_of_str (float_repr x) = Inr (Fin x)"
proof (cases "x = 0")
  case True
  then show ?thesis by (simp add: float_repr_def py_float_of_str_zero_text)
next
  case False
  obtain neg a b where f: "0 \<le> a" "0 < b" "b64_of_frac neg a b = Fin x"
    using py_float_of_str_Fin [OF assms] by blast
  obtain k p where g: "\<bar>x\<bar> = of_int k * pow2 p" "0 < k" "k < 2 ^ 53" "-1074 \<le> p" "p \<le> 971"
    using b64_of_frac_grid [OF f(3,1,2) False] by blast
  obtain c e where d: "repr_digits \<bar>x\<bar> = (c, e)" by force
  have ce: "0 < c" "b64_of_dec c e = Fin \<bar>x\<bar>" using repr_digits_b64 [OF g d] by simp_all
  show ?thesis
  proof (cases "x < 0")
    case True
    then have "repr_digits (- x) = (c, e)" using d by simp
    then have "float_repr x = CHR ''-'' # format_short c e" using True by (simp add: float_repr_def)
    then show ?thesis using py_float_of_str_format(2) [OF ce] True by simp
  next
    case nn: False
    then have "repr_digits x = (c, e)" using d by simp
    then have "float_repr x = format_short c e" using nn False by (simp add: float_repr_def)
    then show ?thesis using py_float_of_str_format(1) [OF ce] nn by simp
  qed
qed

lemma py_float_repr_reads_back:
  assumes "py_float_of_str s = Inr v"
  shows "py_float_of_str (py_float_repr v) = Inr v"
proof (cases v)
  case (Fin x)
  then show ?thesis using float_repr_reads_back assms by simp
next
  case PosInf
  have "py_float_of_str ''inf'' = Inr PosInf" by code_simp
  then show ?thesis using PosInf by simp
next
  case NegInf
  have "py_float_of_str ''-inf'' = Inr NegInf" by code_simp
  then show ?thesis using NegInf by simp
next
  case NaN
  have "py_float_of_str ''nan'' = Inr NaN" by code_simp
  then show ?thesis using NaN by simp
qed

end
