(* ===== verification/Console.thy ===== *)
theory Console
  imports Simulator FloatRepr
begin

text \<open>
  What the program writes to standard output (\<open>src/Trading_sim.py\<close>): the
  reflective formatter \<open>to_str\<close> (lines 11--12) behind \<open>__str__\<close> of
  \<open>Stock\<close> and \<open>Trade\<close>, \<open>pretty_print\<close> (lines 136--142), \<open>print_help\<close> with
  the docstrings of the actions (lines 125--128), the banner printed before
  the loop (lines 177--184), and the text of each \<open>print\<close> of the loop.
  Output is a list of the strings passed to \<open>print\<close>, one per call; the
  text written is each followed by a newline. \<open>str\<close> of the price of a
  trade is CPython's (\<open>py_float_repr\<close>, theory \<open>FloatRepr\<close>): the price is
  the binary64 value \<open>float()\<close> read. Two conversions remain parameters:
  \<open>str\<close> of a float computed by the metrics, whose arithmetic the model
  keeps exact, and \<open>str\<close> of the \<open>datetime\<close> of a trade.
\<close>

record formats =
  fmt_real :: "real \<Rightarrow> string"
  fmt_instant :: "int \<Rightarrow> string"

definition nl :: string where
  "nl = [CHR 0x0A]"

text \<open>\<open>to_str(instance)\<close> (lines 11--12): the class name and \<open>slot: value\<close> for each slot, in the order of \<open>__slots__\<close>.\<close>

definition to_str :: "string \<Rightarrow> (string \<times> string) list \<Rightarrow> string" where
  "to_str cls slots = cls @ ''('' @ py_join '', '' (map (\<lambda>(sl, v). sl @ '': '' @ v) slots) @ '')''"

text \<open>\<open>str\<close> of the values the slots hold: \<open>None\<close>, ints, strings, bools and floats.\<close>

fun pyval_str :: "pyval \<Rightarrow> string" where
  "pyval_str PyNone = ''None''"
| "pyval_str (PyInt i) = py_str_int i"
| "pyval_str (PyStr s) = s"

definition py_bool_str :: "bool \<Rightarrow> string" where
  "py_bool_str b = (if b then ''True'' else ''False'')"

fun float_str :: "formats \<Rightarrow> pyfloat \<Rightarrow> string" where
  "float_str f (Fin r) = fmt_real f r"
| "float_str f PosInf = ''inf''"
| "float_str f NegInf = ''-inf''"
| "float_str f NaN = ''nan''"

text \<open>\<open>Stock.__str__\<close> (lines 16, 36--40).\<close>

definition stock_str :: "stock \<Rightarrow> string" where
  "stock_str s = to_str ''Stock''
     [(''symbol'', symbol s), (''typ'', stock_typ s), (''last_div'', py_str_int (last_div s)),
      (''fixed_div'', pyval_str (fixed_div s)), (''par_value'', py_str_int (par_value s))]"

text \<open>\<open>Trade.__str__\<close> (lines 44, 62--66); the slot \<open>stock\<close> is formatted by \<open>Stock.__str__\<close>.\<close>

definition trade_str :: "formats \<Rightarrow> trade \<Rightarrow> string" where
  "trade_str f t = to_str ''Trade''
     [(''instant'', fmt_instant f (instant t)), (''stock'', stock_str (stock t)), (''is_buy'', py_bool_str (is_buy t)),
      (''qty'', py_str_int (qty t)), (''price'', py_float_repr (price t))]"

text \<open>The loop of \<open>pretty_print\<close> (lines 138--140): one line per item, counting them.\<close>

fun pp_loop :: "('a \<Rightarrow> string) \<Rightarrow> nat \<Rightarrow> 'a list \<Rightarrow> nat \<times> string list" where
  "pp_loop sh count [] = (count, [])"
| "pp_loop sh count (x # xs) = (let (c, ls) = pp_loop sh (count + 1) xs in (c, sh x # ls))"

text \<open>\<open>pretty_print(iterable)\<close> (lines 136--142).\<close>

definition pretty_print :: "('a \<Rightarrow> string) \<Rightarrow> 'a list \<Rightarrow> string list" where
  "pretty_print sh items =
     (let (count, ls) = pp_loop sh 0 items in if count = 0 then ls @ [''No items to show!''] else ls)"

text \<open>
  The functions of the dict \<open>actions\<close> (lines 151--163) by name, and their
  docstrings \<open>fn.__doc__\<close> as Python 3.12 keeps them (continuation lines
  with their indentation); \<open>pretty_print\<close> has none.
\<close>

definition actions :: "(string \<times> string) list" where
  "actions = [(''help'', ''print_help''), (''dividend_yield'', ''calc_div_yield''), (''p_to_e_ratio'', ''calc_ratio''),
     (''buy'', ''buy''), (''sell'', ''sell''), (''volume_weighted_price'', ''calc_volume_weighted_price''),
     (''gbce'', ''gbce''), (''show_trades'', ''pretty_print''), (''show_stocks'', ''pretty_print''),
     (''exit'', ''q''), (''quit'', ''q'')]"

definition fn_doc :: "string \<Rightarrow> string option" where
  "fn_doc fn =
     (if fn = ''print_help'' then Some ''Prints help''
      else if fn = ''calc_div_yield'' then
        Some ''Calculates dividend yield for the given stock and price. Example: dividend_yield POP 2''
      else if fn = ''calc_ratio'' then Some ''NOT YET IMPLEMENTED''
      else if fn = ''buy'' then
        Some (''Creates a buy trade against the provided stock for the given quantity and price.'' @ nl @
              ''    For example to buy 5 tea at a price of 1.2 per share, type: buy TEA 5 1.2'')
      else if fn = ''sell'' then Some ''Similar to buy command, but it creates a sell trade instead''
      else if fn = ''calc_volume_weighted_price'' then
        Some (''Calculates the volume weighted stock price for the given stock based on'' @ nl @
              ''    trading activity in the past 5 minutes. Example: volume_weighted_price ALE'')
      else if fn = ''gbce'' then Some ''Calculates the GBCE all share index for all stocks with trading activity''
      else if fn = ''q'' then Some ''Quits the program''
      else None)"

text \<open>\<open>print_help()\<close> (lines 125--128): \<open>fn.__doc__ or "No help available"\<close>.\<close>

definition print_help :: "string list" where
  "print_help = map (\<lambda>(a, fn). a @ '': '' @
     (case fn_doc fn of Some d \<Rightarrow> if d = [] then ''No help available'' else d | None \<Rightarrow> ''No help available'')) actions"

text \<open>\<open>q()\<close> (lines 131--133); the loop leaves with \<open>break\<close> before calling it.\<close>

definition q_out :: "string list" where
  "q_out = [''Exiting ...'']"

text \<open>\<open>str(result)\<close> in \<open>print(f'Result: {result}')\<close> (line 219).\<close>

fun result_str :: "formats \<Rightarrow> result_val \<Rightarrow> string" where
  "result_str f (RFloat x) = float_str f x"
| "result_str f (RInt i) = py_str_int i"
| "result_str f (RTrade t) = trade_str f t"
| "result_str f RNone = ''None''"

text \<open>What each output of a loop iteration prints: the result (line 219), \<open>print(e)\<close> (line 224), the text of line 222, help and the listings.\<close>

fun render :: "formats \<Rightarrow> console_out \<Rightarrow> string list" where
  "render f (OResult v) = [''Result: '' @ result_str f v]"
| "render f (OError e) = [error_message e]"
| "render f (OText s) = [s]"
| "render f OHelp = print_help"
| "render f (OTrades ts) = pretty_print (trade_str f) ts"
| "render f (OStocks ss) = pretty_print stock_str ss"

text \<open>The banner before the loop (lines 177--184).\<close>

definition banner :: "stock dict \<Rightarrow> string list" where
  "banner d = [''Basic trading app simulator'', replicate 20 (CHR ''#''), ''Available stocks are:'']
     @ pretty_print stock_str (map snd d) @ [replicate 20 (CHR ''#''), ''Available actions are:'']
     @ print_help @ [replicate 20 (CHR ''#'')]"

text \<open>The text written by a sequence of \<open>print\<close> calls, and the prompt \<open>input()\<close> writes (line 188).\<close>

definition print_text :: "string list \<Rightarrow> string" where
  "print_text ls = concat (map (\<lambda>l. l @ nl) ls)"

definition prompt :: string where
  "prompt = ''What would you like to do?'' @ nl"


section \<open>Properties of the output\<close>

lemma pp_loop_eq: "pp_loop sh c xs = (c + length xs, map sh xs)"
  by (induction xs arbitrary: c) simp_all

text \<open>
  C23. \<open>pretty_print\<close> prints one line \<open>str(item)\<close> per item, in order, and
  exactly when there is none the line \<open>No items to show!\<close>: the counting
  loop agrees with the direct definition.
\<close>

theorem pretty_print_eq:
  "pretty_print sh items = (if items = [] then [''No items to show!''] else map sh items)"
  by (simp add: pretty_print_def pp_loop_eq)

text \<open>
  The screen before the first prompt: the title, the five stocks of
  the catalog in insertion order as \<open>Stock.__str__\<close> writes them, and the
  help of the eleven actions, where \<open>show_trades\<close> and \<open>show_stocks\<close> have
  no docstring.
\<close>

theorem banner_initial:
  "rbind init_state (\<lambda>st. Inr (banner (sim_stocks st))) = Inr
     ([''Basic trading app simulator'', ''####################'', ''Available stocks are:'',
       ''Stock(symbol: TEA, typ: common, last_div: 0, fixed_div: None, par_value: 100)'',
       ''Stock(symbol: POP, typ: common, last_div: 8, fixed_div: None, par_value: 100)'',
       ''Stock(symbol: ALE, typ: common, last_div: 23, fixed_div: None, par_value: 60)'',
       ''Stock(symbol: GIN, typ: preferred, last_div: 8, fixed_div: 2, par_value: 100)'',
       ''Stock(symbol: JOE, typ: common, last_div: 13, fixed_div: None, par_value: 250)'',
       ''####################'', ''Available actions are:'',
       ''help: Prints help'',
       ''dividend_yield: Calculates dividend yield for the given stock and price. Example: dividend_yield POP 2'',
       ''p_to_e_ratio: NOT YET IMPLEMENTED'',
       ''buy: Creates a buy trade against the provided stock for the given quantity and price.'' @ nl @
         ''    For example to buy 5 tea at a price of 1.2 per share, type: buy TEA 5 1.2'',
       ''sell: Similar to buy command, but it creates a sell trade instead'',
       ''volume_weighted_price: Calculates the volume weighted stock price for the given stock based on'' @ nl @
         ''    trading activity in the past 5 minutes. Example: volume_weighted_price ALE'',
       ''gbce: Calculates the GBCE all share index for all stocks with trading activity'',
       ''show_trades: No help available'', ''show_stocks: No help available'',
       ''exit: Quits the program'', ''quit: Quits the program'', ''####################''])"
  by (simp add: init_state_def initial_stocks_eq nl_def) code_simp

end
