(* ===== verification/Session.thy ===== *)
theory Session
  imports Console "HOL-Library.Stream"
begin

text \<open>
  The loop \<open>while True\<close> of \<open>src/Trading_sim.py\<close> (lines 186--224) as a
  whole, reading an unbounded input: \<open>input()\<close> returns the successive lines
  of a stream, so the loop returns only when a line asks to leave it
  (\<open>exit\<close>, \<open>quit\<close>: the \<open>break\<close> of line 194) or raises an exception the
  loop does not catch. It is a \<open>partial_function (option)\<close>: \<open>None\<close> is a loop
  that never returns. Its finite prefixes are the sessions \<open>run\<close> of
  theory \<open>Simulator\<close>.
\<close>

text \<open>The test \<open>actions[action] is q\<close> (lines 188--194): the first word, lower-cased, is \<open>exit\<close> or \<open>quit\<close>.\<close>

definition exit_line :: "string \<Rightarrow> bool" where
  "exit_line l \<longleftrightarrow> (case py_split (py_strip l) of [] \<Rightarrow> False | a # _ \<Rightarrow> py_lower a = ''exit'' \<or> py_lower a = ''quit'')"

text \<open>
  The loop (lines 186--224): one line of the input per iteration,
  \<open>clk i\<close> the clock while the \<open>i\<close>-th line is processed. It returns the
  state and how the loop was left.
\<close>

partial_function (option) main_loop :: "(nat \<Rightarrow> nat \<Rightarrow> int) \<Rightarrow> nat \<Rightarrow> sim_state \<Rightarrow> string stream \<Rightarrow> (sim_state \<times> status) option" where
  "main_loop clk i st inp =
     (case handle_line (clk i) st (shd inp) of
        Continue st' _ \<Rightarrow> main_loop clk (Suc i) st' (stl inp)
      | Exit \<Rightarrow> Some (st, Exited)
      | Crash e \<Rightarrow> Some (st, Crashed e))"

text \<open>
  The text the loop writes to standard output while it processes the lines
  of a session: for each line the prompt of \<open>input()\<close> (line 188), then
  what the iteration prints. Leaving the loop prints nothing more; the
  traceback of an uncaught exception goes to standard error.
\<close>

fun session_out :: "formats \<Rightarrow> (nat \<Rightarrow> nat \<Rightarrow> int) \<Rightarrow> nat \<Rightarrow> sim_state \<Rightarrow> string list \<Rightarrow> string" where
  "session_out f clk i st [] = []"
| "session_out f clk i st (l # ls) = prompt @
     (case handle_line (clk i) st l of
        Continue st' out \<Rightarrow> print_text (concat (map (render f) out)) @ session_out f clk (Suc i) st' ls
      | Exit \<Rightarrow> []
      | Crash e \<Rightarrow> [])"

text \<open>
  Standard output of the program up to the point where it waits for the
  next line or has ended: the banner (lines 177--184), then the session,
  then the next prompt if the loop is still running.
\<close>

definition program_out :: "formats \<Rightarrow> (nat \<Rightarrow> nat \<Rightarrow> int) \<Rightarrow> string list \<Rightarrow> string" where
  "program_out f clk ls =
     (case init_state of
        Inl e \<Rightarrow> []
      | Inr st \<Rightarrow> print_text (banner (sim_stocks st)) @ session_out f clk 0 st ls @
                  (if snd (run clk 0 st ls) = Waiting then prompt else []))"

text \<open>An empty registry and ledger, used in the examples.\<close>

definition st_empty :: sim_state where "st_empty = \<lparr>sim_stocks = [], sim_trades = []\<rparr>"

section \<open>Properties of the loop\<close>

lemma run_append:
  "run clk i st (xs @ ys) = (case run clk i st xs of (st', Waiting) \<Rightarrow> run clk (i + length xs) st' ys | r \<Rightarrow> r)"
proof (induction xs arbitrary: i st)
  case Nil
  then show ?case by simp
next
  case (Cons l xs)
  then show ?case by (cases "handle_line (clk i) st l") (simp_all split: prod.splits status.splits)
qed

lemma main_loop_shift:
  "main_loop clk i st (ls @- inp) =
     (case run clk i st ls of (st', Waiting) \<Rightarrow> main_loop clk (i + length ls) st' inp | r \<Rightarrow> Some r)"
proof (induction ls arbitrary: i st)
  case Nil
  then show ?case by simp
next
  case (Cons l ls)
  then show ?case
    by (cases "handle_line (clk i) st l") (simp_all add: main_loop.simps [of clk i st] split: prod.splits status.splits)
qed

lemma main_loop_run:
  assumes "main_loop clk i st inp = Some r"
  shows "\<exists>n. run clk i st (stake n inp) = r \<and> snd r \<noteq> Waiting"
proof (rule main_loop.raw_induct [where P = "\<lambda>clk i st inp r. \<exists>n. run clk i st (stake n inp) = r \<and> snd r \<noteq> Waiting", OF _ assms])
  fix f clk i st inp r
  assume IH: "\<And>c i st inp r. f c i st inp = Some r \<Longrightarrow> \<exists>n. run c i st (stake n inp) = r \<and> snd r \<noteq> Waiting"
    and eq: "(case handle_line (clk i) st (shd inp) of
        Continue st' x \<Rightarrow> f clk (Suc i) st' (stl inp)
      | Exit \<Rightarrow> Some (st, Exited) | Crash e \<Rightarrow> Some (st, Crashed e)) = Some r"
  show "\<exists>n. run clk i st (stake n inp) = r \<and> snd r \<noteq> Waiting"
  proof (cases "handle_line (clk i) st (shd inp)")
    case (Continue st' out)
    with eq have "f clk (Suc i) st' (stl inp) = Some r" by simp
    from IH [OF this] obtain n where "run clk (Suc i) st' (stake n (stl inp)) = r" and "snd r \<noteq> Waiting"
      by blast
    with Continue show ?thesis by (intro exI [of _ "Suc n"]) simp
  next
    case Exit
    with eq show ?thesis by (intro exI [of _ "Suc 0"]) auto
  next
    case (Crash e)
    with eq show ?thesis by (intro exI [of _ "Suc 0"]) auto
  qed
qed

lemma run_main_loop:
  assumes "run clk i st (stake n inp) = r" and "snd r \<noteq> Waiting"
  shows "main_loop clk i st inp = Some r"
proof -
  have "main_loop clk i st inp = main_loop clk i st (stake n inp @- sdrop n inp)"
    by (simp add: stake_sdrop)
  also have "\<dots> = Some r" using assms by (cases r) (auto simp: main_loop_shift split: status.splits)
  finally show ?thesis .
qed

lemma handle_line_exit: "exit_line l \<Longrightarrow> handle_line clock st l = Exit"
  by (auto simp: exit_line_def handle_line_def action_names_def split: list.splits)

lemma handle_line_Exit: "handle_line clock st l = Exit \<Longrightarrow> exit_line l"
  by (auto simp: exit_line_def handle_line_def Let_def split: list.splits if_splits sum.splits)

lemma run_exit_line: "exit_line l \<Longrightarrow> snd (run clk i st (ls @ [l])) \<noteq> Waiting"
  by (auto simp: run_append handle_line_exit split: prod.splits status.splits)

lemma run_Exited: "run clk i st ls = (st', Exited) \<Longrightarrow> \<exists>l\<in>set ls. exit_line l"
proof (induction ls arbitrary: i st)
  case Nil
  then show ?case by simp
next
  case (Cons l ls)
  then show ?case
    by (cases "handle_line (clk i) st l") (auto dest: handle_line_Exit)
qed

lemma session_out_append:
  "session_out f clk i st (xs @ ys) = session_out f clk i st xs @
     (case run clk i st xs of (st', Waiting) \<Rightarrow> session_out f clk (i + length xs) st' ys | _ \<Rightarrow> [])"
proof (induction xs arbitrary: i st)
  case Nil
  then show ?case by simp
next
  case (Cons l xs)
  then show ?case by (cases "handle_line (clk i) st l") (simp_all split: prod.splits status.splits)
qed

lemma handle_line_show_trades: "handle_line clock st ''show_trades'' = Continue st [OTrades (sim_trades st)]"
  by code_simp

text \<open>
  The loop returns exactly when some finite prefix of the input, run
  line by line, leaves it, and it returns what that prefix leads to: the
  state before the line that left the loop and whether that line was
  \<open>exit\<close>/\<open>quit\<close> or an uncaught exception.
\<close>

lemma main_loop_returns:
  "main_loop clk i st inp = Some r \<longleftrightarrow> (\<exists>n. run clk i st (stake n inp) = r \<and> snd r \<noteq> Waiting)"
  by (blast intro: run_main_loop dest: main_loop_run)

text \<open>
  C7. Whatever the earlier lines do, once the input contains a line whose
  first word is \<open>exit\<close> or \<open>quit\<close> (in any case), the loop returns.
\<close>

theorem main_loop_exit_returns:
  assumes "exit_line (inp !! k)"
  shows "\<exists>r. main_loop clk i st inp = Some r"
proof -
  have "snd (run clk i st (stake (Suc k) inp)) \<noteq> Waiting"
    using run_exit_line [OF assms, of clk i st "stake k inp"] by (simp only: stake_Suc simp_thms)
  then show ?thesis by (blast intro: run_main_loop)
qed

text \<open>
  C26. The loop leaves normally only through \<open>exit\<close>/\<open>quit\<close>: if it returns
  with status \<open>Exited\<close>, some line of the input was such a command.
\<close>

theorem main_loop_exits_at_exit_line:
  assumes "main_loop clk i st inp = Some (st', Exited)"
  shows "\<exists>k. exit_line (inp !! k)"
proof -
  from main_loop_run [OF assms] obtain n where "run clk i st (stake n inp) = (st', Exited)" by blast
  from run_Exited [OF this] obtain l where "l \<in> set (stake n inp)" and "exit_line l" by blast
  then show ?thesis by (auto simp: in_set_conv_nth)
qed

text \<open>
  C24. Leaving the loop prints nothing: after the prompt that reads
  \<open>exit\<close> or \<open>quit\<close> nothing more is written and no later line is read. In
  particular the message \<open>Exiting ...\<close> of \<open>q()\<close>, the function the action
  table names for these commands, never appears.
\<close>

theorem session_out_exit:
  assumes "exit_line l"
  shows "session_out f clk i st (l # ls) = prompt"
  using assms by (simp add: handle_line_exit)

text \<open>
  C22. At any point of a session still running, \<open>show_trades\<close> prints the
  ledger as it stands, in insertion order, one \<open>Trade.__str__\<close> per
  line, or \<open>No items to show!\<close> if it is empty.
\<close>

theorem session_show_trades:
  assumes "run clk i st ls = (st', Waiting)"
  shows "session_out f clk i st (ls @ [''show_trades'']) = session_out f clk i st ls @ prompt @
     print_text (if sim_trades st' = [] then [''No items to show!''] else map (trade_str f) (sim_trades st'))"
  using assms by (simp add: session_out_append handle_line_show_trades pretty_print_def pp_loop_eq)

theorem main_loop_exit_returns_witness:
  "exit_line (sconst ''QUIT'' !! 3) \<and> (\<exists>r. main_loop (\<lambda>_ _. 0) 0 st_empty (sconst ''QUIT'') = Some r)"
proof -
  have e: "exit_line (sconst ''QUIT'' !! 3)" by simp code_simp
  show ?thesis using e main_loop_exit_returns [OF e] by blast
qed

theorem main_loop_exits_at_exit_line_witness:
  "main_loop (\<lambda>_ _. 0) 0 st_empty (['''', '' Quit''] @- sconst ''help'') = Some (st_empty, Exited) \<and>
   (\<exists>k. exit_line ((['''', '' Quit''] @- sconst ''help'') !! k))"
proof -
  have r: "run (\<lambda>_ _. 0) 0 st_empty (stake 2 (['''', '' Quit''] @- sconst ''help'')) = (st_empty, Exited)"
    by (simp add: st_empty_def numeral_2_eq_2) code_simp
  have m: "main_loop (\<lambda>_ _. 0) 0 st_empty (['''', '' Quit''] @- sconst ''help'') = Some (st_empty, Exited)"
    by (rule run_main_loop [OF r]) simp
  from m main_loop_exits_at_exit_line [OF m] show ?thesis by blast
qed


theorem session_out_exit_witness:
  "exit_line '' eXiT'' \<and>
   session_out \<lparr>fmt_real = \<lambda>_. ''0.0'', fmt_instant = \<lambda>_. ''T''\<rparr> (\<lambda>_ _. 0) 0 st_empty ['' eXiT'', ''help''] = prompt"
proof -
  have e: "exit_line '' eXiT''" by code_simp
  from e session_out_exit [OF e] show ?thesis by simp
qed

theorem session_show_trades_witness:
  "session_out \<lparr>fmt_real = \<lambda>_. ''2.0'', fmt_instant = \<lambda>_. ''T''\<rparr> (\<lambda>_ _. 0) 0 \<lparr>sim_stocks = [(''TEA'', tea)], sim_trades = []\<rparr>
     [''buy TEA 3 2'', ''show_trades''] =
   session_out \<lparr>fmt_real = \<lambda>_. ''2.0'', fmt_instant = \<lambda>_. ''T''\<rparr> (\<lambda>_ _. 0) 0 \<lparr>sim_stocks = [(''TEA'', tea)], sim_trades = []\<rparr>
     [''buy TEA 3 2''] @ prompt @
   print_text [''Trade(instant: T, stock: Stock(symbol: TEA, typ: common, last_div: 0, fixed_div: None, par_value: 100), is_buy: True, qty: 3, price: 2.0)'']"
proof -
  have r: "run (\<lambda>_ _. 0) 0 \<lparr>sim_stocks = [(''TEA'', tea)], sim_trades = []\<rparr> [''buy TEA 3 2''] =
    (\<lparr>sim_stocks = [(''TEA'', tea)], sim_trades = [\<lparr>instant = 0, stock = tea, is_buy = True, qty = 3, price = Fin 2\<rparr>]\<rparr>, Waiting)"
    by (simp add: tea_def) code_simp
  have t: "trade_str \<lparr>fmt_real = \<lambda>_. ''2.0'', fmt_instant = \<lambda>_. ''T''\<rparr> \<lparr>instant = 0, stock = tea, is_buy = True, qty = 3, price = Fin 2\<rparr> =
    ''Trade(instant: T, stock: Stock(symbol: TEA, typ: common, last_div: 0, fixed_div: None, par_value: 100), is_buy: True, qty: 3, price: 2.0)''"
    by (simp add: tea_def) code_simp
  show ?thesis using session_show_trades [OF r, of "\<lparr>fmt_real = \<lambda>_. ''2.0'', fmt_instant = \<lambda>_. ''T''\<rparr>"] t
    by (simp del: session_out.simps)
qed

end
