(* ===== verification/Spec2Isabelle.thy ===== *)
theory Spec2Isabelle
  imports Session
begin

text \<open>
  \<^bold>\<open>Verification of SimpleTradingSimulator\<close> (\<open>src/Trading_sim.py\<close>).

  \<^bold>\<open>The program.\<close> A console loop (lines 150--224) reads one command per
  line and acts on two pieces of state: the dict \<open>stocks\<close>, a fixed catalog
  of five \<open>Stock\<close> objects keyed by symbol (the security registry), and the
  list \<open>trades\<close> of \<open>Trade\<close> objects (the trade ledger). \<open>buy\<close>/\<open>sell\<close>
  construct a trade, which is appended; \<open>dividend_yield\<close>,
  \<open>volume_weighted_price\<close> and \<open>gbce\<close> call the metrics engine on the
  registry and the ledger; \<open>show_trades\<close>/\<open>show_stocks\<close> list them;
  \<open>exit\<close>/\<open>quit\<close> leave. Errors raised as \<open>ValueError\<close> or \<open>TypeError\<close>
  are printed and the loop goes on; any other exception ends the program.

  \<^bold>\<open>Theories.\<close>
  \<^item> \<open>Prelude\<close>: the exceptions (\<open>py_error\<close>, with \<open>StatisticsError\<close> a
    \<open>ValueError\<close>), results \<open>py_error + 'a\<close> sequenced by \<open>rbind\<close> and
    \<open>map_result\<close>, dicts as association lists in insertion order
    (\<open>dict_set\<close> is \<open>AList.update\<close>, \<open>dict_getitem\<close> raises \<open>KeyError\<close>).
  \<^item> \<open>PyFloat\<close>: \<open>float\<close> as \<open>Fin r | PosInf | NegInf | NaN\<close> with the IEEE
    rules of \<open>+ * / <=\<close> (\<open>pf_add\<close>, \<open>pf_mul\<close>, \<open>pf_div\<close>, \<open>pf_le\<close>),
    \<open>py_truediv\<close> raising \<open>ZeroDivisionError\<close>, and \<open>math.log\<close>,
    \<open>math.exp\<close>, \<open>math.fsum\<close>.
  \<^item> \<open>Binary64\<close>: conversion of an exact fraction \<open>a / b\<close> to the nearest
    IEEE binary64 value, ties to even (\<open>b64_of_frac\<close>): the binary
    exponent from \<open>bitlen\<close> (\<open>frac_exp\<close>), 53 significant bits down to the
    subnormal unit \<open>2 ^ -1074\<close> (\<open>ulp_exp\<close>), integer rounding
    (\<open>round_div\<close>), overflow to \<open>inf\<close> from \<open>2 ^ 1024 - 2 ^ 970\<close> on;
    all in integer arithmetic, so that it evaluates on literals such as
    \<open>1e-400\<close>. Its lemmas bound the rounding error (\<open>round_frac_err\<close>)
    and locate overflow and underflow.
  \<^item> \<open>PyStr\<close>: \<open>lower\<close>, \<open>strip\<close>, \<open>split()\<close>, \<open>startswith\<close>, and
    \<open>int()\<close>/\<open>float()\<close> of strings following Python's literal grammar
    (signs, underscores, fractions, exponents, \<open>inf\<close>, \<open>nan\<close>); a
    decimal literal is read exactly (\<open>parse_decimal\<close>, \<open>dec_frac\<close>) and
    rounded by \<open>b64_of_frac\<close>, as CPython's correctly rounded
    \<open>strtod\<close> does.
  \<^item> \<open>Stock\<close>: record \<open>stock\<close> for class \<open>Stock\<close>, its constructor
    \<open>Stock\<close> (lines 18--34), the catalog \<open>initial_stocks\<close> (165--173); the
    specification's security \<open>security\<close>/\<open>kind\<close> and the abstraction
    \<open>abs_stock\<close>, with the invariant \<open>wf_stock\<close>.
  \<^item> \<open>Trade\<close>: record \<open>trade\<close>, constructor \<open>Trade\<close> (46--60), \<open>buy\<close>,
    \<open>sell\<close> (69--77); \<open>valid_trade\<close> is what the constructor checks,
    \<open>spec_trade\<close> what the specification asks (finite positive price).
  \<^item> \<open>Metrics\<close>: \<open>calc_div_yield\<close> (80--88), \<open>calc_ratio\<close> (91--93),
    \<open>calc_volume_weighted_price\<close> with its loop \<open>vwap_loop\<close> (96--108),
    \<open>gbce\<close> with its loop \<open>gbce_loop\<close> (111--122) and Python 3.12's
    \<open>geometric_mean\<close>/\<open>fmean\<close>; the specification's formulas
    \<open>spec_div_yield\<close>, \<open>spec_vwap\<close>, \<open>active_vwaps\<close>.
  \<^item> \<open>Simulator\<close>: the loop body \<open>handle_line\<close> on the state \<open>sim_state\<close>
    (registry and ledger): split and lower-case, unknown actions,
    \<open>exit\<close>/\<open>quit\<close>, the argument reshaping of each \<open>match\<close> case
    (\<open>trade_command\<close>, \<open>yield_command\<close>, \<open>vwap_command\<close>, \<open>dispatch\<close>),
    CPython's arity \<open>TypeError\<close>s, the \<open>on_exit\<close> append, the \<open>except\<close>
    clause (\<open>loop_catches\<close>); \<open>run\<close> runs a session of finitely many
    lines, \<open>reachable\<close> is the set of states the loop can reach.
  \<^item> \<open>FloatRepr\<close>: \<open>str()\<close>/\<open>repr()\<close> of a float as CPython writes it
    (\<open>py_float_repr\<close>): the shortest decimal that reads back as the same
    float, the nearest among the shortest (\<open>repr_search\<close> over 1 to 17
    significant digits, \<open>repr_cands\<close>, \<open>strip_zeros\<close>), laid out by
    \<open>format_short\<close> in positional or exponent form with \<open>.0\<close> added to an
    integral value. Its lemmas show that 17 digits always read back
    (\<open>repr_17_digits\<close>, from the stability of rounding
    \<open>round_frac_stable\<close>), that at most 17 digits are printed
    (\<open>repr_digits_17\<close>), and that \<open>float()\<close> of the text is the float again
    (\<open>float_repr_reads_back\<close>, \<open>py_float_repr_reads_back\<close>).
  \<^item> \<open>Console\<close>: what is printed: \<open>to_str\<close> over \<open>__slots__\<close> (lines
    11--12), \<open>stock_str\<close>/\<open>trade_str\<close> for \<open>__str__\<close> (the price by
    \<open>py_float_repr\<close>), \<open>pretty_print\<close>
    with its counting loop \<open>pp_loop\<close> (136--142), \<open>print_help\<close> over the
    table \<open>actions\<close> and the docstrings \<open>fn_doc\<close> (125--128), \<open>q\<close>, the
    banner (177--184), and \<open>render\<close>, the lines each output of an
    iteration prints (211--224).
  \<^item> \<open>Session\<close>: the loop \<open>while True\<close> itself, \<open>main_loop\<close>, reading an
    unbounded stream of lines, with the \<open>break\<close> test \<open>exit_line\<close>; and
    \<open>session_out\<close>/\<open>program_out\<close>, the text a session writes to standard
    output.
  \<^item> this theory: properties of whole sessions.

  \<^bold>\<open>Time.\<close> Every \<open>datetime.now(UTC)\<close> is a parameter: an instant is an
  \<open>int\<close> of microseconds, \<open>clock k\<close> is the \<open>k\<close>-th reading taken while
  one line is processed (the trade constructor and \<open>calc_volume_weighted_price\<close>
  read it once; \<open>gbce\<close> reads it once per stock), and a session takes one
  such clock per line.

  \<^bold>\<open>Loops and termination.\<close> The \<open>for\<close> loops of the program run over
  finite lists and are structural recursion. The loop \<open>while True\<close> runs
  as long as the user types: \<open>main_loop\<close> is a \<open>partial_function
  (option)\<close> over a stream of lines, \<open>None\<close> when it never returns. No fuel
  is used. That it returns is proved as such: as soon as an
  \<open>exit\<close>/\<open>quit\<close> line is read, whatever the lines before it do; the lemma \<open>main_loop_returns\<close> relates a
  return to a finite prefix of the input run by \<open>run\<close>. The repr search
  is structural recursion with 16 checked digit counts and the nearest
  17-digit decimal last, which always reads back (\<open>repr_17_digits\<close>).

  \<^bold>\<open>What is proved.\<close> Refinement of each metric against the
  specification's formula on trades with positive quantity and finite
  positive price (volume-weighted price, GBCE index as
  \<open>(prod p_i) ^ (1/n)\<close>, dividend yield through \<open>abs_stock\<close>); the strict
  five-minute window; the equivalence of \<open>gbce\<close>, which recognises the
  no-activity exception by its text, with a version branching on a tag
  (the specification's design note); the validation of \<open>Stock\<close> and
  \<open>Trade\<close> and what they store; the loop: append-only ledger, unchanged
  registry, unchanged state after a printed error, the invariant of the
  reachable states, the effect of a \<open>buy\<close>/\<open>sell\<close> line, the return of
  \<open>while True\<close> at an \<open>exit\<close>/\<open>quit\<close> line and only there, and (below) a
  time-ordered ledger when the clock does not go back; the output:
  \<open>pretty_print\<close> against its direct definition, the start-up screen,
  \<open>show_trades\<close> listing the ledger; and, below, properties spanning the
  theories: the specification's examples typed at the console print the
  values it gives. Defects and divergences shown as
  theorems: \<open>nan\<close> prices pass validation and turn the index into \<open>nan\<close>,
  \<open>inf\<close> prices make the volume-weighted price \<open>inf\<close>; a positive price text too small for a float (\<open>1e-400\<close>) is rounded
  to \<open>0.0\<close> and rejected, one too large (\<open>1e309\<close>) becomes \<open>inf\<close>
  and is accepted; the undefined
  \<open>valueError\<close> turns a bad price into an uncaught \<open>NameError\<close>; a missing
  argument is an uncaught \<open>IndexError\<close>; the \<open>Stock\<close> constructor accepts
  any type string; \<open>gbce\<close> reads the clock once per stock, so its window
  moves during one computation; \<open>exit\<close>/\<open>quit\<close> never run \<open>q()\<close>, so
  \<open>Exiting ...\<close> is never printed; \<open>help\<close> ends with a spurious
  \<open>Result: None\<close>.

  \<^bold>\<open>Floats.\<close> The value \<open>float(price)\<close> gives a price text is the
  binary64 value CPython computes (\<open>Binary64\<close>): \<open>1.2\<close> is
  \<open>5404319552844595 / 2 ^ 52\<close>, \<open>1e-400\<close> is \<open>0.0\<close>, \<open>1e309\<close> is
  \<open>inf\<close>; the lemmas \<open>py_float_of_str_nearest\<close>, \<open>py_float_of_str_overflow\<close>
  and \<open>py_float_of_str_underflow\<close> state that rounding. \<open>str()\<close> of a
  trade's price is CPython's repr of that value. The arithmetic of the
  metrics on these values is exact real arithmetic: the refinement
  theorems hold of the exact values and the program's results differ from
  them by its rounding errors, so that, for instance, the program's
  volume-weighted price may exceed every price of its window by an ulp
  (\<open>0.1 * 3 / 3\<close> is \<open>0.10000000000000002\<close>); no bound of that kind is
  stated here.

  \<^bold>\<open>Not modelled.\<close> Rounding, overflow and signed zeros of the
  arithmetic on finite floats (\<open>+ * / **\<close>, \<open>log\<close>, \<open>exp\<close>, \<open>fsum\<close>
  compute exact reals: a rounded model would need a rounded \<open>log\<close> and
  \<open>exp\<close>, which CPython takes from the C library without a guaranteed
  error bound), and so \<open>str\<close> of a float the metrics compute, which
  is a parameter of the output (\<open>fmt_real\<close>), as is \<open>str\<close> of a \<open>datetime\<close>
  (\<open>fmt_instant\<close>). Non-ASCII case mapping, white space and digits.
  \<open>EOFError\<close> at the end of a finite input (a session whose lines run out
  is \<open>Waiting\<close>; the unbounded input of \<open>main_loop\<close> never ends). The
  traceback written to standard error. Escapes in the \<open>repr\<close> of strings
  inside error messages. Docstrings are those of Python 3.12, which keeps
  their indentation (3.13 strips it).

  \<^bold>\<open>Plan for later work.\<close> The GBCE example of the specification
  over several stocks through the console; the \<open>fsum\<close> error path (unreachable here, since every logarithm is of a
  positive value); the index on infinite prices.
\<close>

section \<open>Sessions\<close>

lemma run_ledger_sorted_gen:
  assumes "run clk i st ls = (st', s)" and "sorted (map instant (sim_trades st))"
    and "\<forall>t\<in>set (sim_trades st). instant t \<le> clk i 0" and "\<forall>j. clk j 0 \<le> clk (Suc j) 0"
  shows "sorted (map instant (sim_trades st'))"
  using assms(1-3)
proof (induction ls arbitrary: i st)
  case Nil
  then show ?case by simp
next
  case (Cons l ls)
  show ?case
  proof (cases "handle_line (clk i) st l")
    case (Continue st1 out)
    from handle_line_effect [OF Continue] have a: "appends_trade (clk i) st st1" ..
    have s1: "sorted (map instant (sim_trades st1))" and b1: "\<forall>t\<in>set (sim_trades st1). instant t \<le> clk i 0"
      using a Cons.prems(2,3) by (auto simp: appends_trade_def sorted_append)
    have "\<forall>t\<in>set (sim_trades st1). instant t \<le> clk (Suc i) 0"
      using b1 assms(4) order_trans by blast
    moreover have "run clk (Suc i) st1 ls = (st', s)" using Cons.prems(1) Continue by simp
    ultimately show ?thesis using s1 Cons.IH by blast
  next
    case Exit
    with Cons.prems show ?thesis by simp
  next
    case (Crash e)
    with Cons.prems show ?thesis by simp
  qed
qed

text \<open>
  C30. When the clock does not go back between lines, a session started
  from the start-up state leaves the ledger ordered by time: insertion order
  is time order, as the specification assumes.
\<close>

theorem session_ledger_time_ordered:
  assumes "init_state = Inr st0" and "\<forall>j. clk j 0 \<le> clk (Suc j) 0" and "run clk 0 st0 ls = (st', s)"
  shows "sorted (map instant (sim_trades st'))"
proof -
  have "sim_trades st0 = []" using assms(1) by (auto simp: init_state_def rbind_eq_Inr)
  then show ?thesis using run_ledger_sorted_gen [OF assms(3) _ _ assms(2)] by simp
qed

theorem session_ledger_time_ordered_witness:
  "map instant (sim_trades (fst (run (\<lambda>j _. int j) 0
      \<lparr>sim_stocks = [(''TEA'', \<lparr>symbol = ''TEA'', stock_typ = ''common'', last_div = 0, fixed_div = PyNone, par_value = 100\<rparr>),
     (''POP'', \<lparr>symbol = ''POP'', stock_typ = ''common'', last_div = 8, fixed_div = PyNone, par_value = 100\<rparr>),
     (''ALE'', \<lparr>symbol = ''ALE'', stock_typ = ''common'', last_div = 23, fixed_div = PyNone, par_value = 60\<rparr>),
     (''GIN'', \<lparr>symbol = ''GIN'', stock_typ = ''preferred'', last_div = 8, fixed_div = PyInt 2, par_value = 100\<rparr>),
     (''JOE'', \<lparr>symbol = ''JOE'', stock_typ = ''common'', last_div = 13, fixed_div = PyNone, par_value = 250\<rparr>)],
       sim_trades = []\<rparr> [''buy TEA 1 1'', ''show_trades'', ''sell POP 2 3'']))) = [0, 2] \<and>
   sorted [0::int, 2]"
proof -
  let ?st0 = "\<lparr>sim_stocks = [(''TEA'', \<lparr>symbol = ''TEA'', stock_typ = ''common'', last_div = 0, fixed_div = PyNone, par_value = 100\<rparr>),
     (''POP'', \<lparr>symbol = ''POP'', stock_typ = ''common'', last_div = 8, fixed_div = PyNone, par_value = 100\<rparr>),
     (''ALE'', \<lparr>symbol = ''ALE'', stock_typ = ''common'', last_div = 23, fixed_div = PyNone, par_value = 60\<rparr>),
     (''GIN'', \<lparr>symbol = ''GIN'', stock_typ = ''preferred'', last_div = 8, fixed_div = PyInt 2, par_value = 100\<rparr>),
     (''JOE'', \<lparr>symbol = ''JOE'', stock_typ = ''common'', last_div = 13, fixed_div = PyNone, par_value = 250\<rparr>)],
       sim_trades = []\<rparr>"
  let ?ls = "[''buy TEA 1 1'', ''show_trades'', ''sell POP 2 3'']"
  have i: "init_state = Inr ?st0" by (simp add: init_state_def initial_stocks_eq)
  have m: "\<forall>j. (\<lambda>j (_::nat). int j) j 0 \<le> (\<lambda>j (_::nat). int j) (Suc j) 0" by simp
  have r: "map instant (sim_trades (fst (run (\<lambda>j _. int j) 0 ?st0 ?ls))) = [0, 2]" by code_simp
  from session_ledger_time_ordered [OF i m, of ?ls "fst (run (\<lambda>j _. int j) 0 ?st0 ?ls)" "snd (run (\<lambda>j _. int j) 0 ?st0 ?ls)"] r
  show ?thesis by simp
qed

lemma run_ledger_inv: "ledger_inv st \<Longrightarrow> run clk i st ls = (st', s) \<Longrightarrow> ledger_inv st'"
proof (induction ls arbitrary: i st)
  case Nil
  then show ?case by simp
next
  case (Cons l ls)
  then show ?case
    by (cases "handle_line (clk i) st l") (auto intro: ledger_inv_step)
qed

text \<open>
  C25. The line \<open>help\<close> prints the help of every action and then the line
  \<open>Result: None\<close>: the loop prints the return value of \<open>print_help\<close>, since
  \<open>print_result\<close> is left \<open>True\<close> for it.
\<close>

theorem session_help:
  "session_out f clk i st [''help''] = prompt @ print_text (print_help @ [''Result: None''])"
  by simp code_simp

text \<open>
  C10. The examples of the specification, typed at the console after
  start-up, print the values it gives: dividend yield \<open>4.0\<close> for \<open>POP\<close> at
  2 and \<open>0.04\<close> for \<open>GIN\<close> at 50, the two \<open>ALE\<close> trades (100 at 10, 50 at
  20) as recorded, their volume-weighted price \<open>40/3\<close>, and the GBCE
  index over the one stock with activity, again \<open>40/3\<close>.
\<close>

theorem spec_examples_session:
  "rbind init_state (\<lambda>st. Inr (session_out f (\<lambda>_ _. 0) 0 st
     [''dividend_yield POP 2'', ''dividend_yield GIN 50'', ''buy ALE 100 10'', ''buy ALE 50 20'', ''volume_weighted_price ALE'', ''gbce''])) =
   Inr (prompt @ print_text [''Result: '' @ fmt_real f 4] @
        prompt @ print_text [''Result: '' @ fmt_real f (1 / 25)] @
        prompt @ print_text [''Result: '' @ trade_str f \<lparr>instant = 0, stock = \<lparr>symbol = ''ALE'', stock_typ = ''common'', last_div = 23, fixed_div = PyNone, par_value = 60\<rparr>,
                                               is_buy = True, qty = 100, price = Fin 10\<rparr>] @
        prompt @ print_text [''Result: '' @ trade_str f \<lparr>instant = 0, stock = \<lparr>symbol = ''ALE'', stock_typ = ''common'', last_div = 23, fixed_div = PyNone, par_value = 60\<rparr>,
                                               is_buy = True, qty = 50, price = Fin 20\<rparr>] @
        prompt @ print_text [''Result: '' @ fmt_real f (40 / 3)] @
        prompt @ print_text [''Result: '' @ fmt_real f (40 / 3)])"
proof -
  let ?d = "[(''TEA'', \<lparr>symbol = ''TEA'', stock_typ = ''common'', last_div = 0, fixed_div = PyNone, par_value = 100\<rparr>),
     (''POP'', \<lparr>symbol = ''POP'', stock_typ = ''common'', last_div = 8, fixed_div = PyNone, par_value = 100\<rparr>),
     (''ALE'', \<lparr>symbol = ''ALE'', stock_typ = ''common'', last_div = 23, fixed_div = PyNone, par_value = 60\<rparr>),
     (''GIN'', \<lparr>symbol = ''GIN'', stock_typ = ''preferred'', last_div = 8, fixed_div = PyInt 2, par_value = 100\<rparr>),
     (''JOE'', \<lparr>symbol = ''JOE'', stock_typ = ''common'', last_div = 13, fixed_div = PyNone, par_value = 250\<rparr>)]"
  let ?t1 = "\<lparr>instant = 0, stock = \<lparr>symbol = ''ALE'', stock_typ = ''common'', last_div = 23, fixed_div = PyNone, par_value = 60\<rparr>,
              is_buy = True, qty = 100, price = Fin 10\<rparr>"
  let ?t2 = "\<lparr>instant = 0, stock = \<lparr>symbol = ''ALE'', stock_typ = ''common'', last_div = 23, fixed_div = PyNone, par_value = 60\<rparr>,
              is_buy = True, qty = 50, price = Fin 20\<rparr>"
  have i: "init_state = Inr \<lparr>sim_stocks = ?d, sim_trades = []\<rparr>" by (simp add: init_state_def initial_stocks_eq)
  have h1: "handle_line (\<lambda>_. 0) \<lparr>sim_stocks = ?d, sim_trades = []\<rparr> ''dividend_yield POP 2'' =
      Continue \<lparr>sim_stocks = ?d, sim_trades = []\<rparr> [OResult (RFloat (Fin 4))]" by code_simp
  have h2: "handle_line (\<lambda>_. 0) \<lparr>sim_stocks = ?d, sim_trades = []\<rparr> ''dividend_yield GIN 50'' =
      Continue \<lparr>sim_stocks = ?d, sim_trades = []\<rparr> [OResult (RFloat (Fin (1 / 25)))]" by code_simp
  have h3: "handle_line (\<lambda>_. 0) \<lparr>sim_stocks = ?d, sim_trades = []\<rparr> ''buy ALE 100 10'' =
      Continue \<lparr>sim_stocks = ?d, sim_trades = [?t1]\<rparr> [OResult (RTrade ?t1)]" by code_simp
  have h4: "handle_line (\<lambda>_. 0) \<lparr>sim_stocks = ?d, sim_trades = [?t1]\<rparr> ''buy ALE 50 20'' =
      Continue \<lparr>sim_stocks = ?d, sim_trades = [?t1, ?t2]\<rparr> [OResult (RTrade ?t2)]" by code_simp
  have h5: "handle_line (\<lambda>_. 0) \<lparr>sim_stocks = ?d, sim_trades = [?t1, ?t2]\<rparr> ''volume_weighted_price ALE'' =
      Continue \<lparr>sim_stocks = ?d, sim_trades = [?t1, ?t2]\<rparr> [OResult (RFloat (Fin (40 / 3)))]" by code_simp
  have gl: "gbce_loop (\<lambda>_. 0) 0 ?d [?t1, ?t2] [] = Inr [Fin (40 / 3)]" by code_simp
  have gm: "geometric_mean [Fin (40 / 3)] = Inr (Fin (40 / 3))"
    by (simp add: geometric_mean_def fmean_def py_fsum_def py_truediv_def)
  have g: "gbce (\<lambda>_. 0) ?d [?t1, ?t2] = Inr (Fin (40 / 3))"
    by (simp only: gbce_def gl) (simp add: gm)
  have sp: "py_split (py_strip ''gbce'') = [''gbce'']" by code_simp
  have lw: "py_lower ''gbce'' = ''gbce''" by code_simp
  have h6: "handle_line (\<lambda>_. 0) \<lparr>sim_stocks = ?d, sim_trades = [?t1, ?t2]\<rparr> ''gbce'' =
      Continue \<lparr>sim_stocks = ?d, sim_trades = [?t1, ?t2]\<rparr> [OResult (RFloat (Fin (40 / 3)))]"
    by (simp add: handle_line_def sp lw action_names_def dispatch_def g)
  show ?thesis by (simp add: i h1 h2 h3 h4 h5 h6)
qed

end
